theory Spec2Isabelle
  imports Main "HOL-Library.AList"
begin

section \<open>The multi-stage test step of pkg/steps/multi\_stage.go\<close>

text \<open>
  A shallow embedding of \<^verbatim>\<open>multiStageTestStep\<close>. The Go structs are records, the
  cluster client is an explicit object store, every error return is a value, and the
  loops over steps and pods are recursive functions. Functions, constants and methods
  that the file calls but that live in other packages (\<^verbatim>\<open>pkg/api\<close>, \<^verbatim>\<open>pkg/steps/utils\<close>,
  the rest of \<^verbatim>\<open>pkg/steps\<close>) are parameters, collected in the record \<open>Externals\<close>.
\<close>

subsection \<open>Errors\<close>

text \<open>
  The reason of a Kubernetes status error, as far as \<^verbatim>\<open>kerrors.IsAlreadyExists\<close> and
  \<^verbatim>\<open>kerrors.IsNotFound\<close> tell them apart.
\<close>

datatype StatusReason = AlreadyExists | NotFound | OtherReason string

text \<open>
  Go's \<^verbatim>\<open>error\<close> values: a status error of the client, an opaque error of a collaborator,
  \<^verbatim>\<open>fmt.Errorf\<close> with and without a wrapped error, the structured message of \<^verbatim>\<open>runPod\<close>,
  and the aggregate of \<^verbatim>\<open>utilerrors.NewAggregate\<close>. A nil error is \<open>None\<close>.
\<close>

datatype PodStatusText = StatusFailed | StatusTimeout "int option"

datatype error =
    StatusError StatusReason
  | ExternalError string
  | ErrorMsg string
  | Errorf string error
  | PodError string string PodStatusText error
  | Aggregate "error list"

definition IsAlreadyExists :: "error \<Rightarrow> bool" where
  "IsAlreadyExists err = (err = StatusError AlreadyExists)"

definition IsNotFound :: "error \<Rightarrow> bool" where
  "IsNotFound err = (err = StatusError NotFound)"

text \<open>\<^verbatim>\<open>utilerrors.NewAggregate\<close>: nil for an empty list (no list here holds a nil error).\<close>

definition NewAggregate :: "error list \<Rightarrow> error option" where
  "NewAggregate errs = (if errs = [] then None else Some (Aggregate errs))"

subsection \<open>Declared data\<close>

text \<open>\<^verbatim>\<open>api.CredentialReference\<close>: a secret of a donor namespace and where to mount it.\<close>

record CredentialReference =
  cred_Namespace :: string
  cred_Name :: string
  cred_MountPath :: string

record StepDependency =
  dep_Name :: string
  dep_Env :: string

record StepParameter =
  param_Name :: string
  param_Default :: "string option"

record StepLease =
  lease_ResourceType :: string
  lease_Env :: string

text \<open>
  \<^verbatim>\<open>api.LiteralTestStep\<close>. \<open>step_FromImageTag\<close> is what the method \<^verbatim>\<open>FromImageTag()\<close> of
  \<^verbatim>\<open>pkg/api\<close> returns for the step: \<open>Some link\<close> when its second result is true.
  Pointers (\<^verbatim>\<open>*bool\<close>, \<^verbatim>\<open>*int64\<close>) are options; the two durations are only copied.
\<close>

record LiteralTestStep =
  step_As :: string
  step_From :: string
  step_FromImageTag :: "string option"
  step_Commands :: string
  step_ArtifactDir :: string
  step_Resources :: string
  step_Credentials :: "CredentialReference list"
  step_Environment :: "StepParameter list"
  step_Dependencies :: "StepDependency list"
  step_ActiveDeadlineSeconds :: "int option"
  step_TerminationGracePeriodSeconds :: "int option"
  step_ReadonlySharedDir :: bool
  step_OptionalOnSuccess :: "bool option"
  step_Cli :: string

text \<open>
  The name under which a credential is mirrored into the test namespace. The source
  writes the expression twice, at line 299 (\<^verbatim>\<open>createCredentials\<close>) and at line 511
  (\<^verbatim>\<open>addCredentials\<close>): \<^verbatim>\<open>fmt.Sprintf("%s-%s", credential.Namespace, credential.Name)\<close>.
\<close>

definition credentialSecretName :: "CredentialReference \<Rightarrow> string" where
  "credentialSecretName credential =
     cred_Namespace credential @ ''-'' @ cred_Name credential"

subsection \<open>Pods\<close>

record EnvVar =
  env_Name :: string
  env_Value :: string

record VolumeMount =
  vm_Name :: string
  vm_MountPath :: string

datatype VolumeSource = EmptyDir | SecretVolumeSource string | OtherVolumeSource string

record Volume =
  vol_Name :: string
  vol_VolumeSource :: VolumeSource

record Container =
  c_Name :: string
  c_Image :: string
  c_Command :: "string list"
  c_Args :: "string list"
  c_Env :: "EnvVar list"
  c_VolumeMounts :: "VolumeMount list"
  c_TerminationMessagePolicy :: string

text \<open>
  \<^verbatim>\<open>coreapi.Pod\<close>, flattened to the fields the file touches. \<^verbatim>\<open>generateBasePod\<close> hands
  back a pod whose first container is the step's own; the file reads
  \<^verbatim>\<open>pod.Spec.Containers[0]\<close> without a length check, so the record keeps that container in
  a field of its own and \<open>pod_Containers\<close> is never empty. Label and annotation maps are
  association lists (the base pod's maps are initialised).
\<close>

record Pod =
  pod_Name :: string
  pod_Namespace :: string
  pod_Labels :: "(string \<times> string) list"
  pod_Annotations :: "(string \<times> string) list"
  pod_OwnerReferences :: "string list"
  pod_Volumes :: "Volume list"
  pod_InitContainers :: "Container list"
  pod_Container0 :: Container
  pod_ContainersRest :: "Container list"
  pod_ActiveDeadlineSeconds :: "int option"
  pod_ServiceAccountName :: string
  pod_TerminationGracePeriodSeconds :: "int option"
  pod_StatusPhase :: string
  pod_StatusReason :: string

definition pod_Containers :: "Pod \<Rightarrow> Container list" where
  "pod_Containers pod = pod_Container0 pod # pod_ContainersRest pod"

subsection \<open>Constants of the file\<close>

definition MultiStageTestLabel :: string where
  "MultiStageTestLabel = ''ci.openshift.io/multi-stage-test''"

definition ClusterProfileMountPath :: string where
  "ClusterProfileMountPath = ''/var/run/secrets/ci.openshift.io/cluster-profile''"

definition SecretMountPath :: string where
  "SecretMountPath = ''/var/run/secrets/ci.openshift.io/multi-stage''"

definition SecretMountEnv :: string where
  "SecretMountEnv = ''SHARED_DIR''"

definition ClusterProfileMountEnv :: string where
  "ClusterProfileMountEnv = ''CLUSTER_PROFILE_DIR''"

definition CliMountPath :: string where
  "CliMountPath = ''/cli''"

definition CliEnv :: string where
  "CliEnv = ''CLI_DIR''"

definition CommandPrefix :: string where
  "CommandPrefix =
     ''#!/bin/bash\<newline>'' @
     ''set -eu\<newline>'' @
     ''if [[ -e ${KUBECONFIG:-} ]]; then WRITEABLE_KUBECONFIG_LOCATION=$(mktemp) && cp $KUBECONFIG $WRITEABLE_KUBECONFIG_LOCATION && export KUBECONFIG=$WRITEABLE_KUBECONFIG_LOCATION && unset WRITEABLE_KUBECONFIG_LOCATION; fi\<newline>'' @
     ''if ! [[ -d ${HOME:-} ]]; then export HOME=/alabama; fi\<newline>''"

definition multiStageTestStepContainerName :: string where
  "multiStageTestStepContainerName = ''test''"

text \<open>The line that \<^verbatim>\<open>addCliInjector\<close> puts after the preamble (line 571).\<close>

definition cliPathExport :: string where
  "cliPathExport = ''export PATH=\"${PATH}:${CLI_DIR}\"''"

text \<open>\<^verbatim>\<open>strings.HasPrefix\<close> and \<^verbatim>\<open>strings.TrimPrefix\<close>.\<close>

definition HasPrefix :: "string \<Rightarrow> string \<Rightarrow> bool" where
  "HasPrefix str pre = (take (length pre) str = pre)"

definition TrimPrefix :: "string \<Rightarrow> string \<Rightarrow> string" where
  "TrimPrefix str pre = (if HasPrefix str pre then drop (length pre) str else str)"

subsection \<open>The cluster and the collaborators\<close>

text \<open>
  The contexts the file passes around: the caller's (the only one that can be
  cancelled), \<^verbatim>\<open>context.Background()\<close>, \<^verbatim>\<open>context.TODO()\<close>, and a context
  detached from all of them.
\<close>

datatype Context = CallerCtx | Background | TODO | Detached

text \<open>
  Modelled from the spec: the package variable \<^verbatim>\<open>cleanupCtx\<close> is declared outside this
  file. The bulk delete uses "a detached, non-cancelled context so the cleanup itself
  is not aborted by the same cancellation".
\<close>

definition cleanupCtx :: Context where
  "cleanupCtx = Detached"

text \<open>
  The objects the file reads and creates, without the namespace and name under which
  the cluster keeps them.
\<close>

record Secret =
  sec_TypeMeta :: string
  sec_Labels :: "(string \<times> string) list"
  sec_Type :: string
  sec_Data :: "(string \<times> string) list"
  sec_StringData :: "(string \<times> string) list"

record PolicyRule =
  rule_APIGroups :: "string list"
  rule_Resources :: "string list"
  rule_ResourceNames :: "string list"
  rule_Verbs :: "string list"

record ServiceAccount =
  sa_Labels :: "(string \<times> string) list"

record Role =
  role_Labels :: "(string \<times> string) list"
  role_Rules :: "PolicyRule list"

record RoleBinding =
  rb_Labels :: "(string \<times> string) list"
  rb_RoleRef :: "string \<times> string"
  rb_Subjects :: "(string \<times> string) list"

text \<open>What the run does to pods, in order.\<close>

datatype Event =
    CreateOrRestartPod string
  | WaitForPodCompletion Context string string
  | DeleteAllOfPods Context string string string

text \<open>The notifier \<^verbatim>\<open>runPods\<close> picks for a pod (lines 591 to 601).\<close>

datatype Notifier = NopNotifier | ArtifactWorker string string string "string list"

text \<open>
  The state a run threads through: the objects of the cluster by kind, each keyed by
  (namespace, name); the log of pod operations; whether the caller's context is done;
  and the step's own \<^verbatim>\<open>subTests\<close>.
\<close>

record RunState =
  secrets :: "string \<times> string \<Rightarrow> Secret option"
  serviceAccounts :: "string \<times> string \<Rightarrow> ServiceAccount option"
  roles :: "string \<times> string \<Rightarrow> Role option"
  roleBindings :: "string \<times> string \<Rightarrow> RoleBinding option"
  events :: "Event list"
  ctxCancelled :: bool
  subTests :: "string list"

record JobSpec =
  js_Namespace :: string
  js_JobNameHash :: string
  js_Owner :: "string option"

text \<open>
  \<^verbatim>\<open>api.StepLink\<close>: a link, opaque here. Which link a call of \<^verbatim>\<open>api.LinkForImage\<close>,
  \<^verbatim>\<open>api.InternalImageLink\<close>, \<^verbatim>\<open>api.ReleaseImagesLink\<close> or \<^verbatim>\<open>utils.LinkForEnv\<close> answers is
  decided outside this file, so the four functions are parameters (two calls may well
  answer the same link).
\<close>

datatype StepLink = StepLink string

text \<open>
  Everything the file uses and does not define. Constants keep their Go names;
  functions are the Go functions with the client and the configuration left out of
  their arguments. \<open>x_waitForPodCompletion\<close> answers the new pod (if any) and the
  error; \<open>x_cancelsDuring\<close> says whether the caller cancels its context while the pod
  of that name runs; \<open>x_DeleteAllOf\<close> is the answer of the bulk delete.
\<close>

record Externals =
  x_ProwJobIdLabel :: string
  x_annotationSaveContainerLogs :: string
  x_homeVolumeName :: string
  x_apiCIRegistry :: string
  x_PipelineImageStream :: string
  x_LatestReleaseName :: string
  x_envForProfile :: "string list"
  x_ReleaseStreamFor :: "string \<Rightarrow> string"
  x_ClusterType :: "string \<Rightarrow> string"
  x_IsPipelineImage :: "string \<Rightarrow> bool"
  x_BuildsImage :: "string \<Rightarrow> bool"
  x_DependencyParts :: "StepDependency \<Rightarrow> string \<times> string"
  x_LinkForImage :: "string \<Rightarrow> string \<Rightarrow> StepLink"
  x_InternalImageLink :: "string \<Rightarrow> StepLink"
  x_ReleaseImagesLink :: "string \<Rightarrow> StepLink"
  x_LinkForEnv :: "string \<Rightarrow> StepLink option"
  x_resourcesFor :: "string \<Rightarrow> error + string"
  x_generateBasePod ::
    "JobSpec \<Rightarrow> string \<Rightarrow> string \<Rightarrow> string list \<Rightarrow> string \<Rightarrow> string \<Rightarrow> string \<Rightarrow> error + Pod"
  x_ImageDigestFor :: "string \<Rightarrow> string \<Rightarrow> error + string"
  x_paramsGet :: "string \<Rightarrow> error + string"
  x_resolveOptionalOperator :: "error + EnvVar list"
  x_createOrRestartPod :: "Pod \<Rightarrow> error option"
  x_waitForPodCompletion :: "Context \<Rightarrow> Notifier \<Rightarrow> Pod \<Rightarrow> Pod option \<times> error option"
  x_cancelsDuring :: "string \<Rightarrow> bool"
  x_SubTests :: "Notifier \<Rightarrow> string \<Rightarrow> string list"
  x_DeleteAllOf :: "error option"

text \<open>\<^verbatim>\<open>multiStageTestStep\<close> (lines 53 to 67), without the collaborators.\<close>

record multiStageTestStep =
  s_name :: string
  s_profile :: string
  s_env :: "(string \<times> string) list"
  s_artifactDir :: string
  s_jobSpec :: JobSpec
  s_pre :: "LiteralTestStep list"
  s_test :: "LiteralTestStep list"
  s_post :: "LiteralTestStep list"
  s_allowSkipOnSuccess :: "bool option"
  s_leases :: "StepLease list"

definition profileSecretName :: "multiStageTestStep \<Rightarrow> string" where
  "profileSecretName s = s_name s @ ''-cluster-profile''"

subsection \<open>The workload builder\<close>

text \<open>\<^verbatim>\<open>generateParams\<close> (lines 477 to 490): the test's value wins over the default.\<close>

definition generateParams :: "multiStageTestStep \<Rightarrow> StepParameter list \<Rightarrow> EnvVar list" where
  "generateParams s env =
     map (\<lambda>e.
       let value0 = (case param_Default e of Some d \<Rightarrow> d | None \<Rightarrow> '''');
           value1 = (case map_of (s_env s) (param_Name e) of Some v \<Rightarrow> v | None \<Rightarrow> value0)
       in \<lparr>env_Name = param_Name e, env_Value = value1\<rparr>) env"

text \<open>\<^verbatim>\<open>envForDependencies\<close> (lines 435 to 450): one variable or one error per dependency.\<close>

fun envForDependencies_loop ::
  "Externals \<Rightarrow> LiteralTestStep \<Rightarrow> StepDependency list \<Rightarrow> EnvVar list \<Rightarrow> error list
     \<Rightarrow> EnvVar list \<times> error list" where
  "envForDependencies_loop x step [] env errs = (env, errs)"
| "envForDependencies_loop x step (dependency # rest) env errs =
     (case x_DependencyParts x dependency of (imageStream, name) \<Rightarrow>
        (case x_ImageDigestFor x imageStream name of
           Inl err \<Rightarrow>
             envForDependencies_loop x step rest env
               (errs @ [ErrorMsg (''could not determine image pull spec for image '' @
                          dep_Name dependency @ '' on step '' @ step_As step)])
         | Inr ref \<Rightarrow>
             envForDependencies_loop x step rest
               (env @ [\<lparr>env_Name = dep_Env dependency, env_Value = ref\<rparr>]) errs))"

definition envForDependencies :: "Externals \<Rightarrow> LiteralTestStep \<Rightarrow> EnvVar list \<times> error list" where
  "envForDependencies x step = envForDependencies_loop x step (step_Dependencies step) [] []"

text \<open>
  \<^verbatim>\<open>addSecretWrapper\<close> (lines 452 to 475): the command of the first container moves
  in front of its arguments and the wrapper binary becomes the command.
\<close>

definition addSecretWrapper :: "Externals \<Rightarrow> Pod \<Rightarrow> Pod" where
  "addSecretWrapper x pod =
     (let volume = ''secret-wrapper'';
          dir = ''/tmp/secret-wrapper'';
          bin = ''/tmp/secret-wrapper/secret-wrapper'';
          mount = \<lparr>vm_Name = volume, vm_MountPath = dir\<rparr>;
          container = pod_Container0 pod
      in pod\<lparr>
           pod_Volumes := pod_Volumes pod @ [\<lparr>vol_Name = volume, vol_VolumeSource = EmptyDir\<rparr>],
           pod_InitContainers := pod_InitContainers pod @
             [\<lparr>c_Name = ''cp-secret-wrapper'',
               c_Image = x_apiCIRegistry x @ ''/ci/secret-wrapper:latest'',
               c_Command = [''cp''],
               c_Args = [''/bin/secret-wrapper'', bin],
               c_Env = [],
               c_VolumeMounts = [mount],
               c_TerminationMessagePolicy = ''FallbackToLogsOnError''\<rparr>],
           pod_Container0 := container\<lparr>
             c_Args := c_Command container @ c_Args container,
             c_Command := [bin],
             c_VolumeMounts := c_VolumeMounts container @ [mount]\<rparr>\<rparr>)"

text \<open>\<^verbatim>\<open>addSecret\<close> (lines 492 to 507).\<close>

definition addSecret :: "string \<Rightarrow> Pod \<Rightarrow> Pod" where
  "addSecret secret pod =
     (let container = pod_Container0 pod
      in pod\<lparr>
           pod_Volumes := pod_Volumes pod @
             [\<lparr>vol_Name = secret, vol_VolumeSource = SecretVolumeSource secret\<rparr>],
           pod_Container0 := container\<lparr>
             c_VolumeMounts := c_VolumeMounts container @
               [\<lparr>vm_Name = secret, vm_MountPath = SecretMountPath\<rparr>],
             c_Env := c_Env container @
               [\<lparr>env_Name = SecretMountEnv, env_Value = SecretMountPath\<rparr>]\<rparr>\<rparr>)"

text \<open>\<^verbatim>\<open>addCredentials\<close> (lines 509 to 523).\<close>

fun addCredentials :: "CredentialReference list \<Rightarrow> Pod \<Rightarrow> Pod" where
  "addCredentials [] pod = pod"
| "addCredentials (credential # rest) pod =
     (let name = credentialSecretName credential;
          container = pod_Container0 pod
      in addCredentials rest (pod\<lparr>
           pod_Volumes := pod_Volumes pod @
             [\<lparr>vol_Name = name, vol_VolumeSource = SecretVolumeSource name\<rparr>],
           pod_Container0 := container\<lparr>
             c_VolumeMounts := c_VolumeMounts container @
               [\<lparr>vm_Name = name, vm_MountPath = cred_MountPath credential\<rparr>]\<rparr>\<rparr>))"

text \<open>\<^verbatim>\<open>addProfile\<close> (lines 525 to 547).\<close>

definition addProfile :: "Externals \<Rightarrow> string \<Rightarrow> string \<Rightarrow> Pod \<Rightarrow> Pod" where
  "addProfile x name profile pod =
     (let volumeName = ''cluster-profile'';
          container = pod_Container0 pod
      in pod\<lparr>
           pod_Volumes := pod_Volumes pod @
             [\<lparr>vol_Name = volumeName, vol_VolumeSource = SecretVolumeSource name\<rparr>],
           pod_Container0 := container\<lparr>
             c_VolumeMounts := c_VolumeMounts container @
               [\<lparr>vm_Name = volumeName, vm_MountPath = ClusterProfileMountPath\<rparr>],
             c_Env := c_Env container @
               [\<lparr>env_Name = ''CLUSTER_TYPE'', env_Value = x_ClusterType x profile\<rparr>,
                \<lparr>env_Name = ClusterProfileMountEnv, env_Value = ClusterProfileMountPath\<rparr>]\<rparr>\<rparr>)"

text \<open>The rewriting of one argument in \<^verbatim>\<open>addCliInjector\<close> (lines 570 to 574).\<close>

definition injectCliPath :: "string \<Rightarrow> string" where
  "injectCliPath arg =
     (if HasPrefix arg CommandPrefix
      then CommandPrefix @ cliPathExport @ ''\<newline>'' @ TrimPrefix arg CommandPrefix
      else arg)"

text \<open>\<^verbatim>\<open>addCliInjector\<close> (lines 549 to 585).\<close>

definition addCliInjector :: "Externals \<Rightarrow> string \<Rightarrow> Pod \<Rightarrow> Pod" where
  "addCliInjector x release pod =
     (let volumeName = ''cli'';
          container = pod_Container0 pod
      in pod\<lparr>
           pod_Volumes := pod_Volumes pod @ [\<lparr>vol_Name = volumeName, vol_VolumeSource = EmptyDir\<rparr>],
           pod_InitContainers := pod_InitContainers pod @
             [\<lparr>c_Name = ''inject-cli'',
               c_Image = x_ReleaseStreamFor x release @ '':cli'',
               c_Command = [''/bin/cp''],
               c_Args = [''/usr/bin/oc'', CliMountPath],
               c_Env = [],
               c_VolumeMounts = [\<lparr>vm_Name = volumeName, vm_MountPath = CliMountPath\<rparr>],
               c_TerminationMessagePolicy = ''''\<rparr>],
           pod_Container0 := container\<lparr>
             c_Args := map injectCliPath (c_Args container),
             c_VolumeMounts := c_VolumeMounts container @
               [\<lparr>vm_Name = volumeName, vm_MountPath = CliMountPath\<rparr>],
             c_Env := c_Env container @ [\<lparr>env_Name = CliEnv, env_Value = CliMountPath\<rparr>]\<rparr>\<rparr>)"

text \<open>
  Lines 384 to 396 of \<^verbatim>\<open>generatePods\<close>: labels, annotation, deadlines, service account
  and the scratch home, mounted into every container named \<^verbatim>\<open>test\<close>.
\<close>

definition addHomeMount :: "Externals \<Rightarrow> Container \<Rightarrow> Container" where
  "addHomeMount x c =
     (if c_Name c \<noteq> multiStageTestStepContainerName then c
      else c\<lparr>c_VolumeMounts := c_VolumeMounts c @
             [\<lparr>vm_Name = x_homeVolumeName x, vm_MountPath = ''/alabama''\<rparr>]\<rparr>)"

definition labelPod :: "multiStageTestStep \<Rightarrow> Externals \<Rightarrow> LiteralTestStep \<Rightarrow> Pod \<Rightarrow> Pod" where
  "labelPod s x step pod =
     pod\<lparr>
       pod_Labels := AList.update MultiStageTestLabel (s_name s)
                       (AList.delete (x_ProwJobIdLabel x) (pod_Labels pod)),
       pod_Annotations := AList.update (x_annotationSaveContainerLogs x) ''true''
                            (pod_Annotations pod),
       pod_ActiveDeadlineSeconds := step_ActiveDeadlineSeconds step,
       pod_ServiceAccountName := s_name s,
       pod_TerminationGracePeriodSeconds := step_TerminationGracePeriodSeconds step,
       pod_Volumes := pod_Volumes pod @
         [\<lparr>vol_Name = x_homeVolumeName x, vol_VolumeSource = EmptyDir\<rparr>],
       pod_Container0 := addHomeMount x (pod_Container0 pod),
       pod_ContainersRest := map (addHomeMount x) (pod_ContainersRest pod)\<rparr>"

text \<open>\<^verbatim>\<open>container.Env = append(container.Env, ...)\<close> on the first container.\<close>

definition appendEnv :: "EnvVar list \<Rightarrow> Pod \<Rightarrow> Pod" where
  "appendEnv vars pod =
     pod\<lparr>pod_Container0 := (pod_Container0 pod)\<lparr>c_Env := c_Env (pod_Container0 pod) @ vars\<rparr>\<rparr>"

text \<open>\<^verbatim>\<open>strings.Replace(s.name, "_", "-", -1)\<close>.\<close>

definition jobNameSafe :: "string \<Rightarrow> string" where
  "jobNameSafe n = map (\<lambda>c. if c = CHR ''_'' then CHR ''-'' else c) n"

text \<open>
  The body of the loop of \<^verbatim>\<open>generatePods\<close> (lines 360 to 430) for one step: what the
  step adds to \<^verbatim>\<open>ret\<close> and to \<^verbatim>\<open>errs\<close>. A skipped step adds nothing to either; each
  \<^verbatim>\<open>continue\<close> after an error adds the errors and no pod. The test
  \<^verbatim>\<open>p != nil && *p\<close> on a \<^verbatim>\<open>*bool\<close> is \<open>p = Some True\<close>.
\<close>

definition generatePods_step ::
  "multiStageTestStep \<Rightarrow> Externals \<Rightarrow> EnvVar list \<Rightarrow> bool \<Rightarrow> LiteralTestStep
     \<Rightarrow> Pod list \<times> error list" where
  "generatePods_step s x env hasPrevErrs step =
     (if s_allowSkipOnSuccess s = Some True \<and> step_OptionalOnSuccess step = Some True \<and>
         \<not> hasPrevErrs
      then ([], [])
      else
        let image =
              (case step_FromImageTag step of
                 Some link \<Rightarrow> x_PipelineImageStream x @ '':'' @ link
               | None \<Rightarrow>
                   (case x_DependencyParts x \<lparr>dep_Name = step_From step, dep_Env = ''''\<rparr> of
                      (stream, tag) \<Rightarrow> stream @ '':'' @ tag))
        in case x_resourcesFor x (step_Resources step) of
             Inl err \<Rightarrow> ([], [err])
           | Inr resources \<Rightarrow>
              (let name = s_name s @ ''-'' @ step_As step
               in case x_generateBasePod x (s_jobSpec s) name multiStageTestStepContainerName
                         [''/bin/bash'', ''-c'', CommandPrefix @ step_Commands step]
                         image resources (step_ArtifactDir step) of
                    Inl err \<Rightarrow> ([], [err])
                  | Inr pod0 \<Rightarrow>
                     (let pod1 = labelPod s x step pod0;
                          pod2 = (if \<not> step_ReadonlySharedDir step
                                  then addSecretWrapper x pod1 else pod1);
                          pod3 = appendEnv
                                   [\<lparr>env_Name = ''NAMESPACE'',
                                      env_Value = js_Namespace (s_jobSpec s)\<rparr>,
                                    \<lparr>env_Name = ''JOB_NAME_SAFE'',
                                      env_Value = jobNameSafe (s_name s)\<rparr>,
                                    \<lparr>env_Name = ''JOB_NAME_HASH'',
                                      env_Value = js_JobNameHash (s_jobSpec s)\<rparr>] pod2;
                          pod4 = appendEnv env pod3;
                          pod5 = appendEnv (generateParams s (step_Environment step)) pod4
                      in case envForDependencies x step of (depEnv, depErrs) \<Rightarrow>
                           if depErrs \<noteq> [] then ([], depErrs)
                           else
                             let pod6 = appendEnv depEnv pod5;
                                 pod7 = (case js_Owner (s_jobSpec s) of
                                           Some owner \<Rightarrow>
                                             pod6\<lparr>pod_OwnerReferences :=
                                                     pod_OwnerReferences pod6 @ [owner]\<rparr>
                                         | None \<Rightarrow> pod6);
                                 pod8 = (if s_profile s \<noteq> ''''
                                         then appendEnv
                                                [\<lparr>env_Name = ''KUBECONFIG'',
                                                   env_Value = SecretMountPath @ ''/kubeconfig''\<rparr>,
                                                 \<lparr>env_Name = ''KUBEADMIN_PASSWORD_FILE'',
                                                   env_Value =
                                                     SecretMountPath @ ''/kubeadmin-password''\<rparr>]
                                                (addProfile x (profileSecretName s) (s_profile s)
                                                   pod7)
                                         else pod7);
                                 pod9 = (if step_Cli step \<noteq> ''''
                                         then addCliInjector x (step_Cli step) pod8 else pod8)
                             in ([addCredentials (step_Credentials step)
                                    (addSecret (s_name s) pod9)], []))))"

text \<open>\<^verbatim>\<open>generatePods\<close> (lines 355 to 433): the loop, then the aggregate of the errors.\<close>

fun generatePods_loop ::
  "multiStageTestStep \<Rightarrow> Externals \<Rightarrow> EnvVar list \<Rightarrow> bool \<Rightarrow> LiteralTestStep list
     \<Rightarrow> Pod list \<Rightarrow> error list \<Rightarrow> Pod list \<times> error list" where
  "generatePods_loop s x env hasPrevErrs [] ret errs = (ret, errs)"
| "generatePods_loop s x env hasPrevErrs (step # steps) ret errs =
     (case generatePods_step s x env hasPrevErrs step of
        (pods, stepErrs) \<Rightarrow>
          generatePods_loop s x env hasPrevErrs steps (ret @ pods) (errs @ stepErrs))"

definition generatePods ::
  "multiStageTestStep \<Rightarrow> Externals \<Rightarrow> LiteralTestStep list \<Rightarrow> EnvVar list \<Rightarrow> bool
     \<Rightarrow> Pod list \<times> error option" where
  "generatePods s x steps env hasPrevErrs =
     (case generatePods_loop s x env hasPrevErrs steps [] [] of
        (ret, errs) \<Rightarrow> (ret, NewAggregate errs))"

subsection \<open>The prerequisites\<close>

text \<open>
  The loop of \<^verbatim>\<open>Requires\<close> (lines 162 to 185). The Go map \<^verbatim>\<open>internalLinks\<close> is a set;
  it is a duplicate-free list here, and the order in which line 186 ranges over it is
  not fixed by Go.
\<close>

fun Requires_loop ::
  "Externals \<Rightarrow> LiteralTestStep list \<Rightarrow> StepLink list \<Rightarrow> string list \<Rightarrow> bool
     \<Rightarrow> StepLink list \<times> string list \<times> bool" where
  "Requires_loop x [] ret internalLinks needsReleaseImage =
     (ret, internalLinks, needsReleaseImage)"
| "Requires_loop x (step # steps) ret internalLinks needsReleaseImage =
     (let internal = (x_IsPipelineImage x (step_From step) \<or> x_BuildsImage x (step_From step));
          internalLinks1 = (if internal then List.insert (step_From step) internalLinks
                            else internalLinks);
          needsReleaseImage1 = (if internal then needsReleaseImage else True);
          internalLinks2 = (case step_FromImageTag step of
                              Some link \<Rightarrow> List.insert link internalLinks1
                            | None \<Rightarrow> internalLinks1);
          ret1 = ret @ map (\<lambda>dependency.
                              case x_DependencyParts x dependency of
                                (imageStream, name) \<Rightarrow> x_LinkForImage x imageStream name)
                         (step_Dependencies step);
          ret2 = (if step_Cli step \<noteq> ''''
                  then (case x_DependencyParts x
                               \<lparr>dep_Name = x_ReleaseStreamFor x (step_Cli step) @ '':cli'',
                                dep_Env = ''''\<rparr> of
                          (imageStream, name) \<Rightarrow> ret1 @ [x_LinkForImage x imageStream name])
                  else ret1)
      in Requires_loop x steps ret2 internalLinks2 needsReleaseImage1)"

text \<open>
  \<^verbatim>\<open>Requires\<close> (lines 159 to 201). \<^verbatim>\<open>utils.LinkForEnv\<close> answers a link and whether there
  is one: \<open>Some link\<close> when its second result is true.
\<close>

definition Requires :: "multiStageTestStep \<Rightarrow> Externals \<Rightarrow> StepLink list" where
  "Requires s x =
     (case Requires_loop x (s_pre s @ s_test s @ s_post s) [] [] False of
        (ret, internalLinks, needsReleaseImage) \<Rightarrow>
          (let ret1 = ret @ map (x_InternalImageLink x) internalLinks;
               needsReleasePayload = (s_profile s \<noteq> '''');
               ret2 = (if s_profile s \<noteq> ''''
                       then ret1 @
                            concat (map (\<lambda>env. case x_LinkForEnv x env of
                                                 Some link \<Rightarrow> [link]
                                               | None \<Rightarrow> [])
                                      (x_envForProfile x))
                       else ret1)
           in if needsReleaseImage \<and> \<not> needsReleasePayload
              then ret2 @ [x_ReleaseImagesLink x (x_LatestReleaseName x)]
              else ret2))"

subsection \<open>The client\<close>

text \<open>
  Modelled from the spec: the cluster client behind \<^verbatim>\<open>s.client\<close> is not in this file.
  It is "a cluster object store supporting create/get/delete/bulk-delete-by-label with
  'already exists'/'not found' as distinguishable outcomes": a create on a key that is
  taken answers AlreadyExists and changes nothing, a delete or a get on a key that is
  free answers NotFound.
\<close>

definition createSecretObject :: "string \<times> string \<Rightarrow> Secret \<Rightarrow> RunState \<Rightarrow> error option \<times> RunState" where
  "createSecretObject key obj st =
     (case secrets st key of
        Some _ \<Rightarrow> (Some (StatusError AlreadyExists), st)
      | None \<Rightarrow> (None, st\<lparr>secrets := (secrets st)(key \<mapsto> obj)\<rparr>))"

definition deleteSecretObject :: "string \<times> string \<Rightarrow> RunState \<Rightarrow> error option \<times> RunState" where
  "deleteSecretObject key st =
     (case secrets st key of
        None \<Rightarrow> (Some (StatusError NotFound), st)
      | Some _ \<Rightarrow> (None, st\<lparr>secrets := (secrets st)(key := None)\<rparr>))"

definition getSecretObject :: "string \<times> string \<Rightarrow> RunState \<Rightarrow> error + Secret" where
  "getSecretObject key st =
     (case secrets st key of
        None \<Rightarrow> Inl (StatusError NotFound)
      | Some obj \<Rightarrow> Inr obj)"

definition createServiceAccount ::
  "string \<times> string \<Rightarrow> ServiceAccount \<Rightarrow> RunState \<Rightarrow> error option \<times> RunState" where
  "createServiceAccount key obj st =
     (case serviceAccounts st key of
        Some _ \<Rightarrow> (Some (StatusError AlreadyExists), st)
      | None \<Rightarrow> (None, st\<lparr>serviceAccounts := (serviceAccounts st)(key \<mapsto> obj)\<rparr>))"

definition createRole :: "string \<times> string \<Rightarrow> Role \<Rightarrow> RunState \<Rightarrow> error option \<times> RunState" where
  "createRole key obj st =
     (case roles st key of
        Some _ \<Rightarrow> (Some (StatusError AlreadyExists), st)
      | None \<Rightarrow> (None, st\<lparr>roles := (roles st)(key \<mapsto> obj)\<rparr>))"

definition createRoleBinding ::
  "string \<times> string \<Rightarrow> RoleBinding \<Rightarrow> RunState \<Rightarrow> error option \<times> RunState" where
  "createRoleBinding key obj st =
     (case roleBindings st key of
        Some _ \<Rightarrow> (Some (StatusError AlreadyExists), st)
      | None \<Rightarrow> (None, st\<lparr>roleBindings := (roleBindings st)(key \<mapsto> obj)\<rparr>))"

subsection \<open>The access provisioner\<close>

text \<open>\<^verbatim>\<open>setupRBAC\<close> (lines 209 to 249); \<open>check\<close> is the closure of line 236.\<close>

definition check :: "error option \<Rightarrow> bool" where
  "check err = (case err of None \<Rightarrow> True | Some e \<Rightarrow> IsAlreadyExists e)"

definition setupRBAC :: "multiStageTestStep \<Rightarrow> RunState \<Rightarrow> error option \<times> RunState" where
  "setupRBAC s st =
     (let labels = [(MultiStageTestLabel, s_name s)];
          key = (js_Namespace (s_jobSpec s), s_name s);
          sa = \<lparr>sa_Labels = labels\<rparr>;
          role = \<lparr>role_Labels = labels,
                  role_Rules =
                    [\<lparr>rule_APIGroups = [''rbac.authorization.k8s.io''],
                      rule_Resources = [''rolebindings''],
                      rule_ResourceNames = [],
                      rule_Verbs = [''create'', ''list'']\<rparr>,
                     \<lparr>rule_APIGroups = [''''],
                      rule_Resources = [''secrets''],
                      rule_ResourceNames = [s_name s],
                      rule_Verbs = [''get'', ''update'']\<rparr>,
                     \<lparr>rule_APIGroups = ['''', ''image.openshift.io''],
                      rule_Resources = [''imagestreams/layers''],
                      rule_ResourceNames = [],
                      rule_Verbs = [''get'']\<rparr>]\<rparr>;
          subj = [(''ServiceAccount'', s_name s)];
          binding = \<lparr>rb_Labels = labels, rb_RoleRef = (''Role'', s_name s),
                     rb_Subjects = subj\<rparr>
      in case createServiceAccount key sa st of (err1, st1) \<Rightarrow>
           if \<not> check err1 then (err1, st1)
           else case createRole key role st1 of (err2, st2) \<Rightarrow>
             if \<not> check err2 then (err2, st2)
             else case createRoleBinding key binding st2 of (err3, st3) \<Rightarrow>
               if \<not> check err3 then (err3, st3)
               else (None, st3))"

text \<open>\<^verbatim>\<open>createSecret\<close> (lines 281 to 288).\<close>

definition emptySecret :: Secret where
  "emptySecret = \<lparr>sec_TypeMeta = '''', sec_Labels = [], sec_Type = '''', sec_Data = [],
                   sec_StringData = []\<rparr>"

definition createSecret :: "multiStageTestStep \<Rightarrow> RunState \<Rightarrow> error option \<times> RunState" where
  "createSecret s st =
     (let key = (js_Namespace (s_jobSpec s), s_name s)
      in case deleteSecretObject key st of
           (Some err, st1) \<Rightarrow>
             if \<not> IsNotFound err
             then (Some (Errorf (''cannot delete secret '' @ s_name s) err), st1)
             else createSecretObject key emptySecret st1
         | (None, st1) \<Rightarrow> createSecretObject key emptySecret st1)"

text \<open>
  \<^verbatim>\<open>createCredentials\<close> (lines 290 to 323). The first loop reads every source secret
  and fills the Go map \<^verbatim>\<open>toCreate\<close>, an association list here (a later credential of the
  same derived name replaces the earlier one); the second creates what the map holds.
  Go does not fix the order of the second loop; the list's order stands for it.
\<close>

fun readCredentials ::
  "multiStageTestStep \<Rightarrow> RunState \<Rightarrow> CredentialReference list \<Rightarrow> (string \<times> Secret) list
     \<Rightarrow> error + (string \<times> Secret) list" where
  "readCredentials s st [] toCreate = Inr toCreate"
| "readCredentials s st (credential # rest) toCreate =
     (let name = credentialSecretName credential
      in case getSecretObject (cred_Namespace credential, cred_Name credential) st of
           Inl err \<Rightarrow> Inl (Errorf ''could not read source credential'' err)
         | Inr raw \<Rightarrow>
             readCredentials s st rest
               (AList.update name
                  \<lparr>sec_TypeMeta = sec_TypeMeta raw, sec_Labels = [], sec_Type = sec_Type raw,
                   sec_Data = sec_Data raw, sec_StringData = sec_StringData raw\<rparr>
                  toCreate))"

fun createMirrors ::
  "multiStageTestStep \<Rightarrow> (string \<times> Secret) list \<Rightarrow> RunState \<Rightarrow> error option \<times> RunState" where
  "createMirrors s [] st = (None, st)"
| "createMirrors s ((name, secret) # rest) st =
     (case createSecretObject (js_Namespace (s_jobSpec s), name) secret st of
        (Some err, st1) \<Rightarrow>
          if \<not> IsAlreadyExists err
          then (Some (Errorf ''could not create source credential'' err), st1)
          else createMirrors s rest st1
      | (None, st1) \<Rightarrow> createMirrors s rest st1)"

definition createCredentials :: "multiStageTestStep \<Rightarrow> RunState \<Rightarrow> error option \<times> RunState" where
  "createCredentials s st =
     (case readCredentials s st
             (concat (map step_Credentials (s_pre s @ s_test s @ s_post s))) [] of
        Inl err \<Rightarrow> (Some err, st)
      | Inr toCreate \<Rightarrow> createMirrors s toCreate st)"

text \<open>
  Access provisioning: the three calls of \<^verbatim>\<open>run\<close> (lines 130 to 138), with the
  messages \<^verbatim>\<open>run\<close> wraps their errors in.
\<close>

definition provisionAccess :: "multiStageTestStep \<Rightarrow> RunState \<Rightarrow> error option \<times> RunState" where
  "provisionAccess s st =
     (case createSecret s st of
        (Some err, st1) \<Rightarrow> (Some (Errorf ''failed to create secret'' err), st1)
      | (None, st1) \<Rightarrow>
         (case createCredentials s st1 of
            (Some err, st2) \<Rightarrow> (Some (Errorf ''failed to create credentials'' err), st2)
          | (None, st2) \<Rightarrow>
             (case setupRBAC s st2 of
                (Some err, st3) \<Rightarrow> (Some (Errorf ''failed to create RBAC objects'' err), st3)
              | (None, st3) \<Rightarrow> (None, st3))))"

subsection \<open>The environment resolver\<close>

text \<open>The two loops of \<^verbatim>\<open>environment\<close> over \<^verbatim>\<open>s.params.Get\<close> (lines 253 to 271).\<close>

fun paramsEnv :: "Externals \<Rightarrow> string list \<Rightarrow> EnvVar list \<Rightarrow> error + EnvVar list" where
  "paramsEnv x [] ret = Inr ret"
| "paramsEnv x (e # rest) ret =
     (case x_paramsGet x e of
        Inl err \<Rightarrow> Inl err
      | Inr val \<Rightarrow> paramsEnv x rest (ret @ [\<lparr>env_Name = e, env_Value = val\<rparr>]))"

text \<open>\<^verbatim>\<open>environment\<close> (lines 251 to 279).\<close>

definition environment :: "multiStageTestStep \<Rightarrow> Externals \<Rightarrow> RunState \<Rightarrow> error + EnvVar list" where
  "environment s x st =
     (case paramsEnv x (map lease_Env (s_leases s)) [] of
        Inl err \<Rightarrow> Inl err
      | Inr ret \<Rightarrow>
          if s_profile s \<noteq> ''''
          then (let secret = profileSecretName s
                in case getSecretObject (js_Namespace (s_jobSpec s), secret) st of
                     Inl err \<Rightarrow> Inl (Errorf (''could not find secret '' @ secret) err)
                   | Inr _ \<Rightarrow>
                      (case paramsEnv x (x_envForProfile x) ret of
                         Inl err \<Rightarrow> Inl err
                       | Inr ret1 \<Rightarrow>
                          (case x_resolveOptionalOperator x of
                             Inl err \<Rightarrow> Inl err
                           | Inr optionalOperator \<Rightarrow> Inr (ret1 @ optionalOperator))))
          else Inr ret)"

subsection \<open>The phase runner\<close>

text \<open>\<^verbatim>\<open>ctx.Done()\<close> is closed: only the caller's context can be.\<close>

definition ctxDone :: "Context \<Rightarrow> RunState \<Rightarrow> bool" where
  "ctxDone ctx st = (ctx = CallerCtx \<and> ctxCancelled st)"

text \<open>
  \<^verbatim>\<open>runPod\<close> (lines 613 to 639). The pod is submitted (\<^verbatim>\<open>createOrRestartPod\<close>), then
  waited for under the context; both calls are logged. While the pod runs the caller
  may cancel. The links of the message are left out of \<open>PodError\<close>, which keeps the
  test, the pod, the status text and the error.
\<close>

definition runPod ::
  "multiStageTestStep \<Rightarrow> Externals \<Rightarrow> Context \<Rightarrow> Pod \<Rightarrow> Notifier \<Rightarrow> RunState
     \<Rightarrow> error option \<times> RunState" where
  "runPod s x ctx pod notifier st =
     (let st1 = st\<lparr>events := events st @ [CreateOrRestartPod (pod_Name pod)]\<rparr>
      in case x_createOrRestartPod x pod of
           Some err \<Rightarrow>
             (Some (Errorf (''failed to create or restart pod '' @ pod_Name pod) err), st1)
         | None \<Rightarrow>
            (let st2 = st1\<lparr>events := events st1 @
                               [WaitForPodCompletion ctx (pod_Namespace pod) (pod_Name pod)],
                            ctxCancelled := ctxCancelled st1 \<or> x_cancelsDuring x (pod_Name pod)\<rparr>
             in case x_waitForPodCompletion x ctx notifier pod of (newPod, err) \<Rightarrow>
                  (let pod1 = (case newPod of Some p \<Rightarrow> p | None \<Rightarrow> pod);
                       st3 = st2\<lparr>subTests := subTests st2 @
                                    x_SubTests x notifier
                                      (''Run multi-stage test '' @ s_name s @ '' - '' @
                                         pod_Name pod1 @ '' '')\<rparr>
                   in case err of
                        Some e \<Rightarrow>
                          (let status =
                                 (if pod_StatusPhase pod1 = ''Failed'' \<and>
                                     pod_StatusReason pod1 = ''DeadlineExceeded''
                                  then StatusTimeout (pod_ActiveDeadlineSeconds pod1)
                                  else StatusFailed)
                           in (Some (PodError (s_name s) (pod_Name pod1) status e), st3))
                      | None \<Rightarrow> (None, st3))))"

text \<open>
  The notifier of lines 591 to 601: an artifact worker on the directory
  \<^verbatim>\<open>filepath.Join(s.artifactDir, strings.TrimPrefix(pod.Name, namePrefix))\<close>, kept as its
  two parts, when a container is named \<^verbatim>\<open>artifacts\<close>.
\<close>

definition notifierFor :: "multiStageTestStep \<Rightarrow> Pod \<Rightarrow> Notifier" where
  "notifierFor s pod =
     (if list_ex (\<lambda>c. c_Name c = ''artifacts'') (pod_Containers pod)
      then ArtifactWorker (s_artifactDir s) (TrimPrefix (pod_Name pod) (s_name s @ ''-''))
             (js_Namespace (s_jobSpec s)) [c_Name (pod_Container0 pod)]
      else NopNotifier)"

text \<open>\<^verbatim>\<open>runPods\<close> (lines 587 to 611).\<close>

fun runPods_loop ::
  "multiStageTestStep \<Rightarrow> Externals \<Rightarrow> Context \<Rightarrow> bool \<Rightarrow> Pod list \<Rightarrow> error list \<Rightarrow> RunState
     \<Rightarrow> error list \<times> RunState" where
  "runPods_loop s x ctx shortCircuit [] errs st = (errs, st)"
| "runPods_loop s x ctx shortCircuit (pod # pods) errs st =
     (case runPod s x ctx pod (notifierFor s pod) st of
        (Some err, st1) \<Rightarrow>
          if shortCircuit then (errs @ [err], st1)
          else runPods_loop s x ctx shortCircuit pods (errs @ [err]) st1
      | (None, st1) \<Rightarrow> runPods_loop s x ctx shortCircuit pods errs st1)"

definition runPods ::
  "multiStageTestStep \<Rightarrow> Externals \<Rightarrow> Context \<Rightarrow> Pod list \<Rightarrow> bool \<Rightarrow> RunState
     \<Rightarrow> error option \<times> RunState" where
  "runPods s x ctx pods shortCircuit st =
     (case runPods_loop s x ctx shortCircuit pods [] st of
        (errs, st1) \<Rightarrow> (NewAggregate errs, st1))"

text \<open>\<^verbatim>\<open>runSteps\<close> (lines 325 to 351).\<close>

definition runSteps ::
  "multiStageTestStep \<Rightarrow> Externals \<Rightarrow> Context \<Rightarrow> LiteralTestStep list \<Rightarrow> EnvVar list \<Rightarrow> bool
     \<Rightarrow> bool \<Rightarrow> RunState \<Rightarrow> error option \<times> RunState" where
  "runSteps s x ctx steps env shortCircuit hasPrevErrs st =
     (case generatePods s x steps env hasPrevErrs of
        (pods, Some err) \<Rightarrow> (Some err, st)
      | (pods, None) \<Rightarrow>
         (case runPods s x ctx pods shortCircuit st of (podsErr, st1) \<Rightarrow>
            (let errs = (case podsErr of Some err \<Rightarrow> [err] | None \<Rightarrow> [])
             in if ctxDone ctx st1
                then (let st2 = st1\<lparr>events := events st1 @
                                       [DeleteAllOfPods cleanupCtx (js_Namespace (s_jobSpec s))
                                          MultiStageTestLabel (s_name s)]\<rparr>;
                          errs1 = (case x_DeleteAllOf x of
                                     Some err \<Rightarrow>
                                       if \<not> IsNotFound err
                                       then errs @ [Errorf (''failed to delete pods with label '' @
                                                     MultiStageTestLabel @ ''='' @ s_name s) err]
                                       else errs
                                   | None \<Rightarrow> errs)
                      in (NewAggregate (errs1 @ [ErrorMsg ''cancelled'']), st2))
                else (NewAggregate errs, st1))))"

text \<open>\<^verbatim>\<open>run\<close> (lines 125 to 149).\<close>

definition run ::
  "multiStageTestStep \<Rightarrow> Externals \<Rightarrow> Context \<Rightarrow> RunState \<Rightarrow> error option \<times> RunState" where
  "run s x ctx st =
     (case environment s x st of
        Inl err \<Rightarrow> (Some err, st)
      | Inr env \<Rightarrow>
         (case provisionAccess s st of
            (Some err, st1) \<Rightarrow> (Some err, st1)
          | (None, st1) \<Rightarrow>
             (case runSteps s x ctx (s_pre s) env True False st1 of (preErr, st2) \<Rightarrow>
                (let errs0 = ([] :: error list);
                     (errs1, st3) =
                       (case preErr of
                          Some err \<Rightarrow>
                            (errs0 @ [Errorf (s_name s @ '' pre steps failed'') err], st2)
                        | None \<Rightarrow>
                           (case runSteps s x ctx (s_test s) env True (errs0 \<noteq> []) st2 of
                              (Some err, st') \<Rightarrow>
                                (errs0 @ [Errorf (s_name s @ '' test steps failed'') err], st')
                            | (None, st') \<Rightarrow> (errs0, st')))
                 in case runSteps s x Background (s_post s) env False (errs1 \<noteq> []) st3 of
                      (Some err, st4) \<Rightarrow>
                        (NewAggregate (errs1 @ [Errorf (s_name s @ '' post steps failed'') err]),
                         st4)
                    | (None, st4) \<Rightarrow> (NewAggregate errs1, st4)))))"

subsection \<open>Observations on a run\<close>

text \<open>
  What the log of a run shows: the pods submitted, in order; the contexts under which
  pods were waited for; the bulk deletes.
\<close>

fun submitted :: "Event list \<Rightarrow> string list" where
  "submitted [] = []"
| "submitted (CreateOrRestartPod name # es) = name # submitted es"
| "submitted (WaitForPodCompletion ctx ns name # es) = submitted es"
| "submitted (DeleteAllOfPods ctx ns label val # es) = submitted es"

fun waitContexts :: "Event list \<Rightarrow> Context list" where
  "waitContexts [] = []"
| "waitContexts (CreateOrRestartPod name # es) = waitContexts es"
| "waitContexts (WaitForPodCompletion ctx ns name # es) = ctx # waitContexts es"
| "waitContexts (DeleteAllOfPods ctx ns label val # es) = waitContexts es"

fun bulkDeletes :: "Event list \<Rightarrow> Event list" where
  "bulkDeletes [] = []"
| "bulkDeletes (CreateOrRestartPod name # es) = bulkDeletes es"
| "bulkDeletes (WaitForPodCompletion ctx ns name # es) = bulkDeletes es"
| "bulkDeletes (DeleteAllOfPods ctx ns label val # es) =
     DeleteAllOfPods ctx ns label val # bulkDeletes es"

text \<open>The errors an aggregate holds; a nil error holds none.\<close>

fun errorList :: "error option \<Rightarrow> error list" where
  "errorList None = []"
| "errorList (Some (Aggregate errs)) = errs"
| "errorList (Some err) = [err]"

text \<open>
  The error \<^verbatim>\<open>runPod\<close> answers for a pod. It is decided by the collaborators alone,
  not by the state in which the pod is run (lemma \<open>runPod_fst\<close> below).
\<close>

definition runPod_error ::
  "multiStageTestStep \<Rightarrow> Externals \<Rightarrow> Context \<Rightarrow> Pod \<Rightarrow> error option" where
  "runPod_error s x ctx pod =
     (case x_createOrRestartPod x pod of
        Some err \<Rightarrow> Some (Errorf (''failed to create or restart pod '' @ pod_Name pod) err)
      | None \<Rightarrow>
         (case x_waitForPodCompletion x ctx (notifierFor s pod) pod of (newPod, err) \<Rightarrow>
            (let pod1 = (case newPod of Some p \<Rightarrow> p | None \<Rightarrow> pod)
             in case err of
                  Some e \<Rightarrow>
                    Some (PodError (s_name s) (pod_Name pod1)
                            (if pod_StatusPhase pod1 = ''Failed'' \<and>
                                pod_StatusReason pod1 = ''DeadlineExceeded''
                             then StatusTimeout (pod_ActiveDeadlineSeconds pod1)
                             else StatusFailed) e)
                | None \<Rightarrow> None)))"

text \<open>
  The pods a phase runs: all of them, or, with short-circuit, the pods up to and
  including the first one that fails.
\<close>

definition podsRun ::
  "multiStageTestStep \<Rightarrow> Externals \<Rightarrow> Context \<Rightarrow> bool \<Rightarrow> Pod list \<Rightarrow> Pod list" where
  "podsRun s x ctx shortCircuit pods =
     (if shortCircuit
      then takeWhile (\<lambda>pod. runPod_error s x ctx pod = None) pods @
           take 1 (dropWhile (\<lambda>pod. runPod_error s x ctx pod = None) pods)
      else pods)"

text \<open>
  The pods a phase submits: none when its batch has a build error, else the pods of
  the batch that \<^verbatim>\<open>runPods\<close> runs under the phase's context and flag.
\<close>

definition phasePods ::
  "multiStageTestStep \<Rightarrow> Externals \<Rightarrow> Context \<Rightarrow> LiteralTestStep list \<Rightarrow> EnvVar list \<Rightarrow> bool
     \<Rightarrow> bool \<Rightarrow> Pod list" where
  "phasePods s x ctx steps env shortCircuit hasPrevErrs =
     (case generatePods s x steps env hasPrevErrs of
        (pods, None) \<Rightarrow> podsRun s x ctx shortCircuit pods
      | (pods, Some err) \<Rightarrow> [])"

text \<open>
  What \<^verbatim>\<open>generatePods\<close> hands to its collaborators for one step: the image reference of
  lines 365 to 372, the call of \<^verbatim>\<open>generateBasePod\<close> of line 379, and the errors that
  \<^verbatim>\<open>envForDependencies\<close> collects, one for each dependency whose digest is not found
  (lines 438 to 444).
\<close>

definition stepImage :: "Externals \<Rightarrow> LiteralTestStep \<Rightarrow> string" where
  "stepImage x step =
     (case step_FromImageTag step of
        Some link \<Rightarrow> x_PipelineImageStream x @ '':'' @ link
      | None \<Rightarrow>
          (case x_DependencyParts x \<lparr>dep_Name = step_From step, dep_Env = ''''\<rparr> of
             (stream, tag) \<Rightarrow> stream @ '':'' @ tag))"

definition stepBasePod ::
  "multiStageTestStep \<Rightarrow> Externals \<Rightarrow> LiteralTestStep \<Rightarrow> string \<Rightarrow> error + Pod" where
  "stepBasePod s x step resources =
     x_generateBasePod x (s_jobSpec s) (s_name s @ ''-'' @ step_As step)
       multiStageTestStepContainerName
       [''/bin/bash'', ''-c'', CommandPrefix @ step_Commands step]
       (stepImage x step) resources (step_ArtifactDir step)"

definition dependencyErrors :: "Externals \<Rightarrow> LiteralTestStep \<Rightarrow> error list" where
  "dependencyErrors x step =
     concat (map (\<lambda>dependency.
                    case x_ImageDigestFor x (fst (x_DependencyParts x dependency))
                           (snd (x_DependencyParts x dependency)) of
                      Inl err \<Rightarrow>
                        [ErrorMsg (''could not determine image pull spec for image '' @
                                   dep_Name dependency @ '' on step '' @ step_As step)]
                    | Inr ref \<Rightarrow> [])
               (step_Dependencies step))"

text \<open>
  The parts of the result of \<^verbatim>\<open>Requires\<close> that come from one step: the image links of
  its dependencies and of its CLI (lines 173 to 184), the names it puts into
  \<^verbatim>\<open>internalLinks\<close> (lines 163 to 171), and whether its source image is external, that
  is, neither a pipeline image nor built by the configuration (line 163).
\<close>

definition stepLinks :: "Externals \<Rightarrow> LiteralTestStep \<Rightarrow> StepLink list" where
  "stepLinks x step =
     map (\<lambda>dependency. x_LinkForImage x (fst (x_DependencyParts x dependency))
                           (snd (x_DependencyParts x dependency)))
       (step_Dependencies step) @
     (if step_Cli step \<noteq> ''''
      then [x_LinkForImage x
              (fst (x_DependencyParts x
                      \<lparr>dep_Name = x_ReleaseStreamFor x (step_Cli step) @ '':cli'',
                       dep_Env = ''''\<rparr>))
              (snd (x_DependencyParts x
                      \<lparr>dep_Name = x_ReleaseStreamFor x (step_Cli step) @ '':cli'',
                       dep_Env = ''''\<rparr>))]
      else [])"

definition externalSource :: "Externals \<Rightarrow> LiteralTestStep \<Rightarrow> bool" where
  "externalSource x step =
     (\<not> (x_IsPipelineImage x (step_From step) \<or> x_BuildsImage x (step_From step)))"

definition internalNames :: "Externals \<Rightarrow> LiteralTestStep \<Rightarrow> string list" where
  "internalNames x step =
     (if externalSource x step then [] else [step_From step]) @
     (case step_FromImageTag step of Some link \<Rightarrow> [link] | None \<Rightarrow> [])"

subsection \<open>A sample test\<close>

text \<open>
  A concrete test, cluster and set of collaborators, on which the theorems below are
  instantiated. The base pod keeps the command in the \<^verbatim>\<open>Command\<close> field of its single
  container, which is what \<^verbatim>\<open>addSecretWrapper\<close> moves into \<^verbatim>\<open>Args\<close>; resource parsing
  rejects the request \<^verbatim>\<open>cpu: lots\<close>; the image \<^verbatim>\<open>missing\<close> has no digest; the pods
  whose step is called \<^verbatim>\<open>fail\<close> fail, and the caller cancels while a pod whose step is
  called \<^verbatim>\<open>slow\<close> runs. Of the three profile variables the lease variable has no
  link.
\<close>

definition sampleJobSpec :: JobSpec where
  "sampleJobSpec = \<lparr>js_Namespace = ''ci-op-1'', js_JobNameHash = ''0f3a9'', js_Owner = None\<rparr>"

definition sampleBasePod ::
  "JobSpec \<Rightarrow> string \<Rightarrow> string \<Rightarrow> string list \<Rightarrow> string \<Rightarrow> string \<Rightarrow> string \<Rightarrow> error + Pod" where
  "sampleBasePod jobSpec podName containerName command img resources artifactDir =
     Inr \<lparr>pod_Name = podName,
          pod_Namespace = js_Namespace jobSpec,
          pod_Labels = [(''prow.k8s.io/id'', ''job-1'')],
          pod_Annotations = [],
          pod_OwnerReferences = [],
          pod_Volumes = [],
          pod_InitContainers = [],
          pod_Container0 =
            \<lparr>c_Name = containerName, c_Image = img, c_Command = command, c_Args = [],
             c_Env = [], c_VolumeMounts = [],
             c_TerminationMessagePolicy = ''FallbackToLogsOnError''\<rparr>,
          pod_ContainersRest = [],
          pod_ActiveDeadlineSeconds = None,
          pod_ServiceAccountName = '''',
          pod_TerminationGracePeriodSeconds = None,
          pod_StatusPhase = '''',
          pod_StatusReason = ''''\<rparr>"

definition sampleExternals :: Externals where
  "sampleExternals =
     \<lparr>x_ProwJobIdLabel = ''prow.k8s.io/id'',
      x_annotationSaveContainerLogs = ''ci-operator.openshift.io/save-container-logs'',
      x_homeVolumeName = ''home'',
      x_apiCIRegistry = ''registry.svc.ci.openshift.org'',
      x_PipelineImageStream = ''pipeline'',
      x_LatestReleaseName = ''latest'',
      x_envForProfile = [''RELEASE_IMAGE_LATEST'', ''LEASED_RESOURCE'', ''IMAGE_FORMAT''],
      x_ReleaseStreamFor = (\<lambda>n. if n = ''latest'' then ''stable'' else ''stable-'' @ n),
      x_ClusterType = (\<lambda>profile. profile),
      x_IsPipelineImage = (\<lambda>n. n = ''src''),
      x_BuildsImage = (\<lambda>n. n = ''tests''),
      x_DependencyParts = (\<lambda>d. (''stable'', dep_Name d)),
      x_LinkForImage = (\<lambda>stream name. StepLink (''image '' @ stream @ '':'' @ name)),
      x_InternalImageLink = (\<lambda>tag. StepLink (''pipeline '' @ tag)),
      x_ReleaseImagesLink = (\<lambda>name. StepLink (''release images '' @ name)),
      x_LinkForEnv =
        (\<lambda>e. if e = ''RELEASE_IMAGE_LATEST'' then Some (StepLink ''release payload latest'')
             else if e = ''IMAGE_FORMAT'' then Some (StepLink ''images ready'')
             else None),
      x_resourcesFor =
        (\<lambda>r. if r = ''cpu: lots'' then Inl (ExternalError ''invalid quantity'') else Inr r),
      x_generateBasePod = sampleBasePod,
      x_ImageDigestFor =
        (\<lambda>stream name. if name = ''missing'' then Inl (ExternalError ''no such image'')
                        else Inr (stream @ ''@'' @ name)),
      x_paramsGet = (\<lambda>k. Inr (''value-of-'' @ k)),
      x_resolveOptionalOperator = Inr [],
      x_createOrRestartPod = (\<lambda>pod. None),
      x_waitForPodCompletion =
        (\<lambda>ctx notifier pod.
           (None, if pod_Name pod = ''e2e-fail'' then Some (ExternalError ''pod failed'')
                  else None)),
      x_cancelsDuring = (\<lambda>podName. podName = ''e2e-slow''),
      x_SubTests = (\<lambda>notifier description. [description]),
      x_DeleteAllOf = None\<rparr>"

definition sampleStep :: "string \<Rightarrow> LiteralTestStep" where
  "sampleStep stepName =
     \<lparr>step_As = stepName,
      step_From = ''src'',
      step_FromImageTag = None,
      step_Commands = ''make test'',
      step_ArtifactDir = '''',
      step_Resources = ''cpu: 100m'',
      step_Credentials = [],
      step_Environment = [],
      step_Dependencies = [],
      step_ActiveDeadlineSeconds = None,
      step_TerminationGracePeriodSeconds = None,
      step_ReadonlySharedDir = False,
      step_OptionalOnSuccess = None,
      step_Cli = ''''\<rparr>"

definition sampleTest :: multiStageTestStep where
  "sampleTest =
     \<lparr>s_name = ''e2e'',
      s_profile = '''',
      s_env = [],
      s_artifactDir = '''',
      s_jobSpec = sampleJobSpec,
      s_pre = [sampleStep ''setup''],
      s_test = [sampleStep ''run''],
      s_post = [sampleStep ''teardown''],
      s_allowSkipOnSuccess = Some True,
      s_leases = []\<rparr>"

definition sampleState :: RunState where
  "sampleState =
     \<lparr>secrets = Map.empty,
      serviceAccounts = Map.empty,
      roles = Map.empty,
      roleBindings = Map.empty,
      events = [],
      ctxCancelled = False,
      subTests = []\<rparr>"

definition samplePod :: "string \<Rightarrow> Pod" where
  "samplePod podName =
     \<lparr>pod_Name = podName,
      pod_Namespace = ''ci-op-1'',
      pod_Labels = [(MultiStageTestLabel, ''e2e'')],
      pod_Annotations = [],
      pod_OwnerReferences = [],
      pod_Volumes = [],
      pod_InitContainers = [],
      pod_Container0 =
        \<lparr>c_Name = ''test'', c_Image = ''stable:src'', c_Command = [''/bin/true''], c_Args = [],
         c_Env = [], c_VolumeMounts = [], c_TerminationMessagePolicy = ''''\<rparr>,
      pod_ContainersRest = [],
      pod_ActiveDeadlineSeconds = None,
      pod_ServiceAccountName = ''e2e'',
      pod_TerminationGracePeriodSeconds = None,
      pod_StatusPhase = '''',
      pod_StatusReason = ''''\<rparr>"

section \<open>Properties\<close>

subsection \<open>The skip policy and the batch\<close>

text \<open>
  The loop of \<^verbatim>\<open>generatePods\<close> concatenates what each step adds: the batch is the pods
  of the steps in declaration order, the error is the aggregate of the steps' errors.
\<close>

lemma generatePods_loop_acc:
  "generatePods_loop s x env h steps ret errs =
     (ret @ concat (map (\<lambda>step. fst (generatePods_step s x env h step)) steps),
      errs @ concat (map (\<lambda>step. snd (generatePods_step s x env h step)) steps))"
  by (induction steps arbitrary: ret errs) (simp_all split: prod.splits)

lemma generatePods_concat:
  "generatePods s x steps env h =
     (concat (map (\<lambda>step. fst (generatePods_step s x env h step)) steps),
      NewAggregate (concat (map (\<lambda>step. snd (generatePods_step s x env h step)) steps)))"
  by (simp add: generatePods_def generatePods_loop_acc)

lemma generatePods_step_skip:
  "(generatePods_step s x env h step = ([], [])) =
     (s_allowSkipOnSuccess s = Some True \<and> step_OptionalOnSuccess step = Some True \<and> \<not> h)"
  by (simp add: generatePods_step_def Let_def split: sum.splits prod.splits option.splits)

lemma generatePods_step_cases:
  "generatePods_step s x env h step = ([], [])
   \<or> (\<exists>pod. generatePods_step s x env h step = ([pod], []))
   \<or> (\<exists>errs. errs \<noteq> [] \<and> generatePods_step s x env h step = ([], errs))"
  by (simp add: generatePods_step_def Let_def split: sum.splits prod.splits option.splits)

lemmas sample_defs =
  sampleTest_def sampleExternals_def sampleStep_def sampleJobSpec_def sampleBasePod_def

text \<open>
  The errors of \<^verbatim>\<open>envForDependencies\<close>, and what an unskipped step adds at each of the
  three places where building it can fail (lines 374 to 377, 379 to 383 and 409 to 413)
  and when it does not fail. The functions that decorate the pod keep its name, namespace,
  labels and service account; \<^verbatim>\<open>addSecret\<close> adds the volume of the shared secret.
\<close>

lemma envForDependencies_loop_errs:
  "snd (envForDependencies_loop x step deps env errs) =
     errs @ concat (map (\<lambda>dependency.
                    case x_ImageDigestFor x (fst (x_DependencyParts x dependency))
                           (snd (x_DependencyParts x dependency)) of
                      Inl err \<Rightarrow>
                        [ErrorMsg (''could not determine image pull spec for image '' @
                                   dep_Name dependency @ '' on step '' @ step_As step)]
                    | Inr ref \<Rightarrow> []) deps)"
  by (induction deps arbitrary: env errs) (simp_all add: case_prod_beta split: sum.splits)

lemma envForDependencies_errs: "snd (envForDependencies x step) = dependencyErrors x step"
  by (simp add: envForDependencies_def dependencyErrors_def envForDependencies_loop_errs)

lemma dependencyErrors_empty:
  "(dependencyErrors x step = []) =
     (\<forall>dependency \<in> set (step_Dependencies step).
        \<exists>ref. x_ImageDigestFor x (fst (x_DependencyParts x dependency))
                (snd (x_DependencyParts x dependency)) = Inr ref)"
  by (auto simp: dependencyErrors_def split: sum.splits) (metis sum.nchotomy)

lemma addCredentials_eq:
  "addCredentials cs pod =
     pod\<lparr>pod_Volumes := pod_Volumes pod @
            map (\<lambda>c. \<lparr>vol_Name = credentialSecretName c,
                       vol_VolumeSource = SecretVolumeSource (credentialSecretName c)\<rparr>) cs,
         pod_Container0 := (pod_Container0 pod)\<lparr>c_VolumeMounts :=
            c_VolumeMounts (pod_Container0 pod) @
            map (\<lambda>c. \<lparr>vm_Name = credentialSecretName c, vm_MountPath = cred_MountPath c\<rparr>) cs\<rparr>\<rparr>"
  by (induction cs arbitrary: pod) (simp_all add: Let_def)

lemma generatePods_step_resources:
  "\<not> (s_allowSkipOnSuccess s = Some True \<and> step_OptionalOnSuccess step = Some True \<and> \<not> h)
   \<Longrightarrow> x_resourcesFor x (step_Resources step) = Inl err
   \<Longrightarrow> generatePods_step s x env h step = ([], [err])"
  by (simp add: generatePods_step_def Let_def)

lemma generatePods_step_base:
  "\<not> (s_allowSkipOnSuccess s = Some True \<and> step_OptionalOnSuccess step = Some True \<and> \<not> h)
   \<Longrightarrow> x_resourcesFor x (step_Resources step) = Inr resources
   \<Longrightarrow> stepBasePod s x step resources = Inl err
   \<Longrightarrow> generatePods_step s x env h step = ([], [err])"
  by (simp add: generatePods_step_def stepBasePod_def stepImage_def Let_def case_prod_beta)

lemma generatePods_step_deps:
  "\<not> (s_allowSkipOnSuccess s = Some True \<and> step_OptionalOnSuccess step = Some True \<and> \<not> h)
   \<Longrightarrow> x_resourcesFor x (step_Resources step) = Inr resources
   \<Longrightarrow> stepBasePod s x step resources = Inr pod0
   \<Longrightarrow> dependencyErrors x step \<noteq> []
   \<Longrightarrow> generatePods_step s x env h step = ([], dependencyErrors x step)"
  by (simp add: generatePods_step_def stepBasePod_def stepImage_def Let_def case_prod_beta
        envForDependencies_errs)

lemma addCredentials_frame:
  "pod_Name (addCredentials cs pod) = pod_Name pod"
  "pod_Namespace (addCredentials cs pod) = pod_Namespace pod"
  "pod_Labels (addCredentials cs pod) = pod_Labels pod"
  "pod_ServiceAccountName (addCredentials cs pod) = pod_ServiceAccountName pod"
  "set (pod_Volumes pod) \<subseteq> set (pod_Volumes (addCredentials cs pod))"
  by (auto simp: addCredentials_eq)

lemma addSecret_frame:
  "pod_Name (addSecret n pod) = pod_Name pod"
  "pod_Namespace (addSecret n pod) = pod_Namespace pod"
  "pod_Labels (addSecret n pod) = pod_Labels pod"
  "pod_ServiceAccountName (addSecret n pod) = pod_ServiceAccountName pod"
  "\<lparr>vol_Name = n, vol_VolumeSource = SecretVolumeSource n\<rparr> \<in> set (pod_Volumes (addSecret n pod))"
  by (simp_all add: addSecret_def Let_def)

lemma addCliInjector_frame:
  "pod_Name (addCliInjector x r pod) = pod_Name pod"
  "pod_Namespace (addCliInjector x r pod) = pod_Namespace pod"
  "pod_Labels (addCliInjector x r pod) = pod_Labels pod"
  "pod_ServiceAccountName (addCliInjector x r pod) = pod_ServiceAccountName pod"
  by (simp_all add: addCliInjector_def Let_def)

lemma addProfile_frame:
  "pod_Name (addProfile x n p pod) = pod_Name pod"
  "pod_Namespace (addProfile x n p pod) = pod_Namespace pod"
  "pod_Labels (addProfile x n p pod) = pod_Labels pod"
  "pod_ServiceAccountName (addProfile x n p pod) = pod_ServiceAccountName pod"
  by (simp_all add: addProfile_def Let_def)

lemma appendEnv_frame:
  "pod_Name (appendEnv vars pod) = pod_Name pod"
  "pod_Namespace (appendEnv vars pod) = pod_Namespace pod"
  "pod_Labels (appendEnv vars pod) = pod_Labels pod"
  "pod_ServiceAccountName (appendEnv vars pod) = pod_ServiceAccountName pod"
  by (simp_all add: appendEnv_def)

lemma addSecretWrapper_frame:
  "pod_Name (addSecretWrapper x pod) = pod_Name pod"
  "pod_Namespace (addSecretWrapper x pod) = pod_Namespace pod"
  "pod_Labels (addSecretWrapper x pod) = pod_Labels pod"
  "pod_ServiceAccountName (addSecretWrapper x pod) = pod_ServiceAccountName pod"
  by (simp_all add: addSecretWrapper_def Let_def)

lemma labelPod_frame:
  "pod_Name (labelPod s x step pod) = pod_Name pod"
  "pod_Namespace (labelPod s x step pod) = pod_Namespace pod"
  "map_of (pod_Labels (labelPod s x step pod)) MultiStageTestLabel = Some (s_name s)"
  "pod_ServiceAccountName (labelPod s x step pod) = s_name s"
  by (simp_all add: labelPod_def update_conv')

lemmas pod_frame =
  addCredentials_frame addSecret_frame addCliInjector_frame addProfile_frame appendEnv_frame
  addSecretWrapper_frame labelPod_frame

lemma generatePods_step_pod:
  assumes "\<not> (s_allowSkipOnSuccess s = Some True \<and> step_OptionalOnSuccess step = Some True \<and> \<not> h)"
    and "x_resourcesFor x (step_Resources step) = Inr resources"
    and "stepBasePod s x step resources = Inr pod0"
    and "dependencyErrors x step = []"
  shows "\<exists>pod. generatePods_step s x env h step = ([pod], [])
         \<and> pod_Name pod = pod_Name pod0
         \<and> pod_Namespace pod = pod_Namespace pod0
         \<and> map_of (pod_Labels pod) MultiStageTestLabel = Some (s_name s)
         \<and> pod_ServiceAccountName pod = s_name s
         \<and> \<lparr>vol_Name = s_name s, vol_VolumeSource = SecretVolumeSource (s_name s)\<rparr>
              \<in> set (pod_Volumes pod)"
proof -
  have sub: "\<And>cs p v. v \<in> set (pod_Volumes p) \<Longrightarrow> v \<in> set (pod_Volumes (addCredentials cs p))"
    using addCredentials_frame(5) by blast
  obtain pod where p: "generatePods_step s x env h step =
      ([addCredentials (step_Credentials step) (addSecret (s_name s) pod)], [])"
    and q: "pod_Name pod = pod_Name pod0" "pod_Namespace pod = pod_Namespace pod0"
      "map_of (pod_Labels pod) MultiStageTestLabel = Some (s_name s)"
      "pod_ServiceAccountName pod = s_name s"
    using assms
    by (simp add: generatePods_step_def stepBasePod_def stepImage_def Let_def case_prod_beta
          envForDependencies_errs pod_frame split: option.splits)
  show ?thesis
    unfolding p using q by (simp add: sub pod_frame)
qed


text \<open>
  C1 (counterexample). With both flags enabled and an earlier phase failed, the step
  \<^verbatim>\<open>verify\<close> is not skipped; its dependency \<^verbatim>\<open>missing\<close> has no digest, so
  \<^verbatim>\<open>envForDependencies\<close> answers an error and line 412 continues: the batch holds no
  workload for the step although the skip condition is false.
\<close>

theorem generatePods_unskipped_step_without_pod:
  "s_allowSkipOnSuccess sampleTest = Some True
   \<and> step_OptionalOnSuccess
        ((sampleStep ''verify'')
           \<lparr>step_OptionalOnSuccess := Some True,
            step_Dependencies := [\<lparr>dep_Name = ''missing'', dep_Env = ''IMAGE''\<rparr>]\<rparr>) = Some True
   \<and> generatePods sampleTest sampleExternals
        [(sampleStep ''verify'')
           \<lparr>step_OptionalOnSuccess := Some True,
            step_Dependencies := [\<lparr>dep_Name = ''missing'', dep_Env = ''IMAGE''\<rparr>]\<rparr>]
        [] True =
       ([], Some (Aggregate
          [ErrorMsg ''could not determine image pull spec for image missing on step verify'']))"
  by (simp add: generatePods_def generatePods_step_def envForDependencies_def sample_defs
        NewAggregate_def)

text \<open>
  C1 (amended). A declared step adds nothing to the batch, neither a pod nor an
  error, if and only if the test-level flag is enabled, the step's own flag is enabled
  and no earlier phase produced an error. Otherwise the step is built, and a workload is
  included for it only if building succeeds: when \<^verbatim>\<open>resourcesFor\<close> answers an error the
  step adds that error and no workload; else when \<^verbatim>\<open>generateBasePod\<close> answers an error
  the step adds that error and no workload; else when the digest of some dependency is not
  found the step adds one error for each such dependency and no workload; else the step
  adds exactly one workload and no error, and the workload has the name and the namespace
  of the base pod, the label and the service account of the test, and the volume of the
  shared secret. The batch is the steps' workloads in order, with the aggregate of the
  steps' errors.
\<close>

theorem generatePods_step_skip_iff:
  "(generatePods_step s x env hasPrevErrs step = ([], [])) =
     (s_allowSkipOnSuccess s = Some True \<and> step_OptionalOnSuccess step = Some True \<and>
      \<not> hasPrevErrs)
   \<and> (generatePods_step s x env hasPrevErrs step = ([], [])
      \<or> (\<exists>pod. generatePods_step s x env hasPrevErrs step = ([pod], []))
      \<or> (\<exists>errs. errs \<noteq> [] \<and> generatePods_step s x env hasPrevErrs step = ([], errs)))
   \<and> (\<not> (s_allowSkipOnSuccess s = Some True \<and> step_OptionalOnSuccess step = Some True \<and>
          \<not> hasPrevErrs) \<longrightarrow>
        (\<forall>err. x_resourcesFor x (step_Resources step) = Inl err \<longrightarrow>
           generatePods_step s x env hasPrevErrs step = ([], [err]))
      \<and> (\<forall>resources. x_resourcesFor x (step_Resources step) = Inr resources \<longrightarrow>
           (\<forall>err. stepBasePod s x step resources = Inl err \<longrightarrow>
              generatePods_step s x env hasPrevErrs step = ([], [err]))
         \<and> (\<forall>pod0. stepBasePod s x step resources = Inr pod0 \<longrightarrow>
              (dependencyErrors x step \<noteq> [] \<longrightarrow>
                 generatePods_step s x env hasPrevErrs step = ([], dependencyErrors x step))
            \<and> (dependencyErrors x step = [] \<longrightarrow>
                 (\<exists>pod. generatePods_step s x env hasPrevErrs step = ([pod], [])
                    \<and> pod_Name pod = pod_Name pod0
                    \<and> pod_Namespace pod = pod_Namespace pod0
                    \<and> map_of (pod_Labels pod) MultiStageTestLabel = Some (s_name s)
                    \<and> pod_ServiceAccountName pod = s_name s
                    \<and> \<lparr>vol_Name = s_name s, vol_VolumeSource = SecretVolumeSource (s_name s)\<rparr>
                         \<in> set (pod_Volumes pod))))))
   \<and> snd (envForDependencies x step) = dependencyErrors x step
   \<and> (dependencyErrors x step = []) =
       (\<forall>dependency \<in> set (step_Dependencies step).
          \<exists>ref. x_ImageDigestFor x (fst (x_DependencyParts x dependency))
                  (snd (x_DependencyParts x dependency)) = Inr ref)
   \<and> generatePods s x steps env hasPrevErrs =
       (concat (map (\<lambda>step. fst (generatePods_step s x env hasPrevErrs step)) steps),
        NewAggregate
          (concat (map (\<lambda>step. snd (generatePods_step s x env hasPrevErrs step)) steps)))"
proof -
  let ?skip = "s_allowSkipOnSuccess s = Some True \<and> step_OptionalOnSuccess step = Some True \<and>
      \<not> hasPrevErrs"
  have built: "\<not> ?skip \<longrightarrow>
        (\<forall>err. x_resourcesFor x (step_Resources step) = Inl err \<longrightarrow>
           generatePods_step s x env hasPrevErrs step = ([], [err]))
      \<and> (\<forall>resources. x_resourcesFor x (step_Resources step) = Inr resources \<longrightarrow>
           (\<forall>err. stepBasePod s x step resources = Inl err \<longrightarrow>
              generatePods_step s x env hasPrevErrs step = ([], [err]))
         \<and> (\<forall>pod0. stepBasePod s x step resources = Inr pod0 \<longrightarrow>
              (dependencyErrors x step \<noteq> [] \<longrightarrow>
                 generatePods_step s x env hasPrevErrs step = ([], dependencyErrors x step))
            \<and> (dependencyErrors x step = [] \<longrightarrow>
                 (\<exists>pod. generatePods_step s x env hasPrevErrs step = ([pod], [])
                    \<and> pod_Name pod = pod_Name pod0
                    \<and> pod_Namespace pod = pod_Namespace pod0
                    \<and> map_of (pod_Labels pod) MultiStageTestLabel = Some (s_name s)
                    \<and> pod_ServiceAccountName pod = s_name s
                    \<and> \<lparr>vol_Name = s_name s, vol_VolumeSource = SecretVolumeSource (s_name s)\<rparr>
                         \<in> set (pod_Volumes pod)))))"
    using generatePods_step_resources [of s step hasPrevErrs x _ env]
      generatePods_step_base [of s step hasPrevErrs x _ _ env]
      generatePods_step_deps [of s step hasPrevErrs x _ _ env]
      generatePods_step_pod [of s step hasPrevErrs x _ _ env]
    by blast
  show ?thesis
    using generatePods_step_skip [of s x env hasPrevErrs step]
      generatePods_step_cases [of s x env hasPrevErrs step]
      generatePods_concat [of s x steps env hasPrevErrs]
      envForDependencies_errs [of x step] dependencyErrors_empty [of x step] built
    by blast
qed


theorem generatePods_step_skip_iff_witness:
  "generatePods_step sampleTest sampleExternals [] False
     ((sampleStep ''lint'')\<lparr>step_OptionalOnSuccess := Some True\<rparr>) = ([], [])
   \<and> generatePods_step sampleTest sampleExternals [] True
     ((sampleStep ''lint'')\<lparr>step_OptionalOnSuccess := Some True\<rparr>) \<noteq> ([], [])
   \<and> map pod_Name (fst (generatePods_step sampleTest sampleExternals [] True
        ((sampleStep ''lint'')\<lparr>step_OptionalOnSuccess := Some True\<rparr>))) = [''e2e-lint'']
   \<and> snd (generatePods_step sampleTest sampleExternals [] True
        ((sampleStep ''lint'')\<lparr>step_OptionalOnSuccess := Some True\<rparr>)) = []
   \<and> generatePods_step sampleTest sampleExternals [] True
        ((sampleStep ''lint'')\<lparr>step_OptionalOnSuccess := Some True,
                               step_Resources := ''cpu: lots''\<rparr>) =
       ([], [ExternalError ''invalid quantity''])
   \<and> generatePods_step sampleTest sampleExternals [] True
        ((sampleStep ''lint'')\<lparr>step_OptionalOnSuccess := Some True,
           step_Dependencies := [\<lparr>dep_Name = ''missing'', dep_Env = ''IMAGE''\<rparr>]\<rparr>) =
       ([], [ErrorMsg ''could not determine image pull spec for image missing on step lint''])"
proof -
  let ?lint = "(sampleStep ''lint'')\<lparr>step_OptionalOnSuccess := Some True\<rparr>"
  let ?bad = "(sampleStep ''lint'')\<lparr>step_OptionalOnSuccess := Some True,
                               step_Resources := ''cpu: lots''\<rparr>"
  let ?dep = "(sampleStep ''lint'')\<lparr>step_OptionalOnSuccess := Some True,
           step_Dependencies := [\<lparr>dep_Name = ''missing'', dep_Env = ''IMAGE''\<rparr>]\<rparr>"
  note t = generatePods_step_skip_iff [of sampleTest sampleExternals "[]" _ _ "[]"]
  have flags: "s_allowSkipOnSuccess sampleTest = Some True"
    "step_OptionalOnSuccess ?lint = Some True"
    by (simp_all add: sampleTest_def sampleStep_def)
  have res: "x_resourcesFor sampleExternals (step_Resources (sampleStep ''lint'')) = Inr ''cpu: 100m''"
    "x_resourcesFor sampleExternals ''cpu: lots'' = Inl (ExternalError ''invalid quantity'')"
    by (simp_all add: sampleExternals_def sampleStep_def)
  obtain pod0 where base: "stepBasePod sampleTest sampleExternals ?lint ''cpu: 100m'' = Inr pod0"
    and name: "pod_Name pod0 = ''e2e-lint''"
    by (simp add: stepBasePod_def sample_defs)
  obtain pod1 where base1: "stepBasePod sampleTest sampleExternals ?dep ''cpu: 100m'' = Inr pod1"
    by (simp add: stepBasePod_def sample_defs)
  have deps: "dependencyErrors sampleExternals ?lint = []"
    "dependencyErrors sampleExternals ?dep =
       [ErrorMsg ''could not determine image pull spec for image missing on step lint'']"
    by (simp_all add: dependencyErrors_def sampleStep_def sampleExternals_def)
  from t [of False ?lint, THEN conjunct1] flags
  have a: "generatePods_step sampleTest sampleExternals [] False ?lint = ([], [])"
    by simp
  from t [of True ?lint, THEN conjunct1]
  have b: "generatePods_step sampleTest sampleExternals [] True ?lint \<noteq> ([], [])"
    by simp
  from t [of True ?lint, THEN conjunct2, THEN conjunct2, THEN conjunct1]
  obtain pod where c: "generatePods_step sampleTest sampleExternals [] True ?lint = ([pod], [])"
      "pod_Name pod = ''e2e-lint''"
    by (auto simp: res base deps name)
  from t [of True ?bad, THEN conjunct2, THEN conjunct2, THEN conjunct1]
  have d: "generatePods_step sampleTest sampleExternals [] True ?bad =
       ([], [ExternalError ''invalid quantity''])"
    by (simp add: res)
  from t [of True ?dep, THEN conjunct2, THEN conjunct2, THEN conjunct1]
  have e: "generatePods_step sampleTest sampleExternals [] True ?dep =
       ([], [ErrorMsg ''could not determine image pull spec for image missing on step lint''])"
    by (simp add: res base1 deps)
  from a b c d e show ?thesis by simp
qed

text \<open>
  C10 (counterexample). The test-level flag is absent, so the step \<^verbatim>\<open>build\<close> is not
  skipped; its resource request does not parse and line 376 continues: no workload
  is emitted for it.
\<close>

theorem generatePods_flag_absent_without_pod:
  "s_allowSkipOnSuccess (sampleTest\<lparr>s_allowSkipOnSuccess := None\<rparr>) = None
   \<and> generatePods (sampleTest\<lparr>s_allowSkipOnSuccess := None\<rparr>) sampleExternals
        [(sampleStep ''build'')\<lparr>step_Resources := ''cpu: lots''\<rparr>] [] False =
       ([], Some (Aggregate [ExternalError ''invalid quantity'']))"
  by (simp add: generatePods_def generatePods_step_def sample_defs NewAggregate_def)

text \<open>
  C10 (amended). When the test-level flag or the step's own flag is absent, the step
  is never skipped, whether or not earlier phases failed: it is always built. A workload
  is emitted for it only if building succeeds: when \<^verbatim>\<open>resourcesFor\<close> or
  \<^verbatim>\<open>generateBasePod\<close> answers an error the step adds that error and no workload; else
  when the digest of some dependency is not found it adds one error for each such
  dependency and no workload; else it adds exactly one workload and no error, with the
  name and the namespace of the base pod, the label and the service account of the test
  and the volume of the shared secret. A step is skipped only when both flags are present
  and true.
\<close>

theorem generatePods_step_flag_absent:
  "(s_allowSkipOnSuccess s = None \<or> step_OptionalOnSuccess step = None \<longrightarrow>
      generatePods_step s x env hasPrevErrs step \<noteq> ([], [])
      \<and> ((\<exists>pod. generatePods_step s x env hasPrevErrs step = ([pod], []))
         \<or> (\<exists>errs. errs \<noteq> [] \<and> generatePods_step s x env hasPrevErrs step = ([], errs)))
      \<and> (\<forall>err. x_resourcesFor x (step_Resources step) = Inl err \<longrightarrow>
           generatePods_step s x env hasPrevErrs step = ([], [err]))
      \<and> (\<forall>resources. x_resourcesFor x (step_Resources step) = Inr resources \<longrightarrow>
           (\<forall>err. stepBasePod s x step resources = Inl err \<longrightarrow>
              generatePods_step s x env hasPrevErrs step = ([], [err]))
         \<and> (\<forall>pod0. stepBasePod s x step resources = Inr pod0 \<longrightarrow>
              (dependencyErrors x step \<noteq> [] \<longrightarrow>
                 generatePods_step s x env hasPrevErrs step = ([], dependencyErrors x step))
            \<and> (dependencyErrors x step = [] \<longrightarrow>
                 (\<exists>pod. generatePods_step s x env hasPrevErrs step = ([pod], [])
                    \<and> pod_Name pod = pod_Name pod0
                    \<and> pod_Namespace pod = pod_Namespace pod0
                    \<and> map_of (pod_Labels pod) MultiStageTestLabel = Some (s_name s)
                    \<and> pod_ServiceAccountName pod = s_name s
                    \<and> \<lparr>vol_Name = s_name s, vol_VolumeSource = SecretVolumeSource (s_name s)\<rparr>
                         \<in> set (pod_Volumes pod))))))
   \<and> (generatePods_step s x env hasPrevErrs step = ([], []) \<longrightarrow>
      s_allowSkipOnSuccess s = Some True \<and> step_OptionalOnSuccess step = Some True)
   \<and> (dependencyErrors x step = []) =
       (\<forall>dependency \<in> set (step_Dependencies step).
          \<exists>ref. x_ImageDigestFor x (fst (x_DependencyParts x dependency))
                  (snd (x_DependencyParts x dependency)) = Inr ref)"
proof -
  let ?absent = "s_allowSkipOnSuccess s = None \<or> step_OptionalOnSuccess step = None"
  have unskipped: "?absent \<Longrightarrow>
      \<not> (s_allowSkipOnSuccess s = Some True \<and> step_OptionalOnSuccess step = Some True \<and>
         \<not> hasPrevErrs)"
    by auto
  have built: "?absent \<longrightarrow>
        (\<forall>err. x_resourcesFor x (step_Resources step) = Inl err \<longrightarrow>
           generatePods_step s x env hasPrevErrs step = ([], [err]))
      \<and> (\<forall>resources. x_resourcesFor x (step_Resources step) = Inr resources \<longrightarrow>
           (\<forall>err. stepBasePod s x step resources = Inl err \<longrightarrow>
              generatePods_step s x env hasPrevErrs step = ([], [err]))
         \<and> (\<forall>pod0. stepBasePod s x step resources = Inr pod0 \<longrightarrow>
              (dependencyErrors x step \<noteq> [] \<longrightarrow>
                 generatePods_step s x env hasPrevErrs step = ([], dependencyErrors x step))
            \<and> (dependencyErrors x step = [] \<longrightarrow>
                 (\<exists>pod. generatePods_step s x env hasPrevErrs step = ([pod], [])
                    \<and> pod_Name pod = pod_Name pod0
                    \<and> pod_Namespace pod = pod_Namespace pod0
                    \<and> map_of (pod_Labels pod) MultiStageTestLabel = Some (s_name s)
                    \<and> pod_ServiceAccountName pod = s_name s
                    \<and> \<lparr>vol_Name = s_name s, vol_VolumeSource = SecretVolumeSource (s_name s)\<rparr>
                         \<in> set (pod_Volumes pod)))))"
    using generatePods_step_resources [OF unskipped]
      generatePods_step_base [OF unskipped]
      generatePods_step_deps [OF unskipped]
      generatePods_step_pod [OF unskipped]
    by blast
  have rest: "(?absent \<longrightarrow>
      generatePods_step s x env hasPrevErrs step \<noteq> ([], [])
      \<and> ((\<exists>pod. generatePods_step s x env hasPrevErrs step = ([pod], []))
         \<or> (\<exists>errs. errs \<noteq> [] \<and> generatePods_step s x env hasPrevErrs step = ([], errs))))
     \<and> (generatePods_step s x env hasPrevErrs step = ([], []) \<longrightarrow>
      s_allowSkipOnSuccess s = Some True \<and> step_OptionalOnSuccess step = Some True)"
    using generatePods_step_skip [of s x env hasPrevErrs step]
      generatePods_step_cases [of s x env hasPrevErrs step]
    by auto
  from built rest dependencyErrors_empty [of x step] show ?thesis by blast
qed

theorem generatePods_step_flag_absent_witness:
  "step_OptionalOnSuccess (sampleStep ''run'') = None
   \<and> generatePods_step sampleTest sampleExternals [] False (sampleStep ''run'') \<noteq> ([], [])
   \<and> generatePods_step sampleTest sampleExternals [] False
       ((sampleStep ''lint'')\<lparr>step_OptionalOnSuccess := Some True\<rparr>) = ([], [])
   \<and> s_allowSkipOnSuccess sampleTest = Some True
   \<and> map pod_Name (fst (generatePods_step sampleTest sampleExternals [] False
        (sampleStep ''run''))) = [''e2e-run'']
   \<and> snd (generatePods_step sampleTest sampleExternals [] False (sampleStep ''run'')) = []
   \<and> generatePods_step (sampleTest\<lparr>s_allowSkipOnSuccess := None\<rparr>) sampleExternals [] False
        ((sampleStep ''build'')\<lparr>step_OptionalOnSuccess := Some True,
                                step_Resources := ''cpu: lots''\<rparr>) =
       ([], [ExternalError ''invalid quantity''])"
proof -
  let ?bad = "(sampleStep ''build'')\<lparr>step_OptionalOnSuccess := Some True,
                                step_Resources := ''cpu: lots''\<rparr>"
  let ?noflag = "sampleTest\<lparr>s_allowSkipOnSuccess := None\<rparr>"
  have a: "step_OptionalOnSuccess (sampleStep ''run'') = None"
    by (simp add: sampleStep_def)
  have b: "generatePods_step sampleTest sampleExternals [] False
       ((sampleStep ''lint'')\<lparr>step_OptionalOnSuccess := Some True\<rparr>) = ([], [])"
    by (simp add: generatePods_step_def sampleTest_def sampleStep_def)
  have flag: "s_allowSkipOnSuccess ?noflag = None"
    by simp
  have res: "x_resourcesFor sampleExternals (step_Resources (sampleStep ''run'')) = Inr ''cpu: 100m''"
    "x_resourcesFor sampleExternals ''cpu: lots'' = Inl (ExternalError ''invalid quantity'')"
    by (simp_all add: sampleExternals_def sampleStep_def)
  obtain pod0 where base:
    "stepBasePod sampleTest sampleExternals (sampleStep ''run'') ''cpu: 100m'' = Inr pod0"
    and name: "pod_Name pod0 = ''e2e-run''"
    by (simp add: stepBasePod_def sample_defs)
  have deps: "dependencyErrors sampleExternals (sampleStep ''run'') = []"
    by (simp add: dependencyErrors_def sampleStep_def)
  note t = generatePods_step_flag_absent [of sampleTest "sampleStep ''run''" sampleExternals "[]" False]
  from t [THEN conjunct1] a
  have c: "generatePods_step sampleTest sampleExternals [] False (sampleStep ''run'') \<noteq> ([], [])"
    by blast
  from t [THEN conjunct1] a
  obtain pod where d: "generatePods_step sampleTest sampleExternals [] False (sampleStep ''run'') =
      ([pod], [])" "pod_Name pod = ''e2e-run''"
    by (auto simp: res base deps name)
  from generatePods_step_flag_absent [of ?noflag ?bad sampleExternals "[]" False, THEN conjunct1]
    flag
  have e: "generatePods_step ?noflag sampleExternals [] False ?bad =
       ([], [ExternalError ''invalid quantity''])"
    by (simp add: res)
  from generatePods_step_flag_absent [of sampleTest
      "(sampleStep ''lint'')\<lparr>step_OptionalOnSuccess := Some True\<rparr>" sampleExternals "[]" False,
      THEN conjunct2, THEN conjunct1] b
  have f: "s_allowSkipOnSuccess sampleTest = Some True"
    by blast
  from a b c d e f show ?thesis by simp
qed

subsection \<open>Build errors stop the phase\<close>

text \<open>
  C9. When some step of the phase adds a build error, \<^verbatim>\<open>runSteps\<close> returns the
  aggregate of the build errors of the whole batch and leaves the state as it was:
  nothing is submitted, no pod is waited for and no bulk delete is issued, whatever
  workloads the other steps built.
\<close>

theorem runSteps_build_error:
  assumes "step \<in> set steps"
    and "snd (generatePods_step s x env hasPrevErrs step) \<noteq> []"
  shows "runSteps s x ctx steps env shortCircuit hasPrevErrs st =
           (Some (Aggregate
              (concat (map (\<lambda>step. snd (generatePods_step s x env hasPrevErrs step)) steps))),
            st)"
proof -
  let ?errs = "concat (map (\<lambda>step. snd (generatePods_step s x env hasPrevErrs step)) steps)"
  from assms have "?errs \<noteq> []"
    by auto
  then have "NewAggregate ?errs = Some (Aggregate ?errs)"
    by (simp add: NewAggregate_def)
  then have "snd (generatePods s x steps env hasPrevErrs) = Some (Aggregate ?errs)"
    by (simp add: generatePods_concat)
  then show ?thesis
    by (cases "generatePods s x steps env hasPrevErrs") (simp add: runSteps_def)
qed


theorem runSteps_build_error_witness:
  "fst (generatePods sampleTest sampleExternals
          [sampleStep ''setup'', (sampleStep ''build'')\<lparr>step_Resources := ''cpu: lots''\<rparr>]
          [] False) \<noteq> []
   \<and> runSteps sampleTest sampleExternals CallerCtx
        [sampleStep ''setup'', (sampleStep ''build'')\<lparr>step_Resources := ''cpu: lots''\<rparr>]
        [] True False sampleState =
      (Some (Aggregate [ExternalError ''invalid quantity'']), sampleState)"
proof -
  let ?bad = "(sampleStep ''build'')\<lparr>step_Resources := ''cpu: lots''\<rparr>"
  have bad: "snd (generatePods_step sampleTest sampleExternals [] False ?bad) =
               [ExternalError ''invalid quantity'']"
    by (simp add: generatePods_step_def sample_defs)
  have good: "snd (generatePods_step sampleTest sampleExternals [] False (sampleStep ''setup'')) = []"
    by (simp add: generatePods_step_def envForDependencies_def sample_defs)
  have pods: "fst (generatePods_step sampleTest sampleExternals [] False (sampleStep ''setup'')) \<noteq> []"
    by (simp add: generatePods_step_def envForDependencies_def sample_defs)
  have "runSteps sampleTest sampleExternals CallerCtx [sampleStep ''setup'', ?bad]
          [] True False sampleState =
        (Some (Aggregate (concat (map (\<lambda>step. snd (generatePods_step sampleTest sampleExternals
            [] False step)) [sampleStep ''setup'', ?bad]))), sampleState)"
    by (rule runSteps_build_error [of ?bad]) (simp_all add: bad)
  with bad good pods show ?thesis
    by (simp add: generatePods_concat)
qed

subsection \<open>Access provisioning\<close>

text \<open>
  The shared secret is reset to the empty secret whatever was there; mirroring only
  adds secrets under keys that were free; the RBAC objects are added where they were
  missing. None of the three fails on an object that is already there (or, for the
  delete, already gone).
\<close>

lemma createSecret_eq:
  "createSecret s st =
     (None, st\<lparr>secrets := (secrets st)((js_Namespace (s_jobSpec s), s_name s) \<mapsto> emptySecret)\<rparr>)"
  by (cases "secrets st (js_Namespace (s_jobSpec s), s_name s)")
     (simp_all add: createSecret_def deleteSecretObject_def createSecretObject_def
        IsNotFound_def Let_def)

lemma createMirrors_ok: "fst (createMirrors s tc st) = None"
  by (induction tc arbitrary: st)
     (auto simp: createSecretObject_def IsAlreadyExists_def split: option.splits)

lemma createMirrors_keeps:
  "secrets st k = Some v \<Longrightarrow> secrets (snd (createMirrors s tc st)) k = Some v"
proof (induction tc arbitrary: st)
  case Nil
  then show ?case by simp
next
  case (Cons a tc)
  obtain m w where a: "a = (m, w)" by (cases a)
  show ?case
  proof (cases "secrets st (js_Namespace (s_jobSpec s), m)")
    case None
    with Cons.prems have "k \<noteq> (js_Namespace (s_jobSpec s), m)" by auto
    then have "secrets (st\<lparr>secrets := (secrets st)((js_Namespace (s_jobSpec s), m) \<mapsto> w)\<rparr>) k
                 = Some v"
      using Cons.prems by simp
    from Cons.IH [OF this] None show ?thesis
      by (simp add: a createSecretObject_def)
  next
    case (Some u)
    with Cons.IH [OF Cons.prems] show ?thesis
      by (simp add: a createSecretObject_def IsAlreadyExists_def)
  qed
qed

lemma createMirrors_creates:
  "(n, sec) \<in> set tc \<Longrightarrow>
     secrets (snd (createMirrors s tc st)) (js_Namespace (s_jobSpec s), n) \<noteq> None"
proof (induction tc arbitrary: st)
  case Nil
  then show ?case by simp
next
  case (Cons a tc)
  obtain m v where a: "a = (m, v)" by (cases a)
  show ?case
  proof (cases "(n, sec) = a")
    case True
    then have nm: "m = n" using a by simp
    show ?thesis
    proof (cases "secrets st (js_Namespace (s_jobSpec s), n)")
      case None
      then show ?thesis
        using createMirrors_keeps [of "st\<lparr>secrets := (secrets st)((js_Namespace (s_jobSpec s), n) \<mapsto> v)\<rparr>"
            "(js_Namespace (s_jobSpec s), n)" v s tc]
        by (simp add: a nm createSecretObject_def)
    next
      case (Some w)
      then show ?thesis
        using createMirrors_keeps [of st "(js_Namespace (s_jobSpec s), n)" w s tc]
        by (simp add: a nm createSecretObject_def IsAlreadyExists_def)
    qed
  next
    case False
    with Cons.prems have "(n, sec) \<in> set tc" by simp
    then show ?thesis
      using Cons.IH
      by (auto simp: a createSecretObject_def IsAlreadyExists_def split: option.splits)
  qed
qed

lemma createMirrors_present:
  "(\<And>n sec. (n, sec) \<in> set tc \<Longrightarrow> secrets st (js_Namespace (s_jobSpec s), n) \<noteq> None) \<Longrightarrow>
     createMirrors s tc st = (None, st)"
proof (induction tc)
  case Nil
  then show ?case by simp
next
  case (Cons a tc)
  obtain m w where a: "a = (m, w)" by (cases a)
  from Cons.prems [of m w] a obtain u where u: "secrets st (js_Namespace (s_jobSpec s), m) = Some u"
    by auto
  have "createMirrors s tc st = (None, st)"
    by (rule Cons.IH) (use Cons.prems in auto)
  with u show ?case
    by (simp add: a createSecretObject_def IsAlreadyExists_def)
qed

text \<open>
  The secrets after mirroring are given by the names of \<^verbatim>\<open>toCreate\<close> alone; the names
  are distinct, so the order in which Go ranges over the map does not show in the
  result.
\<close>

lemma createMirrors_secrets:
  "secrets (snd (createMirrors s tc st)) k =
     (case secrets st k of
        Some v \<Rightarrow> Some v
      | None \<Rightarrow> if fst k = js_Namespace (s_jobSpec s) then map_of tc (snd k) else None)"
proof (induction tc arbitrary: st)
  case Nil
  then show ?case by (simp split: option.splits)
next
  case (Cons a tc)
  obtain n w where a: "a = (n, w)" by (cases a)
  show ?case
  proof (cases "secrets st (js_Namespace (s_jobSpec s), n)")
    case None
    let ?st1 = "st\<lparr>secrets := (secrets st)((js_Namespace (s_jobSpec s), n) \<mapsto> w)\<rparr>"
    have "snd (createMirrors s (a # tc) st) = snd (createMirrors s tc ?st1)"
      using None by (simp add: a createSecretObject_def)
    with Cons.IH [of ?st1] None show ?thesis
      by (cases k) (auto simp: a split: option.splits)
  next
    case (Some u)
    have "snd (createMirrors s (a # tc) st) = snd (createMirrors s tc st)"
      using Some by (simp add: a createSecretObject_def IsAlreadyExists_def)
    with Cons.IH [of st] Some show ?thesis
      by (cases k) (auto simp: a split: option.splits)
  qed
qed

lemma readCredentials_distinct:
  "readCredentials s st creds tc = Inr r \<Longrightarrow> distinct (map fst tc) \<Longrightarrow> distinct (map fst r)"
  by (induction creds arbitrary: tc)
     (auto simp: Let_def distinct_update split: sum.splits)


lemma readCredentials_cong:
  "(\<And>c. c \<in> set creds \<Longrightarrow>
      secrets st (cred_Namespace c, cred_Name c) = secrets st' (cred_Namespace c, cred_Name c)) \<Longrightarrow>
   readCredentials s st creds tc = readCredentials s st' creds tc"
  by (induction creds arbitrary: tc)
     (auto simp: getSecretObject_def Let_def split: option.splits)

lemma readCredentials_sources:
  "readCredentials s st creds tc = Inr r \<Longrightarrow> c \<in> set creds \<Longrightarrow>
     secrets st (cred_Namespace c, cred_Name c) \<noteq> None"
  by (induction creds arbitrary: tc)
     (auto simp: getSecretObject_def Let_def split: option.splits)

lemma createServiceAccount_eq:
  "createServiceAccount key obj st =
     (if serviceAccounts st key = None then None else Some (StatusError AlreadyExists),
      st\<lparr>serviceAccounts :=
           (if serviceAccounts st key = None then (serviceAccounts st)(key \<mapsto> obj)
            else serviceAccounts st)\<rparr>)"
  by (cases "serviceAccounts st key") (simp_all add: createServiceAccount_def)

lemma createRole_eq:
  "createRole key obj st =
     (if roles st key = None then None else Some (StatusError AlreadyExists),
      st\<lparr>roles := (if roles st key = None then (roles st)(key \<mapsto> obj) else roles st)\<rparr>)"
  by (cases "roles st key") (simp_all add: createRole_def)

lemma createRoleBinding_eq:
  "createRoleBinding key obj st =
     (if roleBindings st key = None then None else Some (StatusError AlreadyExists),
      st\<lparr>roleBindings :=
           (if roleBindings st key = None then (roleBindings st)(key \<mapsto> obj)
            else roleBindings st)\<rparr>)"
  by (cases "roleBindings st key") (simp_all add: createRoleBinding_def)

lemma check_simps [simp]:
  "check None" "check (Some (StatusError AlreadyExists))"
  by (simp_all add: check_def IsAlreadyExists_def)

lemma setupRBAC_ok: "fst (setupRBAC s st) = None"
  by (simp add: setupRBAC_def Let_def createServiceAccount_eq createRole_eq
        createRoleBinding_eq)

lemma setupRBAC_secrets: "secrets (snd (setupRBAC s st)) = secrets st"
  by (simp add: setupRBAC_def Let_def createServiceAccount_eq createRole_eq
        createRoleBinding_eq)

lemma setupRBAC_creates:
  "serviceAccounts (snd (setupRBAC s st)) (js_Namespace (s_jobSpec s), s_name s) \<noteq> None"
  "roles (snd (setupRBAC s st)) (js_Namespace (s_jobSpec s), s_name s) \<noteq> None"
  "roleBindings (snd (setupRBAC s st)) (js_Namespace (s_jobSpec s), s_name s) \<noteq> None"
  by (simp_all add: setupRBAC_def Let_def createServiceAccount_eq createRole_eq
        createRoleBinding_eq)

lemma setupRBAC_present:
  assumes "serviceAccounts st (js_Namespace (s_jobSpec s), s_name s) = Some a"
    and "roles st (js_Namespace (s_jobSpec s), s_name s) = Some r"
    and "roleBindings st (js_Namespace (s_jobSpec s), s_name s) = Some b"
  shows "setupRBAC s st = (None, st)"
  using assms
  by (simp add: setupRBAC_def Let_def createServiceAccount_def createRole_def
        createRoleBinding_def)

lemma setupRBAC_twice: "setupRBAC s (snd (setupRBAC s st)) = (None, snd (setupRBAC s st))"
proof -
  from setupRBAC_creates [of s st] obtain a r b where
    "serviceAccounts (snd (setupRBAC s st)) (js_Namespace (s_jobSpec s), s_name s) = Some a"
    "roles (snd (setupRBAC s st)) (js_Namespace (s_jobSpec s), s_name s) = Some r"
    "roleBindings (snd (setupRBAC s st)) (js_Namespace (s_jobSpec s), s_name s) = Some b"
    by auto
  then show ?thesis
    by (rule setupRBAC_present)
qed

lemma provisionAccess_ok:
  assumes "provisionAccess s st = (None, st')"
  obtains tc st1 st2 where
    "st1 = st\<lparr>secrets := (secrets st)((js_Namespace (s_jobSpec s), s_name s) \<mapsto> emptySecret)\<rparr>"
    "readCredentials s st1 (concat (map step_Credentials (s_pre s @ s_test s @ s_post s))) [] = Inr tc"
    "createMirrors s tc st1 = (None, st2)"
    "setupRBAC s st2 = (None, st')"
proof -
  let ?st1 = "st\<lparr>secrets := (secrets st)((js_Namespace (s_jobSpec s), s_name s) \<mapsto> emptySecret)\<rparr>"
  let ?creds = "concat (map step_Credentials (s_pre s @ s_test s @ s_post s))"
  from assms have cc: "\<exists>st2. createCredentials s ?st1 = (None, st2) \<and> setupRBAC s st2 = (None, st')"
    by (simp add: provisionAccess_def createSecret_eq split: prod.splits option.splits)
  then obtain st2 where c: "createCredentials s ?st1 = (None, st2)" and r: "setupRBAC s st2 = (None, st')"
    by blast
  from c obtain tc where rd: "readCredentials s ?st1 ?creds [] = Inr tc"
    and m: "createMirrors s tc ?st1 = (None, st2)"
    by (auto simp: createCredentials_def split: sum.splits)
  from rd m r show ?thesis
    using that by blast
qed

lemma provisionAccess_eq:
  "provisionAccess s st =
     (case createCredentials s
             (st\<lparr>secrets := (secrets st)((js_Namespace (s_jobSpec s), s_name s) \<mapsto>
                                   emptySecret)\<rparr>) of
        (Some err, st2) \<Rightarrow> (Some (Errorf ''failed to create credentials'' err), st2)
      | (None, st2) \<Rightarrow> (None, snd (setupRBAC s st2)))"
proof -
  have "\<And>st2. (case setupRBAC s st2 of
                 (Some err, st3) \<Rightarrow> (Some (Errorf ''failed to create RBAC objects'' err), st3)
               | (None, st3) \<Rightarrow> (None, st3)) = (None, snd (setupRBAC s st2))"
    using setupRBAC_ok by (simp add: case_prod_beta)
  then show ?thesis
    by (cases "createCredentials s
             (st\<lparr>secrets := (secrets st)((js_Namespace (s_jobSpec s), s_name s) \<mapsto>
                                   emptySecret)\<rparr>)")
       (simp add: provisionAccess_def createSecret_eq split: option.splits)
qed

lemma provisionAccess_again:
  assumes first: "provisionAccess s st = (None, st')"
  shows "provisionAccess s st' = (None, st')"
proof -
  let ?key = "(js_Namespace (s_jobSpec s), s_name s)"
  let ?creds = "concat (map step_Credentials (s_pre s @ s_test s @ s_post s))"
  from first obtain tc st1 st2 where
    st1: "st1 = st\<lparr>secrets := (secrets st)(?key \<mapsto> emptySecret)\<rparr>"
    and rd: "readCredentials s st1 ?creds [] = Inr tc"
    and mi: "createMirrors s tc st1 = (None, st2)"
    and rb: "setupRBAC s st2 = (None, st')"
    by (rule provisionAccess_ok)
  have st2: "st2 = snd (createMirrors s tc st1)" and st': "st' = snd (setupRBAC s st2)"
    using mi rb by simp_all
  have sec': "secrets st' = secrets st2"
    using setupRBAC_secrets [of s st2] st' by simp
  have keep: "\<And>k v. secrets st1 k = Some v \<Longrightarrow> secrets st' k = Some v"
    using createMirrors_keeps [of st1 _ _ s tc] st2 sec' by simp
  have shared: "secrets st' ?key = Some emptySecret"
    by (rule keep) (simp add: st1)
  have a: "createSecret s st' = (None, st')"
    using shared by (simp add: createSecret_eq fun_upd_idem)
  have "readCredentials s st' ?creds [] = readCredentials s st1 ?creds []"
  proof (rule readCredentials_cong)
    fix c assume "c \<in> set ?creds"
    with readCredentials_sources [OF rd] obtain v
      where v: "secrets st1 (cred_Namespace c, cred_Name c) = Some v"
      by blast
    with keep [OF v] show "secrets st' (cred_Namespace c, cred_Name c) =
        secrets st1 (cred_Namespace c, cred_Name c)"
      by simp
  qed
  with rd have rd': "readCredentials s st' ?creds [] = Inr tc"
    by simp
  have "createMirrors s tc st' = (None, st')"
  proof (rule createMirrors_present)
    fix n sec assume "(n, sec) \<in> set tc"
    from createMirrors_creates [OF this, of s st1] st2 sec'
    show "secrets st' (js_Namespace (s_jobSpec s), n) \<noteq> None"
      by simp
  qed
  with rd' have b: "createCredentials s st' = (None, st')"
    by (simp add: createCredentials_def)
  have c: "setupRBAC s st' = (None, st')"
    using setupRBAC_twice [of s st2] st' by simp
  from a b c show ?thesis
    by (simp add: provisionAccess_def)
qed

lemma provisionAccess_failed:
  assumes "provisionAccess s st = (Some err, st')"
  shows "provisionAccess s st' = (Some err, st')"
proof -
  let ?st1 = "st\<lparr>secrets := (secrets st)((js_Namespace (s_jobSpec s), s_name s) \<mapsto>
                                   emptySecret)\<rparr>"
  let ?creds = "concat (map step_Credentials (s_pre s @ s_test s @ s_post s))"
  obtain r st2 where c: "createCredentials s ?st1 = (r, st2)"
    by (cases "createCredentials s ?st1")
  with assms obtain e where r: "r = Some e" and err: "err = Errorf ''failed to create credentials'' e"
    and st': "st' = st2"
    by (cases r) (auto simp: provisionAccess_eq)
  have rd: "readCredentials s ?st1 ?creds [] = Inl e \<and> st2 = ?st1"
  proof (cases "readCredentials s ?st1 ?creds []")
    case (Inl a)
    with c r show ?thesis by (simp add: createCredentials_def)
  next
    case (Inr tc)
    with c r createMirrors_ok [of s tc ?st1] show ?thesis
      by (simp add: createCredentials_def)
  qed
  then have same: "st'\<lparr>secrets := (secrets st')((js_Namespace (s_jobSpec s), s_name s) \<mapsto>
                                   emptySecret)\<rparr> = st'"
    using st' by simp
  from rd st' have "createCredentials s st' = (Some e, st')"
    by (simp add: createCredentials_def)
  then show ?thesis
    unfolding provisionAccess_eq [of s st'] same by (simp add: err)
qed

text \<open>
  C6. Access provisioning is idempotent: run on the state a first invocation left,
  it answers what the first invocation answered and leaves that state as it is. In
  particular, when the first invocation succeeded, the second succeeds and the
  objects of the cluster are the same. The shared-secret reset succeeds whether or not
  the secret exists (a not-found on the delete is ignored), and neither the creation
  of the mirrored credentials nor that of the service account, role and binding fails
  on objects that exist already.
\<close>

theorem provisionAccess_idempotent:
  "provisionAccess s (snd (provisionAccess s st)) = provisionAccess s st
   \<and> (provisionAccess s st = (None, st') \<longrightarrow> provisionAccess s st' = (None, st'))
   \<and> fst (createSecret s st0) = None
   \<and> fst (createMirrors s toCreate st0) = None
   \<and> fst (setupRBAC s st0) = None"
proof -
  have "provisionAccess s (snd (provisionAccess s st)) = provisionAccess s st"
  proof (cases "provisionAccess s st")
    case (Pair r st1)
    then show ?thesis
      using provisionAccess_again [of s st st1] provisionAccess_failed [of s st _ st1]
      by (cases r) simp_all
  qed
  then show ?thesis
    using provisionAccess_again [of s st st']
    by (simp add: createSecret_eq createMirrors_ok setupRBAC_ok)
qed

theorem provisionAccess_idempotent_witness:
  "fst (provisionAccess
          (sampleTest\<lparr>s_pre := [(sampleStep ''setup'')\<lparr>step_Credentials :=
             [\<lparr>cred_Namespace = ''donor'', cred_Name = ''token'',
               cred_MountPath = ''/var/run/token''\<rparr>]\<rparr>]\<rparr>)
          (sampleState\<lparr>secrets :=
             [(''donor'', ''token'') \<mapsto>
                \<lparr>sec_TypeMeta = ''v1/Secret'', sec_Labels = [(''team'', ''ci'')],
                 sec_Type = ''Opaque'', sec_Data = [(''token'', ''c2VjcmV0'')],
                 sec_StringData = []\<rparr>,
              (''ci-op-1'', ''e2e'') \<mapsto>
                \<lparr>sec_TypeMeta = ''v1/Secret'', sec_Labels = [],
                 sec_Type = ''Opaque'', sec_Data = [(''kubeconfig'', ''b2xk'')],
                 sec_StringData = []\<rparr>]\<rparr>)) = None
   \<and> provisionAccess
          (sampleTest\<lparr>s_pre := [(sampleStep ''setup'')\<lparr>step_Credentials :=
             [\<lparr>cred_Namespace = ''donor'', cred_Name = ''token'',
               cred_MountPath = ''/var/run/token''\<rparr>]\<rparr>]\<rparr>)
          (snd (provisionAccess
          (sampleTest\<lparr>s_pre := [(sampleStep ''setup'')\<lparr>step_Credentials :=
             [\<lparr>cred_Namespace = ''donor'', cred_Name = ''token'',
               cred_MountPath = ''/var/run/token''\<rparr>]\<rparr>]\<rparr>)
          (sampleState\<lparr>secrets :=
             [(''donor'', ''token'') \<mapsto>
                \<lparr>sec_TypeMeta = ''v1/Secret'', sec_Labels = [(''team'', ''ci'')],
                 sec_Type = ''Opaque'', sec_Data = [(''token'', ''c2VjcmV0'')],
                 sec_StringData = []\<rparr>,
              (''ci-op-1'', ''e2e'') \<mapsto>
                \<lparr>sec_TypeMeta = ''v1/Secret'', sec_Labels = [],
                 sec_Type = ''Opaque'', sec_Data = [(''kubeconfig'', ''b2xk'')],
                 sec_StringData = []\<rparr>]\<rparr>))) =
       (None, snd (provisionAccess
          (sampleTest\<lparr>s_pre := [(sampleStep ''setup'')\<lparr>step_Credentials :=
             [\<lparr>cred_Namespace = ''donor'', cred_Name = ''token'',
               cred_MountPath = ''/var/run/token''\<rparr>]\<rparr>]\<rparr>)
          (sampleState\<lparr>secrets :=
             [(''donor'', ''token'') \<mapsto>
                \<lparr>sec_TypeMeta = ''v1/Secret'', sec_Labels = [(''team'', ''ci'')],
                 sec_Type = ''Opaque'', sec_Data = [(''token'', ''c2VjcmV0'')],
                 sec_StringData = []\<rparr>,
              (''ci-op-1'', ''e2e'') \<mapsto>
                \<lparr>sec_TypeMeta = ''v1/Secret'', sec_Labels = [],
                 sec_Type = ''Opaque'', sec_Data = [(''kubeconfig'', ''b2xk'')],
                 sec_StringData = []\<rparr>]\<rparr>)))
   \<and> secrets (snd (provisionAccess
          (sampleTest\<lparr>s_pre := [(sampleStep ''setup'')\<lparr>step_Credentials :=
             [\<lparr>cred_Namespace = ''donor'', cred_Name = ''token'',
               cred_MountPath = ''/var/run/token''\<rparr>]\<rparr>]\<rparr>)
          (sampleState\<lparr>secrets :=
             [(''donor'', ''token'') \<mapsto>
                \<lparr>sec_TypeMeta = ''v1/Secret'', sec_Labels = [(''team'', ''ci'')],
                 sec_Type = ''Opaque'', sec_Data = [(''token'', ''c2VjcmV0'')],
                 sec_StringData = []\<rparr>,
              (''ci-op-1'', ''e2e'') \<mapsto>
                \<lparr>sec_TypeMeta = ''v1/Secret'', sec_Labels = [],
                 sec_Type = ''Opaque'', sec_Data = [(''kubeconfig'', ''b2xk'')],
                 sec_StringData = []\<rparr>]\<rparr>))) (''ci-op-1'', ''donor-token'') =
       Some \<lparr>sec_TypeMeta = ''v1/Secret'', sec_Labels = [],
                 sec_Type = ''Opaque'', sec_Data = [(''token'', ''c2VjcmV0'')],
                 sec_StringData = []\<rparr>
   \<and> secrets (snd (provisionAccess
          (sampleTest\<lparr>s_pre := [(sampleStep ''setup'')\<lparr>step_Credentials :=
             [\<lparr>cred_Namespace = ''donor'', cred_Name = ''token'',
               cred_MountPath = ''/var/run/token''\<rparr>]\<rparr>]\<rparr>)
          (sampleState\<lparr>secrets :=
             [(''donor'', ''token'') \<mapsto>
                \<lparr>sec_TypeMeta = ''v1/Secret'', sec_Labels = [(''team'', ''ci'')],
                 sec_Type = ''Opaque'', sec_Data = [(''token'', ''c2VjcmV0'')],
                 sec_StringData = []\<rparr>,
              (''ci-op-1'', ''e2e'') \<mapsto>
                \<lparr>sec_TypeMeta = ''v1/Secret'', sec_Labels = [],
                 sec_Type = ''Opaque'', sec_Data = [(''kubeconfig'', ''b2xk'')],
                 sec_StringData = []\<rparr>]\<rparr>))) (''ci-op-1'', ''e2e'') = Some emptySecret"
proof -
  let ?T = "sampleTest\<lparr>s_pre := [(sampleStep ''setup'')\<lparr>step_Credentials :=
             [\<lparr>cred_Namespace = ''donor'', cred_Name = ''token'',
               cred_MountPath = ''/var/run/token''\<rparr>]\<rparr>]\<rparr>"
  let ?S = "sampleState\<lparr>secrets :=
             [(''donor'', ''token'') \<mapsto>
                \<lparr>sec_TypeMeta = ''v1/Secret'', sec_Labels = [(''team'', ''ci'')],
                 sec_Type = ''Opaque'', sec_Data = [(''token'', ''c2VjcmV0'')],
                 sec_StringData = []\<rparr>,
              (''ci-op-1'', ''e2e'') \<mapsto>
                \<lparr>sec_TypeMeta = ''v1/Secret'', sec_Labels = [],
                 sec_Type = ''Opaque'', sec_Data = [(''kubeconfig'', ''b2xk'')],
                 sec_StringData = []\<rparr>]\<rparr>"
  have p0: "fst (provisionAccess ?T ?S) = None"
    by (simp add: provisionAccess_eq createCredentials_def
          getSecretObject_def createSecretObject_def credentialSecretName_def
          sampleTest_def sampleStep_def sampleJobSpec_def sampleState_def)
  then have p: "provisionAccess ?T ?S = (None, snd (provisionAccess ?T ?S))"
    by (metis prod.collapse)
  have m: "secrets (snd (provisionAccess ?T ?S)) (''ci-op-1'', ''donor-token'') =
       Some \<lparr>sec_TypeMeta = ''v1/Secret'', sec_Labels = [],
                 sec_Type = ''Opaque'', sec_Data = [(''token'', ''c2VjcmV0'')],
                 sec_StringData = []\<rparr>"
    by (simp add: provisionAccess_eq createCredentials_def
          getSecretObject_def createSecretObject_def credentialSecretName_def
          setupRBAC_secrets sampleTest_def sampleStep_def sampleJobSpec_def sampleState_def)
  have e: "secrets (snd (provisionAccess ?T ?S)) (''ci-op-1'', ''e2e'') = Some emptySecret"
    by (simp add: provisionAccess_eq createCredentials_def
          getSecretObject_def createSecretObject_def credentialSecretName_def
          setupRBAC_secrets sampleTest_def sampleStep_def sampleJobSpec_def sampleState_def)
  from provisionAccess_idempotent [of ?T ?S "snd (provisionAccess ?T ?S)"] p p0 m e
  show ?thesis
    by simp
qed


subsection \<open>Running the pods of a phase\<close>

text \<open>
  The error of a pod does not depend on the state it is run in; each pod run logs
  its submission, then (if the submission went through) its wait under the context of
  the phase, and never a bulk delete.
\<close>

lemma runPod_fst: "fst (runPod s x ctx pod (notifierFor s pod) st) = runPod_error s x ctx pod"
  by (simp add: runPod_def runPod_error_def Let_def split: option.splits prod.splits)

lemma submitted_append [simp]: "submitted (es @ fs) = submitted es @ submitted fs"
  by (induction es rule: submitted.induct) simp_all

lemma waitContexts_append [simp]: "waitContexts (es @ fs) = waitContexts es @ waitContexts fs"
  by (induction es rule: waitContexts.induct) simp_all

lemma bulkDeletes_append [simp]: "bulkDeletes (es @ fs) = bulkDeletes es @ bulkDeletes fs"
  by (induction es rule: bulkDeletes.induct) simp_all

lemma runPod_submitted:
  "submitted (events (snd (runPod s x ctx pod n st))) = submitted (events st) @ [pod_Name pod]"
  by (simp add: runPod_def Let_def split: option.splits prod.splits)

lemma runPod_bulkDeletes:
  "bulkDeletes (events (snd (runPod s x ctx pod n st))) = bulkDeletes (events st)"
  by (simp add: runPod_def Let_def split: option.splits prod.splits)

lemma runPod_waitContexts:
  "\<exists>k. waitContexts (events (snd (runPod s x ctx pod n st))) =
         waitContexts (events st) @ replicate k ctx"
proof (cases "x_createOrRestartPod x pod")
  case None
  then have "waitContexts (events (snd (runPod s x ctx pod n st))) =
         waitContexts (events st) @ replicate 1 ctx"
    by (simp add: runPod_def Let_def split: option.splits prod.splits)
  then show ?thesis ..
next
  case (Some e)
  then have "waitContexts (events (snd (runPod s x ctx pod n st))) =
         waitContexts (events st) @ replicate 0 ctx"
    by (simp add: runPod_def Let_def)
  then show ?thesis ..
qed

lemma runPods_loop_spec:
  "fst (runPods_loop s x ctx sc pods errs st) =
     errs @ concat (map (\<lambda>pod. case runPod_error s x ctx pod of None \<Rightarrow> [] | Some e \<Rightarrow> [e])
                     (podsRun s x ctx sc pods))
   \<and> submitted (events (snd (runPods_loop s x ctx sc pods errs st))) =
       submitted (events st) @ map pod_Name (podsRun s x ctx sc pods)"
proof (induction pods arbitrary: errs st)
  case Nil
  then show ?case by (simp add: podsRun_def)
next
  case (Cons pod pods)
  obtain err st1 where r: "runPod s x ctx pod (notifierFor s pod) st = (err, st1)"
    by (cases "runPod s x ctx pod (notifierFor s pod) st")
  have e: "runPod_error s x ctx pod = err"
    using runPod_fst [of s x ctx pod st] r by simp
  have sub: "submitted (events st1) = submitted (events st) @ [pod_Name pod]"
    using runPod_submitted [of s x ctx pod "notifierFor s pod" st] r by simp
  show ?case
  proof (cases err)
    case None
    with r e sub Cons.IH [of errs st1] show ?thesis
      by (simp add: podsRun_def)
  next
    case (Some a)
    with r e sub Cons.IH [of "errs @ [a]" st1] show ?thesis
      by (cases sc) (simp_all add: podsRun_def)
  qed
qed

lemma runPods_loop_frame:
  "bulkDeletes (events (snd (runPods_loop s x ctx sc pods errs st))) = bulkDeletes (events st)
   \<and> (\<exists>k. waitContexts (events (snd (runPods_loop s x ctx sc pods errs st))) =
            waitContexts (events st) @ replicate k ctx)"
proof (induction pods arbitrary: errs st)
  case Nil
  have "waitContexts (events st) = waitContexts (events st) @ replicate 0 ctx" by simp
  then show ?case by (simp del: replicate.simps) 
next
  case (Cons pod pods)
  obtain err st1 where r: "runPod s x ctx pod (notifierFor s pod) st = (err, st1)"
    by (cases "runPod s x ctx pod (notifierFor s pod) st")
  have bd: "bulkDeletes (events st1) = bulkDeletes (events st)"
    using runPod_bulkDeletes [of s x ctx pod "notifierFor s pod" st] r by simp
  obtain k where k: "waitContexts (events st1) = waitContexts (events st) @ replicate k ctx"
    using runPod_waitContexts [of s x ctx pod "notifierFor s pod" st] r by auto
  have step: "\<And>errs'. bulkDeletes (events (snd (runPods_loop s x ctx sc pods errs' st1))) =
                 bulkDeletes (events st)
     \<and> (\<exists>j. waitContexts (events (snd (runPods_loop s x ctx sc pods errs' st1))) =
            waitContexts (events st) @ replicate j ctx)"
  proof -
    fix errs'
    from Cons.IH [of errs' st1] obtain j where
      j: "waitContexts (events (snd (runPods_loop s x ctx sc pods errs' st1))) =
            waitContexts (events st1) @ replicate j ctx"
      and b: "bulkDeletes (events (snd (runPods_loop s x ctx sc pods errs' st1))) =
                 bulkDeletes (events st1)"
      by auto
    have "waitContexts (events (snd (runPods_loop s x ctx sc pods errs' st1))) =
            waitContexts (events st) @ replicate (k + j) ctx"
      using j k by (simp add: replicate_add)
    with b bd show "bulkDeletes (events (snd (runPods_loop s x ctx sc pods errs' st1))) =
                 bulkDeletes (events st)
     \<and> (\<exists>j. waitContexts (events (snd (runPods_loop s x ctx sc pods errs' st1))) =
            waitContexts (events st) @ replicate j ctx)"
      by auto
  qed
  show ?case
  proof (cases err)
    case None
    with r step [of errs] show ?thesis by simp
  next
    case (Some a)
    show ?thesis
    proof (cases sc)
      case True
      with Some r bd k show ?thesis by auto
    next
      case False
      with Some r step [of "errs @ [a]"] show ?thesis by simp
    qed
  qed
qed

lemma runPods_spec:
  "fst (runPods s x ctx pods sc st) =
     NewAggregate (concat (map (\<lambda>pod. case runPod_error s x ctx pod of
                                        None \<Rightarrow> [] | Some e \<Rightarrow> [e])
                             (podsRun s x ctx sc pods)))
   \<and> submitted (events (snd (runPods s x ctx pods sc st))) =
       submitted (events st) @ map pod_Name (podsRun s x ctx sc pods)
   \<and> bulkDeletes (events (snd (runPods s x ctx pods sc st))) = bulkDeletes (events st)
   \<and> (\<exists>k. waitContexts (events (snd (runPods s x ctx pods sc st))) =
            waitContexts (events st) @ replicate k ctx)"
  using runPods_loop_spec [of s x ctx sc pods "[]" st] runPods_loop_frame [of s x ctx sc pods "[]" st]
  by (simp add: runPods_def case_prod_beta)

lemma runSteps_built:
  assumes "generatePods s x steps env h = (pods, None)"
    and "runPods s x ctx pods sc st = (podsErr, st1)"
  shows "runSteps s x ctx steps env sc h st =
     (if ctxDone ctx st1
      then (Some (Aggregate
              ((case podsErr of Some err \<Rightarrow> [err] | None \<Rightarrow> []) @
               (case x_DeleteAllOf x of
                  Some err \<Rightarrow>
                    if IsNotFound err then []
                    else [Errorf (''failed to delete pods with label '' @ MultiStageTestLabel @
                                   ''='' @ s_name s) err]
                | None \<Rightarrow> []) @
               [ErrorMsg ''cancelled''])),
            st1\<lparr>events := events st1 @
                   [DeleteAllOfPods cleanupCtx (js_Namespace (s_jobSpec s)) MultiStageTestLabel
                      (s_name s)]\<rparr>)
      else (NewAggregate (case podsErr of Some err \<Rightarrow> [err] | None \<Rightarrow> []), st1))"
  using assms
  by (simp add: runSteps_def Let_def NewAggregate_def split: option.splits)

lemma runSteps_waitContexts:
  "\<exists>k. waitContexts (events (snd (runSteps s x ctx steps env sc h st))) =
         waitContexts (events st) @ replicate k ctx"
proof -
  obtain pods err where g: "generatePods s x steps env h = (pods, err)"
    by (cases "generatePods s x steps env h")
  show ?thesis
  proof (cases err)
    case (Some e)
    with g have "runSteps s x ctx steps env sc h st = (Some e, st)"
      by (simp add: runSteps_def)
    then have "waitContexts (events (snd (runSteps s x ctx steps env sc h st))) =
         waitContexts (events st) @ replicate 0 ctx" by simp
    then show ?thesis ..
  next
    case None
    obtain podsErr st1 where r: "runPods s x ctx pods sc st = (podsErr, st1)"
      by (cases "runPods s x ctx pods sc st")
    obtain k where k: "waitContexts (events st1) = waitContexts (events st) @ replicate k ctx"
      using runPods_spec [of s x ctx pods sc st] r by auto
    have "waitContexts (events (snd (runSteps s x ctx steps env sc h st))) =
         waitContexts (events st1)"
      using runSteps_built [OF g [unfolded None] r] by simp
    with k show ?thesis by auto
  qed
qed

lemma run_unfold:
  assumes "environment s x st = Inr env" and "provisionAccess s st = (None, st1)"
    and "runSteps s x ctx (s_pre s) env True False st1 = (preErr, st2)"
  shows "run s x ctx st =
     (case preErr of
        Some e \<Rightarrow>
          (case runSteps s x Background (s_post s) env False True st2 of (postErr, st4) \<Rightarrow>
             (NewAggregate
                ([Errorf (s_name s @ '' pre steps failed'') e] @
                 (case postErr of None \<Rightarrow> []
                  | Some e' \<Rightarrow> [Errorf (s_name s @ '' post steps failed'') e'])), st4))
      | None \<Rightarrow>
          (case runSteps s x ctx (s_test s) env True False st2 of (testErr, st3) \<Rightarrow>
             (case runSteps s x Background (s_post s) env False (testErr \<noteq> None) st3 of
                (postErr, st4) \<Rightarrow>
                  (NewAggregate
                     ((case testErr of None \<Rightarrow> []
                       | Some e' \<Rightarrow> [Errorf (s_name s @ '' test steps failed'') e']) @
                      (case postErr of None \<Rightarrow> []
                       | Some e' \<Rightarrow> [Errorf (s_name s @ '' post steps failed'') e'])), st4))))"
  using assms
  by (simp add: run_def Let_def split: option.splits prod.splits)

lemmas run_defs =
  run_def runSteps_def runPods_def runPod_def generatePods_def generatePods_step_def
  envForDependencies_def NewAggregate_def labelPod_def addHomeMount_def appendEnv_def
  addSecretWrapper_def addSecret_def environment_def provisionAccess_def createSecret_def
  createCredentials_def setupRBAC_def deleteSecretObject_def createSecretObject_def
  createServiceAccount_def createRole_def createRoleBinding_def check_def IsNotFound_def
  IsAlreadyExists_def notifierFor_def pod_Containers_def ctxDone_def
  sampleTest_def sampleState_def sampleStep_def sampleJobSpec_def sampleExternals_def
  sampleBasePod_def Let_def

lemma sample_provision: "provisionAccess sampleTest sampleState =
   (None, snd (provisionAccess sampleTest sampleState))"
  by (simp add: provisionAccess_def createSecret_def createCredentials_def setupRBAC_def
        deleteSecretObject_def createSecretObject_def createServiceAccount_def createRole_def
        createRoleBinding_def check_def IsNotFound_def IsAlreadyExists_def
        sampleTest_def sampleState_def sampleStep_def sampleJobSpec_def Let_def)

lemma sample_environment: "environment sampleTest sampleExternals sampleState = Inr []"
  by (simp add: environment_def sampleTest_def)

text \<open>
  What a phase submits and answers, and what a whole run submits.
\<close>

lemma runSteps_submitted:
  "submitted (events (snd (runSteps s x ctx steps env sc h st))) =
     submitted (events st) @ map pod_Name (phasePods s x ctx steps env sc h)"
proof -
  obtain pods err where g: "generatePods s x steps env h = (pods, err)"
    by (cases "generatePods s x steps env h")
  show ?thesis
  proof (cases err)
    case (Some e)
    with g show ?thesis by (simp add: runSteps_def phasePods_def)
  next
    case None
    obtain podsErr st1 where r: "runPods s x ctx pods sc st = (podsErr, st1)"
      by (cases "runPods s x ctx pods sc st")
    have a: "submitted (events st1) = submitted (events st) @ map pod_Name (podsRun s x ctx sc pods)"
      using runPods_spec [of s x ctx pods sc st] r by simp
    have "submitted (events (snd (runSteps s x ctx steps env sc h st))) = submitted (events st1)"
      using runSteps_built [OF g [unfolded None] r] by simp
    with a g None show ?thesis by (simp add: phasePods_def)
  qed
qed

lemma runSteps_error:
  assumes g: "generatePods s x steps env h = (pods, None)"
  shows "fst (runSteps s x ctx steps env sc h st) =
     NewAggregate
       ((case NewAggregate (concat (map (\<lambda>pod. case runPod_error s x ctx pod of
                                                  None \<Rightarrow> [] | Some e \<Rightarrow> [e])
                                       (podsRun s x ctx sc pods))) of
           Some err \<Rightarrow> [err] | None \<Rightarrow> []) @
        (if ctxDone ctx (snd (runSteps s x ctx steps env sc h st))
         then (case x_DeleteAllOf x of
                 Some err \<Rightarrow>
                   if IsNotFound err then []
                   else [Errorf (''failed to delete pods with label '' @ MultiStageTestLabel @
                                  ''='' @ s_name s) err]
               | None \<Rightarrow> []) @
              [ErrorMsg ''cancelled'']
         else []))"
proof -
  obtain podsErr st1 where r: "runPods s x ctx pods sc st = (podsErr, st1)"
    by (cases "runPods s x ctx pods sc st")
  have e: "podsErr = NewAggregate (concat (map (\<lambda>pod. case runPod_error s x ctx pod of
                                                  None \<Rightarrow> [] | Some e \<Rightarrow> [e])
                                       (podsRun s x ctx sc pods)))"
    using runPods_spec [of s x ctx pods sc st] r by simp
  have d: "ctxDone ctx (snd (runSteps s x ctx steps env sc h st)) = ctxDone ctx st1"
    using runSteps_built [OF g r] by (simp add: ctxDone_def)
  show ?thesis
    unfolding d e [symmetric] using runSteps_built [OF g r]
    by (simp add: NewAggregate_def)
qed

lemma run_submitted:
  assumes e: "environment s x st0 = Inr env" and p: "provisionAccess s st0 = (None, st1)"
  shows "submitted (events (snd (run s x ctx st0))) =
        submitted (events st1) @
        map pod_Name (phasePods s x ctx (s_pre s) env True False) @
        (if fst (runSteps s x ctx (s_pre s) env True False st1) = None
         then map pod_Name (phasePods s x ctx (s_test s) env True False) else []) @
        map pod_Name (phasePods s x Background (s_post s) env False
           (fst (runSteps s x ctx (s_pre s) env True False st1) \<noteq> None
            \<or> fst (runSteps s x ctx (s_test s) env True False
                     (snd (runSteps s x ctx (s_pre s) env True False st1))) \<noteq> None))"
proof -
  obtain preErr st2 where pre: "runSteps s x ctx (s_pre s) env True False st1 = (preErr, st2)"
    by (cases "runSteps s x ctx (s_pre s) env True False st1")
  have s2: "submitted (events st2) =
      submitted (events st1) @ map pod_Name (phasePods s x ctx (s_pre s) env True False)"
    using runSteps_submitted [of s x ctx "s_pre s" env True False st1] pre by simp
  show ?thesis
  proof (cases preErr)
    case (Some a)
    have "snd (run s x ctx st0) =
             snd (runSteps s x Background (s_post s) env False True st2)"
      unfolding run_unfold [OF e p pre] Some by (simp add: case_prod_beta)
    with Some pre s2 runSteps_submitted [of s x Background "s_post s" env False True st2]
    show ?thesis by simp
  next
    case None
    obtain testErr st3 where t: "runSteps s x ctx (s_test s) env True False st2 = (testErr, st3)"
      by (cases "runSteps s x ctx (s_test s) env True False st2")
    have s3: "submitted (events st3) =
      submitted (events st2) @ map pod_Name (phasePods s x ctx (s_test s) env True False)"
      using runSteps_submitted [of s x ctx "s_test s" env True False st2] t by simp
    have "snd (run s x ctx st0) =
             snd (runSteps s x Background (s_post s) env False (testErr \<noteq> None) st3)"
      unfolding run_unfold [OF e p pre] None by (simp add: t case_prod_beta)
    with None pre t s2 s3
      runSteps_submitted [of s x Background "s_post s" env False "testErr \<noteq> None" st3]
    show ?thesis by simp
  qed
qed

text \<open>
  C4. A phase hands the batch it built, its context and its short-circuit flag to
  \<^verbatim>\<open>runPods\<close> (line 337), and submits nothing when the batch has a build error. The pods
  are submitted one after the other in the order of the batch. Without short-circuit
  every pod is run and the failures are aggregated, in order. With short-circuit the pods
  are run up to and including the first that fails, no later pod is submitted, and the
  aggregate holds that one error. The error of the phase is the aggregate of that
  aggregate and, when the context is done, of the errors of the cancellation. In \<^verbatim>\<open>run\<close>
  the Pre and Test phases short-circuit and the Post phase does not: the pods a run
  submits are those of the Pre phase with short-circuit, then (if Pre did not fail) those
  of the Test phase with short-circuit, then those of the Post phase without.
\<close>

theorem runPods_order_and_short_circuit:
  "fst (runPod s x ctx pod (notifierFor s pod) st') = runPod_error s x ctx pod
   \<and> fst (runPods s x ctx pods shortCircuit st) =
       NewAggregate (concat (map (\<lambda>pod. case runPod_error s x ctx pod of
                                          None \<Rightarrow> [] | Some e \<Rightarrow> [e])
                               (podsRun s x ctx shortCircuit pods)))
   \<and> submitted (events (snd (runPods s x ctx pods shortCircuit st))) =
       submitted (events st) @ map pod_Name (podsRun s x ctx shortCircuit pods)
   \<and> podsRun s x ctx False pods = pods
   \<and> podsRun s x ctx True pods =
       takeWhile (\<lambda>pod. runPod_error s x ctx pod = None) pods @
       take 1 (dropWhile (\<lambda>pod. runPod_error s x ctx pod = None) pods)
   \<and> (environment s x st0 = Inr env \<and> provisionAccess s st0 = (None, st1) \<longrightarrow>
        (\<exists>hasPrevErrs.
           snd (run s x ctx st0) =
             snd (runSteps s x Background (s_post s) env False hasPrevErrs
                    (snd (runSteps s x ctx (s_pre s) env True False st1)))
           \<or> snd (run s x ctx st0) =
             snd (runSteps s x Background (s_post s) env False hasPrevErrs
                    (snd (runSteps s x ctx (s_test s) env True False
                           (snd (runSteps s x ctx (s_pre s) env True False st1)))))))
   \<and> submitted (events (snd (runSteps s x ctx steps env shortCircuit prevErrs st))) =
       submitted (events st) @ map pod_Name (phasePods s x ctx steps env shortCircuit prevErrs)
   \<and> (generatePods s x steps env prevErrs = (pods, None) \<longrightarrow>
        phasePods s x ctx steps env shortCircuit prevErrs = podsRun s x ctx shortCircuit pods
        \<and> fst (runSteps s x ctx steps env shortCircuit prevErrs st) =
            NewAggregate
              ((case NewAggregate (concat (map (\<lambda>pod. case runPod_error s x ctx pod of
                                                         None \<Rightarrow> [] | Some e \<Rightarrow> [e])
                                              (podsRun s x ctx shortCircuit pods))) of
                  Some err \<Rightarrow> [err] | None \<Rightarrow> []) @
               (if ctxDone ctx (snd (runSteps s x ctx steps env shortCircuit prevErrs st))
                then (case x_DeleteAllOf x of
                        Some err \<Rightarrow>
                          if IsNotFound err then []
                          else [Errorf (''failed to delete pods with label '' @
                                         MultiStageTestLabel @ ''='' @ s_name s) err]
                      | None \<Rightarrow> []) @
                     [ErrorMsg ''cancelled'']
                else [])))
   \<and> (\<forall>err. generatePods s x steps env prevErrs = (pods, Some err) \<longrightarrow>
        phasePods s x ctx steps env shortCircuit prevErrs = [])
   \<and> (environment s x st0 = Inr env \<and> provisionAccess s st0 = (None, st1) \<longrightarrow>
        submitted (events (snd (run s x ctx st0))) =
          submitted (events st1) @
          map pod_Name (phasePods s x ctx (s_pre s) env True False) @
          (if fst (runSteps s x ctx (s_pre s) env True False st1) = None
           then map pod_Name (phasePods s x ctx (s_test s) env True False) else []) @
          map pod_Name (phasePods s x Background (s_post s) env False
             (fst (runSteps s x ctx (s_pre s) env True False st1) \<noteq> None
              \<or> fst (runSteps s x ctx (s_test s) env True False
                       (snd (runSteps s x ctx (s_pre s) env True False st1))) \<noteq> None)))"
proof -
  have phases: "\<exists>hasPrevErrs.
           snd (run s x ctx st0) =
             snd (runSteps s x Background (s_post s) env False hasPrevErrs
                    (snd (runSteps s x ctx (s_pre s) env True False st1)))
           \<or> snd (run s x ctx st0) =
             snd (runSteps s x Background (s_post s) env False hasPrevErrs
                    (snd (runSteps s x ctx (s_test s) env True False
                           (snd (runSteps s x ctx (s_pre s) env True False st1)))))"
    if e: "environment s x st0 = Inr env" and p: "provisionAccess s st0 = (None, st1)"
  proof -
    obtain preErr st2 where pre: "runSteps s x ctx (s_pre s) env True False st1 = (preErr, st2)"
      by (cases "runSteps s x ctx (s_pre s) env True False st1")
    show ?thesis
    proof (cases preErr)
      case (Some a)
      with run_unfold [OF e p pre] pre
      have "snd (run s x ctx st0) =
             snd (runSteps s x Background (s_post s) env False True
                    (snd (runSteps s x ctx (s_pre s) env True False st1)))"
        by (simp add: case_prod_beta)
      then show ?thesis by blast
    next
      case None
      obtain testErr st3 where t: "runSteps s x ctx (s_test s) env True False st2 = (testErr, st3)"
        by (cases "runSteps s x ctx (s_test s) env True False st2")
      with None run_unfold [OF e p pre] pre
      have "snd (run s x ctx st0) =
             snd (runSteps s x Background (s_post s) env False (testErr \<noteq> None)
                    (snd (runSteps s x ctx (s_test s) env True False
                           (snd (runSteps s x ctx (s_pre s) env True False st1)))))"
        by (simp add: case_prod_beta)
      then show ?thesis by blast
    qed
  qed
  have built: "generatePods s x steps env prevErrs = (pods, None) \<longrightarrow>
        phasePods s x ctx steps env shortCircuit prevErrs = podsRun s x ctx shortCircuit pods"
    by (simp add: phasePods_def)
  have failed: "\<forall>err. generatePods s x steps env prevErrs = (pods, Some err) \<longrightarrow>
        phasePods s x ctx steps env shortCircuit prevErrs = []"
    by (simp add: phasePods_def)
  have pods: "fst (runPod s x ctx pod (notifierFor s pod) st') = runPod_error s x ctx pod
   \<and> fst (runPods s x ctx pods shortCircuit st) =
       NewAggregate (concat (map (\<lambda>pod. case runPod_error s x ctx pod of
                                          None \<Rightarrow> [] | Some e \<Rightarrow> [e])
                               (podsRun s x ctx shortCircuit pods)))
   \<and> submitted (events (snd (runPods s x ctx pods shortCircuit st))) =
       submitted (events st) @ map pod_Name (podsRun s x ctx shortCircuit pods)
   \<and> podsRun s x ctx False pods = pods
   \<and> podsRun s x ctx True pods =
       takeWhile (\<lambda>pod. runPod_error s x ctx pod = None) pods @
       take 1 (dropWhile (\<lambda>pod. runPod_error s x ctx pod = None) pods)"
    using runPod_fst [of s x ctx pod st'] runPods_spec [of s x ctx pods shortCircuit st]
    by (simp add: podsRun_def)
  from pods phases built failed
    runSteps_submitted [of s x ctx steps env shortCircuit prevErrs st]
    runSteps_error [of s x steps env prevErrs pods ctx shortCircuit st]
    run_submitted [of s x st0 env st1 ctx]
  show ?thesis by blast
qed




theorem runPods_order_and_short_circuit_witness:
  "submitted (events (snd (runPods sampleTest sampleExternals CallerCtx
      [samplePod ''e2e-setup'', samplePod ''e2e-fail'', samplePod ''e2e-check''] True sampleState)))
     = [''e2e-setup'', ''e2e-fail'']
   \<and> submitted (events (snd (runPods sampleTest sampleExternals Background
      [samplePod ''e2e-setup'', samplePod ''e2e-fail'', samplePod ''e2e-check''] False sampleState)))
     = [''e2e-setup'', ''e2e-fail'', ''e2e-check'']
   \<and> fst (runPods sampleTest sampleExternals Background
      [samplePod ''e2e-fail'', samplePod ''e2e-check'', samplePod ''e2e-fail''] False sampleState)
     = Some (Aggregate [PodError ''e2e'' ''e2e-fail'' StatusFailed (ExternalError ''pod failed''),
                        PodError ''e2e'' ''e2e-fail'' StatusFailed (ExternalError ''pod failed'')])
   \<and> environment sampleTest sampleExternals sampleState = Inr []
   \<and> fst (provisionAccess sampleTest sampleState) = None
   \<and> (\<exists>hasPrevErrs.
         snd (run sampleTest sampleExternals CallerCtx sampleState) =
           snd (runSteps sampleTest sampleExternals Background (s_post sampleTest) [] False
                  hasPrevErrs
                  (snd (runSteps sampleTest sampleExternals CallerCtx (s_pre sampleTest) [] True
                          False (snd (provisionAccess sampleTest sampleState)))))
         \<or> snd (run sampleTest sampleExternals CallerCtx sampleState) =
           snd (runSteps sampleTest sampleExternals Background (s_post sampleTest) [] False
                  hasPrevErrs
                  (snd (runSteps sampleTest sampleExternals CallerCtx (s_test sampleTest) [] True
                          False
                          (snd (runSteps sampleTest sampleExternals CallerCtx (s_pre sampleTest)
                                  [] True False
                                  (snd (provisionAccess sampleTest sampleState))))))))
   \<and> submitted (events (snd (runSteps sampleTest sampleExternals CallerCtx
        [sampleStep ''setup'', sampleStep ''fail'', sampleStep ''check''] [] True False
        sampleState))) = [''e2e-setup'', ''e2e-fail'']
   \<and> submitted (events (snd (runSteps sampleTest sampleExternals Background
        [sampleStep ''setup'', sampleStep ''fail'', sampleStep ''check''] [] False False
        sampleState))) = [''e2e-setup'', ''e2e-fail'', ''e2e-check'']
   \<and> fst (runSteps sampleTest sampleExternals Background
        [sampleStep ''fail'', sampleStep ''check'', sampleStep ''fail''] [] False False
        sampleState) =
       Some (Aggregate [Aggregate
          [PodError ''e2e'' ''e2e-fail'' StatusFailed (ExternalError ''pod failed''),
           PodError ''e2e'' ''e2e-fail'' StatusFailed (ExternalError ''pod failed'')]])
   \<and> submitted (events (snd (run
        (sampleTest\<lparr>s_pre := [sampleStep ''setup'', sampleStep ''fail'', sampleStep ''check''],
                     s_post := [sampleStep ''fail'', sampleStep ''teardown'']\<rparr>)
        sampleExternals CallerCtx sampleState))) =
       [''e2e-setup'', ''e2e-fail'', ''e2e-fail'', ''e2e-teardown'']
   \<and> phasePods sampleTest sampleExternals CallerCtx
        [sampleStep ''setup'', (sampleStep ''build'')\<lparr>step_Resources := ''cpu: lots''\<rparr>] []
        True False = []"
proof -
  let ?T = "sampleTest\<lparr>s_pre := [sampleStep ''setup'', sampleStep ''fail'', sampleStep ''check''],
                     s_post := [sampleStep ''fail'', sampleStep ''teardown'']\<rparr>"
  let ?st1 = "snd (provisionAccess ?T sampleState)"
  let ?sfc = "[sampleStep ''setup'', sampleStep ''fail'', sampleStep ''check'']"
  let ?fcf = "[sampleStep ''fail'', sampleStep ''check'', sampleStep ''fail'']"
  let ?batch = "fst (generatePods sampleTest sampleExternals ?fcf [] False)"
  have err: "\<And>ctx n. runPod_error sampleTest sampleExternals ctx (samplePod n) =
      (if n = ''e2e-fail''
       then Some (PodError ''e2e'' n StatusFailed (ExternalError ''pod failed'')) else None)"
    by (simp add: runPod_error_def sampleExternals_def samplePod_def sampleTest_def)
  have names: "\<And>n. pod_Name (samplePod n) = n"
    by (simp add: samplePod_def)
  have st0: "submitted (events sampleState) = []"
    by (simp add: sampleState_def)
  have p: "fst (provisionAccess sampleTest sampleState) = None"
    using sample_provision by (metis fst_conv)
  note t = runPods_order_and_short_circuit
  note c = conjunct2
  from t [of sampleTest sampleExternals CallerCtx
      "samplePod ''e2e-setup''" sampleState
      "[samplePod ''e2e-setup'', samplePod ''e2e-fail'', samplePod ''e2e-check'']" True
      sampleState, THEN c, THEN c, THEN conjunct1]
  have w1: "submitted (events (snd (runPods sampleTest sampleExternals CallerCtx
      [samplePod ''e2e-setup'', samplePod ''e2e-fail'', samplePod ''e2e-check''] True sampleState)))
     = [''e2e-setup'', ''e2e-fail'']"
    by (simp add: err names st0 podsRun_def)
  from t [of sampleTest sampleExternals Background
      "samplePod ''e2e-setup''" sampleState
      "[samplePod ''e2e-setup'', samplePod ''e2e-fail'', samplePod ''e2e-check'']" False
      sampleState, THEN c, THEN c, THEN conjunct1]
  have w2: "submitted (events (snd (runPods sampleTest sampleExternals Background
      [samplePod ''e2e-setup'', samplePod ''e2e-fail'', samplePod ''e2e-check''] False sampleState)))
     = [''e2e-setup'', ''e2e-fail'', ''e2e-check'']"
    by (simp add: err names st0 podsRun_def)
  from t [of sampleTest sampleExternals Background
      "samplePod ''e2e-setup''" sampleState
      "[samplePod ''e2e-fail'', samplePod ''e2e-check'', samplePod ''e2e-fail'']" False
      sampleState, THEN c, THEN conjunct1]
  have w3: "fst (runPods sampleTest sampleExternals Background
      [samplePod ''e2e-fail'', samplePod ''e2e-check'', samplePod ''e2e-fail''] False sampleState)
     = Some (Aggregate [PodError ''e2e'' ''e2e-fail'' StatusFailed (ExternalError ''pod failed''),
                        PodError ''e2e'' ''e2e-fail'' StatusFailed (ExternalError ''pod failed'')])"
    by (simp add: err names podsRun_def NewAggregate_def)
  from t [of sampleTest sampleExternals CallerCtx
      "samplePod ''e2e-setup''" sampleState "[]" True sampleState
      sampleState "[]" "snd (provisionAccess sampleTest sampleState)",
      THEN c, THEN c, THEN c, THEN c, THEN c, THEN conjunct1]
    sample_environment sample_provision
  have w6: "\<exists>hasPrevErrs.
         snd (run sampleTest sampleExternals CallerCtx sampleState) =
           snd (runSteps sampleTest sampleExternals Background (s_post sampleTest) [] False
                  hasPrevErrs
                  (snd (runSteps sampleTest sampleExternals CallerCtx (s_pre sampleTest) [] True
                          False (snd (provisionAccess sampleTest sampleState)))))
         \<or> snd (run sampleTest sampleExternals CallerCtx sampleState) =
           snd (runSteps sampleTest sampleExternals Background (s_post sampleTest) [] False
                  hasPrevErrs
                  (snd (runSteps sampleTest sampleExternals CallerCtx (s_test sampleTest) [] True
                          False
                          (snd (runSteps sampleTest sampleExternals CallerCtx (s_pre sampleTest)
                                  [] True False
                                  (snd (provisionAccess sampleTest sampleState)))))))"
    by blast
  have pp: "map pod_Name (phasePods sampleTest sampleExternals CallerCtx ?sfc [] True False) =
      [''e2e-setup'', ''e2e-fail'']"
    "map pod_Name (phasePods sampleTest sampleExternals Background ?sfc [] False False) =
      [''e2e-setup'', ''e2e-fail'', ''e2e-check'']"
    by (simp_all add: phasePods_def podsRun_def runPod_error_def run_defs)
  from t [of sampleTest sampleExternals CallerCtx
      "samplePod ''e2e-setup''" sampleState "[]" True sampleState
      sampleState "[]" sampleState ?sfc False,
      THEN c, THEN c, THEN c, THEN c, THEN c, THEN c, THEN conjunct1]
  have w7: "submitted (events (snd (runSteps sampleTest sampleExternals CallerCtx ?sfc [] True
        False sampleState))) = [''e2e-setup'', ''e2e-fail'']"
    by (simp add: pp st0)
  from t [of sampleTest sampleExternals Background
      "samplePod ''e2e-setup''" sampleState "[]" False sampleState
      sampleState "[]" sampleState ?sfc False,
      THEN c, THEN c, THEN c, THEN c, THEN c, THEN c, THEN conjunct1]
  have w8: "submitted (events (snd (runSteps sampleTest sampleExternals Background ?sfc [] False
        False sampleState))) = [''e2e-setup'', ''e2e-fail'', ''e2e-check'']"
    by (simp add: pp st0)
  have g: "generatePods sampleTest sampleExternals ?fcf [] False = (?batch, None)"
    by (simp add: run_defs)
  have be: "concat (map (\<lambda>pod. case runPod_error sampleTest sampleExternals Background pod of
                                 None \<Rightarrow> [] | Some e \<Rightarrow> [e]) ?batch) =
      [PodError ''e2e'' ''e2e-fail'' StatusFailed (ExternalError ''pod failed''),
       PodError ''e2e'' ''e2e-fail'' StatusFailed (ExternalError ''pod failed'')]"
    by (simp add: runPod_error_def run_defs)
  from t [of sampleTest sampleExternals Background
      "samplePod ''e2e-setup''" sampleState ?batch False sampleState
      sampleState "[]" sampleState ?fcf False,
      THEN c, THEN c, THEN c, THEN c, THEN c, THEN c, THEN c, THEN conjunct1] g
  have w9: "fst (runSteps sampleTest sampleExternals Background ?fcf [] False False sampleState) =
       Some (Aggregate [Aggregate
          [PodError ''e2e'' ''e2e-fail'' StatusFailed (ExternalError ''pod failed''),
           PodError ''e2e'' ''e2e-fail'' StatusFailed (ExternalError ''pod failed'')]])"
    by (simp add: podsRun_def be ctxDone_def NewAggregate_def)
  have e: "environment ?T sampleExternals sampleState = Inr []"
    by (simp add: environment_def sampleTest_def)
  have p0: "fst (provisionAccess ?T sampleState) = None"
    by (simp add: run_defs)
  then have pr: "provisionAccess ?T sampleState = (None, ?st1)"
    by (metis prod.collapse)
  have ev: "submitted (events ?st1) = []"
    by (simp add: run_defs)
  have ppT: "map pod_Name (phasePods ?T sampleExternals CallerCtx ?sfc [] True False) =
      [''e2e-setup'', ''e2e-fail'']"
    "map pod_Name (phasePods ?T sampleExternals Background
       [sampleStep ''fail'', sampleStep ''teardown''] [] False True) =
      [''e2e-fail'', ''e2e-teardown'']"
    by (simp_all add: phasePods_def podsRun_def runPod_error_def run_defs)
  have preF: "fst (runSteps ?T sampleExternals CallerCtx ?sfc [] True False ?st1) \<noteq> None"
    by (simp add: run_defs)
  from t [of ?T sampleExternals CallerCtx
      "samplePod ''e2e-setup''" sampleState "[]" True sampleState
      sampleState "[]" ?st1 "[]" False,
      THEN c, THEN c, THEN c, THEN c, THEN c, THEN c, THEN c, THEN c, THEN c] e pr
  have w10: "submitted (events (snd (run ?T sampleExternals CallerCtx sampleState))) =
       [''e2e-setup'', ''e2e-fail'', ''e2e-fail'', ''e2e-teardown'']"
    by (simp add: ppT preF ev)
  let ?sb = "[sampleStep ''setup'', (sampleStep ''build'')\<lparr>step_Resources := ''cpu: lots''\<rparr>]"
  have gb: "generatePods sampleTest sampleExternals ?sb [] False =
      (fst (generatePods sampleTest sampleExternals ?sb [] False),
       Some (Aggregate [ExternalError ''invalid quantity'']))"
    by (simp add: run_defs)
  from t [of sampleTest sampleExternals CallerCtx
      "samplePod ''e2e-setup''" sampleState
      "fst (generatePods sampleTest sampleExternals ?sb [] False)" True sampleState
      sampleState "[]" sampleState ?sb False,
      THEN c, THEN c, THEN c, THEN c, THEN c, THEN c, THEN c, THEN c, THEN conjunct1] gb
  have w11: "phasePods sampleTest sampleExternals CallerCtx ?sb [] True False = []"
    by blast
  from w1 w2 w3 sample_environment p w6 w7 w8 w9 w10 w11 show ?thesis
    by blast
qed


subsection \<open>Cancellation\<close>

lemma runPods_fst_shape:
  "fst (runPods s x ctx pods sc st) = None \<or> (\<exists>es. fst (runPods s x ctx pods sc st) = Some (Aggregate es))"
  using runPods_spec [of s x ctx pods sc st] by (auto simp: NewAggregate_def)

lemma sample_build:
  "generatePods sampleTest sampleExternals [sampleStep n] [] False =
     (fst (generatePods sampleTest sampleExternals [sampleStep n] [] False), None)
   \<and> map pod_Name (fst (generatePods sampleTest sampleExternals [sampleStep n] [] False)) =
       [''e2e-'' @ n]
   \<and> length (fst (generatePods sampleTest sampleExternals [sampleStep n] [] False)) = 1"
  by (simp add: generatePods_def generatePods_step_def envForDependencies_def sample_defs
        NewAggregate_def labelPod_def addHomeMount_def appendEnv_def addSecretWrapper_def
        addSecret_def Let_def)

lemma runPod_ctxCancelled:
  "ctxCancelled (snd (runPod s x ctx pod n st)) =
     (ctxCancelled st \<or> (x_createOrRestartPod x pod = None \<and> x_cancelsDuring x (pod_Name pod)))"
  by (simp add: runPod_def Let_def split: option.splits prod.splits)

lemma runPods_single:
  "runPods s x ctx [pod] sc st =
     (NewAggregate (case fst (runPod s x ctx pod (notifierFor s pod) st) of
                      None \<Rightarrow> [] | Some e \<Rightarrow> [e]),
      snd (runPod s x ctx pod (notifierFor s pod) st))"
  by (cases "runPod s x ctx pod (notifierFor s pod) st")
     (auto simp: runPods_def split: option.splits)

lemma runPods_loop_ctxCancelled:
  "ctxCancelled (snd (runPods_loop s x ctx sc pods errs st)) =
     (ctxCancelled st \<or>
      list_ex (\<lambda>pod. x_createOrRestartPod x pod = None \<and> x_cancelsDuring x (pod_Name pod))
        (podsRun s x ctx sc pods))"
proof (induction pods arbitrary: errs st)
  case Nil
  then show ?case by (simp add: podsRun_def)
next
  case (Cons pod pods)
  obtain err st1 where r: "runPod s x ctx pod (notifierFor s pod) st = (err, st1)"
    by (cases "runPod s x ctx pod (notifierFor s pod) st")
  have e: "runPod_error s x ctx pod = err"
    using runPod_fst [of s x ctx pod st] r by simp
  have c: "ctxCancelled st1 =
     (ctxCancelled st \<or> (x_createOrRestartPod x pod = None \<and> x_cancelsDuring x (pod_Name pod)))"
    using runPod_ctxCancelled [of s x ctx pod "notifierFor s pod" st] r by simp
  show ?case
  proof (cases err)
    case None
    with r e c Cons.IH [of errs st1] show ?thesis
      by (cases sc) (auto simp: podsRun_def)
  next
    case (Some a)
    with r e c Cons.IH [of "errs @ [a]" st1] show ?thesis
      by (cases sc) (auto simp: podsRun_def)
  qed
qed

lemma runPods_ctxCancelled:
  "ctxCancelled (snd (runPods s x ctx pods sc st)) =
     (ctxCancelled st \<or>
      list_ex (\<lambda>pod. x_createOrRestartPod x pod = None \<and> x_cancelsDuring x (pod_Name pod))
        (podsRun s x ctx sc pods))"
  using runPods_loop_ctxCancelled [of s x ctx sc pods "[]" st]
  by (simp add: runPods_def case_prod_beta)


text \<open>
  C5 (counterexample). The caller's context is already cancelled when the phase starts
  and the resource request of the step \<^verbatim>\<open>build\<close> does not parse: \<^verbatim>\<open>runSteps\<close> returns the
  build error at lines 332 to 335, before the check of \<^verbatim>\<open>ctx.Done()\<close> at line 342. The
  result holds no error "cancelled" and no bulk delete is issued, although the context of
  the phase is done.
\<close>

theorem runSteps_cancelled_build_error:
  "ctxDone CallerCtx (sampleState\<lparr>ctxCancelled := True\<rparr>)
   \<and> runSteps sampleTest sampleExternals CallerCtx
        [(sampleStep ''build'')\<lparr>step_Resources := ''cpu: lots''\<rparr>] [] True False
        (sampleState\<lparr>ctxCancelled := True\<rparr>) =
       (Some (Aggregate [ExternalError ''invalid quantity'']),
        sampleState\<lparr>ctxCancelled := True\<rparr>)
   \<and> ErrorMsg ''cancelled''
        \<notin> set (errorList (fst (runSteps sampleTest sampleExternals CallerCtx
               [(sampleStep ''build'')\<lparr>step_Resources := ''cpu: lots''\<rparr>] [] True False
               (sampleState\<lparr>ctxCancelled := True\<rparr>))))
   \<and> bulkDeletes (events (snd (runSteps sampleTest sampleExternals CallerCtx
               [(sampleStep ''build'')\<lparr>step_Resources := ''cpu: lots''\<rparr>] [] True False
               (sampleState\<lparr>ctxCancelled := True\<rparr>)))) = []"
  by (simp add: runSteps_def generatePods_def generatePods_step_def sample_defs NewAggregate_def
        ctxDone_def sampleState_def)

text \<open>
  C5 (amended). Take a phase whose batch was built without error, so that its pods are
  run. The context of the phase is done when the pods have been run exactly if it is the
  caller's and the caller cancelled it before the phase or while one of its pods ran.
  If it is done, \<^verbatim>\<open>runSteps\<close>
  issues one bulk delete of the pods labelled with the test's name in the job's
  namespace, under \<^verbatim>\<open>cleanupCtx\<close> (which is never done), and its result holds the
  error of the pods (if any), the error of the bulk delete unless it is a not-found,
  and the error "cancelled". If the context is not done, the result holds the error of
  the pods alone, no error "cancelled", and no bulk delete is logged. A phase whose batch
  has a build error returns that error alone and leaves the state as it was, whether or
  not its context is done: it adds no error "cancelled" and issues no bulk delete.
\<close>

theorem runSteps_cancellation:
  "(generatePods s x steps env hasPrevErrs = (pods, None) \<longrightarrow>
    runPods s x ctx pods shortCircuit st = (podsErr, st1) \<longrightarrow>
      runSteps s x ctx steps env shortCircuit hasPrevErrs st =
         (if ctxDone ctx st1
          then (Some (Aggregate
                  ((case podsErr of Some err \<Rightarrow> [err] | None \<Rightarrow> []) @
                   (case x_DeleteAllOf x of
                      Some err \<Rightarrow>
                        if IsNotFound err then []
                        else [Errorf (''failed to delete pods with label '' @ MultiStageTestLabel @
                                       ''='' @ s_name s) err]
                    | None \<Rightarrow> []) @
                   [ErrorMsg ''cancelled''])),
                st1\<lparr>events := events st1 @
                       [DeleteAllOfPods cleanupCtx (js_Namespace (s_jobSpec s)) MultiStageTestLabel
                          (s_name s)]\<rparr>)
          else (NewAggregate (case podsErr of Some err \<Rightarrow> [err] | None \<Rightarrow> []), st1))
       \<and> (ErrorMsg ''cancelled''
            \<in> set (errorList (fst (runSteps s x ctx steps env shortCircuit hasPrevErrs st)))) =
           ctxDone ctx st1
       \<and> bulkDeletes (events (snd (runSteps s x ctx steps env shortCircuit hasPrevErrs st))) =
           bulkDeletes (events st) @
           (if ctxDone ctx st1
            then [DeleteAllOfPods cleanupCtx (js_Namespace (s_jobSpec s)) MultiStageTestLabel
                    (s_name s)]
            else [])
       \<and> \<not> ctxDone cleanupCtx (snd (runSteps s x ctx steps env shortCircuit hasPrevErrs st))
       \<and> ctxDone ctx st1 =
           (ctx = CallerCtx \<and>
            (ctxCancelled st \<or>
             list_ex (\<lambda>pod. x_createOrRestartPod x pod = None \<and> x_cancelsDuring x (pod_Name pod))
               (podsRun s x ctx shortCircuit pods))))
   \<and> (\<forall>err. generatePods s x steps env hasPrevErrs = (pods, Some err) \<longrightarrow>
        runSteps s x ctx steps env shortCircuit hasPrevErrs st = (Some err, st)
        \<and> bulkDeletes (events (snd (runSteps s x ctx steps env shortCircuit hasPrevErrs st))) =
            bulkDeletes (events st))"
proof -
  have whenBuilt: "runSteps s x ctx steps env shortCircuit hasPrevErrs st =
       (if ctxDone ctx st1
        then (Some (Aggregate
                ((case podsErr of Some err \<Rightarrow> [err] | None \<Rightarrow> []) @
                 (case x_DeleteAllOf x of
                    Some err \<Rightarrow>
                      if IsNotFound err then []
                      else [Errorf (''failed to delete pods with label '' @ MultiStageTestLabel @
                                     ''='' @ s_name s) err]
                  | None \<Rightarrow> []) @
                 [ErrorMsg ''cancelled''])),
              st1\<lparr>events := events st1 @
                     [DeleteAllOfPods cleanupCtx (js_Namespace (s_jobSpec s)) MultiStageTestLabel
                        (s_name s)]\<rparr>)
        else (NewAggregate (case podsErr of Some err \<Rightarrow> [err] | None \<Rightarrow> []), st1))
     \<and> (ErrorMsg ''cancelled''
          \<in> set (errorList (fst (runSteps s x ctx steps env shortCircuit hasPrevErrs st)))) =
         ctxDone ctx st1
     \<and> bulkDeletes (events (snd (runSteps s x ctx steps env shortCircuit hasPrevErrs st))) =
         bulkDeletes (events st) @
         (if ctxDone ctx st1
          then [DeleteAllOfPods cleanupCtx (js_Namespace (s_jobSpec s)) MultiStageTestLabel
                  (s_name s)]
          else [])
     \<and> \<not> ctxDone cleanupCtx (snd (runSteps s x ctx steps env shortCircuit hasPrevErrs st))
     \<and> ctxDone ctx st1 =
         (ctx = CallerCtx \<and>
          (ctxCancelled st \<or>
           list_ex (\<lambda>pod. x_createOrRestartPod x pod = None \<and> x_cancelsDuring x (pod_Name pod))
             (podsRun s x ctx shortCircuit pods)))"
    if built: "generatePods s x steps env hasPrevErrs = (pods, None)"
      and ran: "runPods s x ctx pods shortCircuit st = (podsErr, st1)"
  proof -
    note eq = runSteps_built [OF built ran]
    have whenDone: "ctxDone ctx st1 =
         (ctx = CallerCtx \<and>
          (ctxCancelled st \<or>
           list_ex (\<lambda>pod. x_createOrRestartPod x pod = None \<and> x_cancelsDuring x (pod_Name pod))
             (podsRun s x ctx shortCircuit pods)))"
      using runPods_ctxCancelled [of s x ctx pods shortCircuit st] ran
      by (simp add: ctxDone_def)
    have bd: "bulkDeletes (events st1) = bulkDeletes (events st)"
      using runPods_spec [of s x ctx pods shortCircuit st] ran by simp
    have shape: "podsErr = None \<or> (\<exists>es. podsErr = Some (Aggregate es))"
      using runPods_fst_shape [of s x ctx pods shortCircuit st] ran by simp
    have c: "(ErrorMsg ''cancelled''
          \<in> set (errorList (fst (runSteps s x ctx steps env shortCircuit hasPrevErrs st)))) =
         ctxDone ctx st1"
      using shape unfolding eq
      by (auto simp: NewAggregate_def split: option.splits)
    have d: "bulkDeletes (events (snd (runSteps s x ctx steps env shortCircuit hasPrevErrs st))) =
         bulkDeletes (events st) @
         (if ctxDone ctx st1
          then [DeleteAllOfPods cleanupCtx (js_Namespace (s_jobSpec s)) MultiStageTestLabel
                  (s_name s)]
          else [])"
      unfolding eq using bd by simp
    have e: "\<not> ctxDone cleanupCtx (snd (runSteps s x ctx steps env shortCircuit hasPrevErrs st))"
      by (simp add: ctxDone_def cleanupCtx_def)
    from eq c d e whenDone show ?thesis by blast
  qed
  have failed: "\<forall>err. generatePods s x steps env hasPrevErrs = (pods, Some err) \<longrightarrow>
        runSteps s x ctx steps env shortCircuit hasPrevErrs st = (Some err, st)
        \<and> bulkDeletes (events (snd (runSteps s x ctx steps env shortCircuit hasPrevErrs st))) =
            bulkDeletes (events st)"
    by (simp add: runSteps_def)
  from whenBuilt failed show ?thesis by blast
qed

theorem runSteps_cancellation_witness:
  "snd (generatePods sampleTest sampleExternals [sampleStep ''slow''] [] False) = None
   \<and> ctxDone CallerCtx
        (snd (runPods sampleTest sampleExternals CallerCtx
                (fst (generatePods sampleTest sampleExternals [sampleStep ''slow''] [] False))
                True sampleState))
   \<and> ErrorMsg ''cancelled''
        \<in> set (errorList (fst (runSteps sampleTest sampleExternals CallerCtx
                                  [sampleStep ''slow''] [] True False sampleState)))
   \<and> bulkDeletes (events (snd (runSteps sampleTest sampleExternals CallerCtx
                                  [sampleStep ''slow''] [] True False sampleState))) =
       [DeleteAllOfPods cleanupCtx ''ci-op-1'' MultiStageTestLabel ''e2e'']
   \<and> \<not> ctxDone CallerCtx
        (snd (runPods sampleTest sampleExternals CallerCtx
                (fst (generatePods sampleTest sampleExternals [sampleStep ''setup''] [] False))
                True sampleState))
   \<and> ErrorMsg ''cancelled''
        \<notin> set (errorList (fst (runSteps sampleTest sampleExternals CallerCtx
                                  [sampleStep ''setup''] [] True False sampleState)))
   \<and> bulkDeletes (events (snd (runSteps sampleTest sampleExternals CallerCtx
                                  [sampleStep ''setup''] [] True False sampleState))) = []
   \<and> ctxDone CallerCtx (sampleState\<lparr>ctxCancelled := True\<rparr>)
   \<and> runSteps sampleTest sampleExternals CallerCtx
        [(sampleStep ''build'')\<lparr>step_Resources := ''cpu: lots''\<rparr>] [] True False
        (sampleState\<lparr>ctxCancelled := True\<rparr>) =
       (Some (Aggregate [ExternalError ''invalid quantity'']),
        sampleState\<lparr>ctxCancelled := True\<rparr>)"
proof -
  let ?slow = "fst (generatePods sampleTest sampleExternals [sampleStep ''slow''] [] False)"
  let ?plain = "fst (generatePods sampleTest sampleExternals [sampleStep ''setup''] [] False)"
  obtain p where p: "?slow = [p]" and pn: "pod_Name p = ''e2e-slow''"
    using sample_build [of "''slow''"] by (cases ?slow) auto
  obtain q where q: "?plain = [q]" and qn: "pod_Name q = ''e2e-setup''"
    using sample_build [of "''setup''"] by (cases ?plain) auto
  have g1: "generatePods sampleTest sampleExternals [sampleStep ''slow''] [] False = (?slow, None)"
    using sample_build [of "''slow''"] by simp
  have g2: "generatePods sampleTest sampleExternals [sampleStep ''setup''] [] False = (?plain, None)"
    using sample_build [of "''setup''"] by simp
  have d1: "ctxDone CallerCtx (snd (runPods sampleTest sampleExternals CallerCtx ?slow True sampleState))"
    unfolding p runPods_single
    by (simp add: ctxDone_def runPod_ctxCancelled pn sampleExternals_def)
  have d2: "\<not> ctxDone CallerCtx (snd (runPods sampleTest sampleExternals CallerCtx ?plain True sampleState))"
    unfolding q runPods_single
    by (simp add: ctxDone_def runPod_ctxCancelled qn sampleExternals_def sampleState_def)
  have b0: "bulkDeletes (events sampleState) = []"
    by (simp add: sampleState_def)
  have ns: "js_Namespace (s_jobSpec sampleTest) = ''ci-op-1''" "s_name sampleTest = ''e2e''"
    by (simp_all add: sampleTest_def sampleJobSpec_def)
  have r1: "runPods sampleTest sampleExternals CallerCtx ?slow True sampleState =
      (fst (runPods sampleTest sampleExternals CallerCtx ?slow True sampleState),
       snd (runPods sampleTest sampleExternals CallerCtx ?slow True sampleState))"
    by simp
  have r2: "runPods sampleTest sampleExternals CallerCtx ?plain True sampleState =
      (fst (runPods sampleTest sampleExternals CallerCtx ?plain True sampleState),
       snd (runPods sampleTest sampleExternals CallerCtx ?plain True sampleState))"
    by simp
  note a = runSteps_cancellation [of sampleTest sampleExternals "[sampleStep ''slow'']" "[]" False
      ?slow CallerCtx True sampleState
      "fst (runPods sampleTest sampleExternals CallerCtx ?slow True sampleState)"
      "snd (runPods sampleTest sampleExternals CallerCtx ?slow True sampleState)",
      THEN conjunct1, rule_format, OF g1 r1]
  note b = runSteps_cancellation [of sampleTest sampleExternals "[sampleStep ''setup'']" "[]" False
      ?plain CallerCtx True sampleState
      "fst (runPods sampleTest sampleExternals CallerCtx ?plain True sampleState)"
      "snd (runPods sampleTest sampleExternals CallerCtx ?plain True sampleState)",
      THEN conjunct1, rule_format, OF g2 r2]
  have g3: "generatePods sampleTest sampleExternals
      [(sampleStep ''build'')\<lparr>step_Resources := ''cpu: lots''\<rparr>] [] False =
      ([], Some (Aggregate [ExternalError ''invalid quantity'']))"
    by (simp add: generatePods_def generatePods_step_def sample_defs NewAggregate_def)
  have d3: "ctxDone CallerCtx (sampleState\<lparr>ctxCancelled := True\<rparr>)"
    by (simp add: ctxDone_def)
  note c = runSteps_cancellation [of sampleTest sampleExternals
      "[(sampleStep ''build'')\<lparr>step_Resources := ''cpu: lots''\<rparr>]" "[]" False "[]" CallerCtx
      True "sampleState\<lparr>ctxCancelled := True\<rparr>" None sampleState,
      THEN conjunct2, rule_format, OF g3, THEN conjunct1]
  from a [THEN conjunct2, THEN conjunct1] d1
  have a1: "ErrorMsg ''cancelled''
        \<in> set (errorList (fst (runSteps sampleTest sampleExternals CallerCtx
                                  [sampleStep ''slow''] [] True False sampleState)))"
    by simp
  from a [THEN conjunct2, THEN conjunct2, THEN conjunct1] d1 b0 ns
  have a2: "bulkDeletes (events (snd (runSteps sampleTest sampleExternals CallerCtx
                                  [sampleStep ''slow''] [] True False sampleState))) =
       [DeleteAllOfPods cleanupCtx ''ci-op-1'' MultiStageTestLabel ''e2e'']"
    by simp
  from b [THEN conjunct2, THEN conjunct1] d2
  have b1: "ErrorMsg ''cancelled''
        \<notin> set (errorList (fst (runSteps sampleTest sampleExternals CallerCtx
                                  [sampleStep ''setup''] [] True False sampleState)))"
    by simp
  from b [THEN conjunct2, THEN conjunct2, THEN conjunct1] d2 b0
  have b2: "bulkDeletes (events (snd (runSteps sampleTest sampleExternals CallerCtx
                                  [sampleStep ''setup''] [] True False sampleState))) = []"
    by simp
  from g1 have g1': "snd (generatePods sampleTest sampleExternals [sampleStep ''slow''] [] False) = None"
    by (metis snd_conv)
  from g1' d1 a1 a2 d2 b1 b2 d3 c show ?thesis
    by blast
qed


subsection \<open>The three phases\<close>

text \<open>
  C3. After the environment and the access objects are in place, \<^verbatim>\<open>run\<close> runs the
  Pre phase under the caller's context. If Pre fails, the Test phase is not run: the
  Post phase starts from the state Pre left. Otherwise Test runs under the caller's
  context. In both cases Post runs, under \<^verbatim>\<open>context.Background()\<close> (which is never
  done; every wait of the Post phase is logged with it), and is told whether Pre or
  Test failed. The result aggregates the errors of the phases that ran, each under the
  name of its phase.
\<close>

theorem run_phases:
  assumes env: "environment s x st = Inr env"
    and prov: "provisionAccess s st = (None, st1)"
    and pre: "runSteps s x ctx (s_pre s) env True False st1 = (preErr, st2)"
  shows "run s x ctx st =
     (case preErr of
        Some e \<Rightarrow>
          (case runSteps s x Background (s_post s) env False True st2 of (postErr, st4) \<Rightarrow>
             (NewAggregate
                ([Errorf (s_name s @ '' pre steps failed'') e] @
                 (case postErr of None \<Rightarrow> []
                  | Some e' \<Rightarrow> [Errorf (s_name s @ '' post steps failed'') e'])), st4))
      | None \<Rightarrow>
          (case runSteps s x ctx (s_test s) env True False st2 of (testErr, st3) \<Rightarrow>
             (case runSteps s x Background (s_post s) env False (testErr \<noteq> None) st3 of
                (postErr, st4) \<Rightarrow>
                  (NewAggregate
                     ((case testErr of None \<Rightarrow> []
                       | Some e' \<Rightarrow> [Errorf (s_name s @ '' test steps failed'') e']) @
                      (case postErr of None \<Rightarrow> []
                       | Some e' \<Rightarrow> [Errorf (s_name s @ '' post steps failed'') e'])), st4))))
   \<and> (\<exists>k. waitContexts (events (snd (run s x ctx st))) =
        waitContexts
          (events (case preErr of
                     Some e \<Rightarrow> st2
                   | None \<Rightarrow> snd (runSteps s x ctx (s_test s) env True False st2))) @
        replicate k Background)
   \<and> \<not> ctxDone Background (snd (run s x ctx st))"
proof -
  note u = run_unfold [OF env prov pre]
  have w: "\<exists>k. waitContexts (events (snd (run s x ctx st))) =
        waitContexts
          (events (case preErr of
                     Some e \<Rightarrow> st2
                   | None \<Rightarrow> snd (runSteps s x ctx (s_test s) env True False st2))) @
        replicate k Background"
  proof (cases preErr)
    case (Some e)
    have "snd (run s x ctx st) = snd (runSteps s x Background (s_post s) env False True st2)"
      unfolding u Some by (simp add: case_prod_beta)
    with Some runSteps_waitContexts [of s x Background "s_post s" env False True st2]
    show ?thesis by simp
  next
    case None
    obtain testErr st3 where t: "runSteps s x ctx (s_test s) env True False st2 = (testErr, st3)"
      by (cases "runSteps s x ctx (s_test s) env True False st2")
    have "snd (run s x ctx st) =
            snd (runSteps s x Background (s_post s) env False (testErr \<noteq> None) st3)"
      unfolding u None by (simp add: t case_prod_beta)
    with None t
      runSteps_waitContexts [of s x Background "s_post s" env False "testErr \<noteq> None" st3]
    show ?thesis by simp
  qed
  have b: "\<not> ctxDone Background (snd (run s x ctx st))"
    by (simp add: ctxDone_def)
  from u w b show ?thesis by blast
qed

theorem run_phases_witness:
  "environment (sampleTest\<lparr>s_pre := [sampleStep ''fail'']\<rparr>) sampleExternals sampleState = Inr []
   \<and> fst (provisionAccess (sampleTest\<lparr>s_pre := [sampleStep ''fail'']\<rparr>) sampleState) = None
   \<and> fst (runSteps (sampleTest\<lparr>s_pre := [sampleStep ''fail'']\<rparr>) sampleExternals CallerCtx
             [sampleStep ''fail''] [] True False
             (snd (provisionAccess (sampleTest\<lparr>s_pre := [sampleStep ''fail'']\<rparr>) sampleState)))
        = Some (Aggregate [Aggregate [PodError ''e2e'' ''e2e-fail'' StatusFailed
                                        (ExternalError ''pod failed'')]])
   \<and> run (sampleTest\<lparr>s_pre := [sampleStep ''fail'']\<rparr>) sampleExternals CallerCtx sampleState =
       (Some (Aggregate
          [Errorf ''e2e pre steps failed''
             (Aggregate [Aggregate [PodError ''e2e'' ''e2e-fail'' StatusFailed
                                      (ExternalError ''pod failed'')]])]),
        snd (runSteps (sampleTest\<lparr>s_pre := [sampleStep ''fail'']\<rparr>) sampleExternals Background
               [sampleStep ''teardown''] [] False True
               (snd (runSteps (sampleTest\<lparr>s_pre := [sampleStep ''fail'']\<rparr>) sampleExternals
                       CallerCtx [sampleStep ''fail''] [] True False
                       (snd (provisionAccess (sampleTest\<lparr>s_pre := [sampleStep ''fail'']\<rparr>)
                               sampleState))))))
   \<and> submitted (events (snd (run (sampleTest\<lparr>s_pre := [sampleStep ''fail'']\<rparr>) sampleExternals
         CallerCtx sampleState))) = [''e2e-fail'', ''e2e-teardown'']
   \<and> waitContexts (events (snd (run (sampleTest\<lparr>s_pre := [sampleStep ''fail'']\<rparr>)
         sampleExternals CallerCtx sampleState))) = [CallerCtx, Background]"
proof -
  let ?T = "sampleTest\<lparr>s_pre := [sampleStep ''fail'']\<rparr>"
  let ?st1 = "snd (provisionAccess ?T sampleState)"
  let ?pre = "runSteps ?T sampleExternals CallerCtx (s_pre ?T) [] True False ?st1"
  have e: "environment ?T sampleExternals sampleState = Inr []"
    by (simp add: environment_def sampleTest_def)
  have p0: "fst (provisionAccess ?T sampleState) = None"
    by (simp add: run_defs)
  then have p: "provisionAccess ?T sampleState = (None, ?st1)"
    by (metis prod.collapse)
  have r: "?pre = (fst ?pre, snd ?pre)"
    by simp
  have pre: "s_pre ?T = [sampleStep ''fail'']" and post: "s_post ?T = [sampleStep ''teardown'']"
    by (simp_all add: sampleTest_def)
  have f: "fst (runSteps ?T sampleExternals CallerCtx [sampleStep ''fail''] [] True False ?st1) =
      Some (Aggregate [Aggregate [PodError ''e2e'' ''e2e-fail'' StatusFailed
                                        (ExternalError ''pod failed'')]])"
    by (simp add: run_defs)
  have g: "fst (runSteps ?T sampleExternals Background [sampleStep ''teardown''] [] False True
             (snd (runSteps ?T sampleExternals CallerCtx [sampleStep ''fail''] [] True False ?st1)))
           = None"
    by (simp add: run_defs)
  have n: "s_name ?T = ''e2e''"
    by (simp add: sampleTest_def)
  have s: "submitted (events (snd (run ?T sampleExternals CallerCtx sampleState))) =
             [''e2e-fail'', ''e2e-teardown'']"
    by (simp add: run_defs)
  have w: "waitContexts (events (snd (run ?T sampleExternals CallerCtx sampleState))) =
             [CallerCtx, Background]"
    by (simp add: run_defs)
  from run_phases [OF e p r, THEN conjunct1] f g
  have "run ?T sampleExternals CallerCtx sampleState =
       (Some (Aggregate
          [Errorf ''e2e pre steps failed''
             (Aggregate [Aggregate [PodError ''e2e'' ''e2e-fail'' StatusFailed
                                      (ExternalError ''pod failed'')]])]),
        snd (runSteps ?T sampleExternals Background [sampleStep ''teardown''] [] False True
               (snd (runSteps ?T sampleExternals CallerCtx [sampleStep ''fail''] [] True False
                       ?st1))))"
    by (simp add: pre post n NewAggregate_def case_prod_beta)
  with e p0 f s w show ?thesis
    by blast
qed


subsection \<open>The CLI injector\<close>

text \<open>
  \<^verbatim>\<open>addCliInjector\<close> rewrites the arguments of the first container and nothing else:
  an argument that starts with the preamble gets the \<^verbatim>\<open>PATH\<close> export after it, the
  command is left as it is.
\<close>

lemma HasPrefix_append [simp]: "HasPrefix (pre @ rest) pre"
  by (simp add: HasPrefix_def)

lemma TrimPrefix_append [simp]: "TrimPrefix (pre @ rest) pre = rest"
  by (simp add: TrimPrefix_def)

lemma injectCliPath_script:
  "injectCliPath (CommandPrefix @ commands) =
     CommandPrefix @ cliPathExport @ ''\<newline>'' @ commands"
  by (simp add: injectCliPath_def)

lemma length_CommandPrefix: "length CommandPrefix = 293"
  by (simp add: CommandPrefix_def)

lemma injectCliPath_short: "length arg < 293 \<Longrightarrow> injectCliPath arg = arg"
  using length_CommandPrefix by (auto simp: injectCliPath_def HasPrefix_def)

lemma addCliInjector_adds:
  "\<lparr>vol_Name = ''cli'', vol_VolumeSource = EmptyDir\<rparr> \<in> set (pod_Volumes (addCliInjector x release pod))
   \<and> \<lparr>c_Name = ''inject-cli'', c_Image = x_ReleaseStreamFor x release @ '':cli'',
       c_Command = [''/bin/cp''], c_Args = [''/usr/bin/oc'', CliMountPath], c_Env = [],
       c_VolumeMounts = [\<lparr>vm_Name = ''cli'', vm_MountPath = CliMountPath\<rparr>],
       c_TerminationMessagePolicy = ''''\<rparr> \<in> set (pod_InitContainers (addCliInjector x release pod))
   \<and> \<lparr>vm_Name = ''cli'', vm_MountPath = CliMountPath\<rparr>
        \<in> set (c_VolumeMounts (pod_Container0 (addCliInjector x release pod)))
   \<and> \<lparr>env_Name = CliEnv, env_Value = CliMountPath\<rparr>
        \<in> set (c_Env (pod_Container0 (addCliInjector x release pod)))
   \<and> c_Args (pod_Container0 (addCliInjector x release pod)) =
        map injectCliPath (c_Args (pod_Container0 pod))
   \<and> c_Command (pod_Container0 (addCliInjector x release pod)) = c_Command (pod_Container0 pod)"
  by (simp add: addCliInjector_def Let_def)

text \<open>
  What holds for every step that names a CLI release stream and is built: the empty
  volume, the init container that copies the binary from the release stream's
  \<^verbatim>\<open>cli\<close> image, the mount at \<^verbatim>\<open>CliMountPath\<close> and the variable \<^verbatim>\<open>CLI_DIR\<close>.
\<close>

lemma generatePods_step_cli_parts:
  assumes "step_Cli step \<noteq> ''''"
    and "generatePods_step s x env h step = ([pod], [])"
  shows "\<lparr>vol_Name = ''cli'', vol_VolumeSource = EmptyDir\<rparr> \<in> set (pod_Volumes pod)
   \<and> \<lparr>c_Name = ''inject-cli'', c_Image = x_ReleaseStreamFor x (step_Cli step) @ '':cli'',
       c_Command = [''/bin/cp''], c_Args = [''/usr/bin/oc'', CliMountPath], c_Env = [],
       c_VolumeMounts = [\<lparr>vm_Name = ''cli'', vm_MountPath = CliMountPath\<rparr>],
       c_TerminationMessagePolicy = ''''\<rparr> \<in> set (pod_InitContainers pod)
   \<and> \<lparr>vm_Name = ''cli'', vm_MountPath = CliMountPath\<rparr>
        \<in> set (c_VolumeMounts (pod_Container0 pod))
   \<and> \<lparr>env_Name = CliEnv, env_Value = CliMountPath\<rparr> \<in> set (c_Env (pod_Container0 pod))"
  using assms
  by (auto simp: generatePods_step_def Let_def addCredentials_eq addSecret_def
        addCliInjector_def
      split: if_splits sum.splits prod.splits option.splits)

text \<open>
  When the step goes through the secret wrapper and the base pod keeps the command in
  the \<^verbatim>\<open>Command\<close> field, the wrapper moves the script into the arguments and the
  injector rewrites its preamble.
\<close>

lemma generatePods_step_cli_wrapped:
  assumes cli: "step_Cli step \<noteq> ''''" and rw: "\<not> step_ReadonlySharedDir step"
    and base: "\<And>js name cname cmd img res dir p.
       x_generateBasePod x js name cname cmd img res dir = Inr p \<Longrightarrow>
       c_Command (pod_Container0 p) = cmd \<and> c_Args (pod_Container0 p) = []"
    and built: "generatePods_step s x env h step = ([pod], [])"
  shows "c_Args (pod_Container0 pod) =
           [''/bin/bash'', ''-c'',
            CommandPrefix @ cliPathExport @ ''\<newline>'' @ step_Commands step]"
proof -
  have short: "injectCliPath ''/bin/bash'' = ''/bin/bash''" "injectCliPath ''-c'' = ''-c''"
    by (simp_all add: injectCliPath_short)
  show ?thesis
    using cli rw built
    by (auto simp: generatePods_step_def Let_def addCredentials_eq addSecret_def
          addCliInjector_def addSecretWrapper_def appendEnv_def addProfile_def labelPod_def
          addHomeMount_def injectCliPath_script short
        split: if_splits sum.splits prod.splits option.splits dest!: base)
qed


text \<open>
  C8 (failing input). The step \<^verbatim>\<open>oc\<close> names the CLI stream 4.10 and has a read-only
  shared directory, so \<^verbatim>\<open>addSecretWrapper\<close> is not applied (line 398) and the script
  stays in the \<^verbatim>\<open>Command\<close> field, where \<^verbatim>\<open>addCliInjector\<close> does not look: the pod
  has the init container and \<^verbatim>\<open>CLI_DIR\<close>, its command is still the plain preamble
  followed by the step's commands, and it has no arguments. The \<^verbatim>\<open>PATH\<close> export is
  missing.
\<close>

theorem generatePods_cli_readonly_no_path:
  "(case generatePods sampleTest sampleExternals
           [(sampleStep ''oc'')\<lparr>step_Cli := ''4.10'', step_ReadonlySharedDir := True\<rparr>]
           [] False of
      (pods, err) \<Rightarrow>
        err = None \<and> length pods = 1
        \<and> map c_Name (pod_InitContainers (hd pods)) = [''inject-cli'']
        \<and> \<lparr>env_Name = CliEnv, env_Value = CliMountPath\<rparr> \<in> set (c_Env (pod_Container0 (hd pods)))
        \<and> c_Command (pod_Container0 (hd pods)) =
            [''/bin/bash'', ''-c'', CommandPrefix @ ''make test'']
        \<and> c_Args (pod_Container0 (hd pods)) = [])"
  by (simp add: generatePods_def generatePods_step_def envForDependencies_def sample_defs
        NewAggregate_def labelPod_def addHomeMount_def appendEnv_def addCliInjector_def
        addSecret_def multiStageTestStepContainerName_def Let_def)

text \<open>The same step with a writable shared directory gets the export.\<close>

lemma generatePods_cli_wrapped_path:
  "(case generatePods sampleTest sampleExternals
           [(sampleStep ''oc'')\<lparr>step_Cli := ''4.10''\<rparr>] [] False of
      (pods, err) \<Rightarrow>
        err = None \<and> length pods = 1
        \<and> c_Args (pod_Container0 (hd pods)) =
            [''/bin/bash'', ''-c'', CommandPrefix @ cliPathExport @ ''\<newline>'' @ ''make test''])"
  by (simp add: generatePods_def generatePods_step_def envForDependencies_def sample_defs
        NewAggregate_def labelPod_def addHomeMount_def appendEnv_def addCliInjector_def
        addSecret_def addSecretWrapper_def multiStageTestStepContainerName_def Let_def
        injectCliPath_script injectCliPath_short)

subsection \<open>The prerequisites of a test\<close>

text \<open>
  What the loop of \<^verbatim>\<open>Requires\<close> returns: the links of the steps in declaration order,
  the set of internal image names, and whether some step has an external source image.
\<close>

lemma Requires_loop_ret:
  "fst (Requires_loop x steps ret il n) = ret @ concat (map (stepLinks x) steps)"
  by (induction steps arbitrary: ret il n)
     (simp_all add: Let_def case_prod_beta stepLinks_def)

lemma Requires_loop_needs:
  "snd (snd (Requires_loop x steps ret il n)) = (n \<or> (\<exists>step \<in> set steps. externalSource x step))"
  by (induction steps arbitrary: ret il n)
     (auto simp: Let_def case_prod_beta externalSource_def)

lemma Requires_loop_internal_set:
  "set (fst (snd (Requires_loop x steps ret il n))) =
     set il \<union> set (concat (map (internalNames x) steps))"
  by (induction steps arbitrary: ret il n)
     (auto simp: Let_def case_prod_beta internalNames_def externalSource_def
        split: option.splits if_splits)

lemma Requires_loop_internal_distinct:
  "distinct il \<Longrightarrow> distinct (fst (snd (Requires_loop x steps ret il n)))"
  by (induction steps arbitrary: ret il n)
     (auto simp: Let_def case_prod_beta split: option.splits)

text \<open>
  C7 (counterexample). With a profile set, a profile-related parameter for which
  \<^verbatim>\<open>utils.LinkForEnv\<close> reports no link (line 192, \<^verbatim>\<open>ok\<close> false) adds nothing: here
  \<^verbatim>\<open>LEASED_RESOURCE\<close> is one of the three profile-related parameters and the result holds
  two parameter links only. So links are not added for every profile-related parameter.
\<close>

theorem Requires_profile_parameter_without_link:
  "s_profile (sampleTest\<lparr>s_profile := ''aws''\<rparr>) \<noteq> ''''
   \<and> ''LEASED_RESOURCE'' \<in> set (x_envForProfile sampleExternals)
   \<and> x_LinkForEnv sampleExternals ''LEASED_RESOURCE'' = None
   \<and> Requires (sampleTest\<lparr>s_profile := ''aws''\<rparr>) sampleExternals =
       [StepLink ''pipeline src'', StepLink ''release payload latest'', StepLink ''images ready'']"
  by (simp add: Requires_def sampleTest_def sampleStep_def sampleExternals_def)

text \<open>
  C7 (amended). The result of \<^verbatim>\<open>Requires\<close> is, in this order: the dependency links and the
  CLI link of every step in declaration order; one internal image link for each distinct
  internal image name, in an order that is not fixed; if a profile is set, the link of every
  profile-related parameter for which \<^verbatim>\<open>utils.LinkForEnv\<close> reports one, in the order of
  \<^verbatim>\<open>envForProfile\<close>; and last \<^verbatim>\<open>api.ReleaseImagesLink(api.LatestReleaseName)\<close>, appended
  exactly when some step's source image is external (neither a pipeline image nor built by
  the configuration) and no profile is set. So with a profile set \<^verbatim>\<open>Requires\<close> never appends
  the release-images link, also when a step's source image is external, and every link that
  \<^verbatim>\<open>utils.LinkForEnv\<close> reports for a profile-related parameter is in the result. The links
  themselves are answers of \<^verbatim>\<open>api.LinkForImage\<close>, \<^verbatim>\<open>api.InternalImageLink\<close>,
  \<^verbatim>\<open>utils.LinkForEnv\<close> and \<^verbatim>\<open>api.ReleaseImagesLink\<close>, which are not in this file: whether two
  of them can answer the same link is not decided here.
\<close>

theorem Requires_parts:
  "(\<exists>internalLinks.
      distinct internalLinks
      \<and> set internalLinks = set (concat (map (internalNames x) (s_pre s @ s_test s @ s_post s)))
      \<and> Requires s x =
          concat (map (stepLinks x) (s_pre s @ s_test s @ s_post s)) @
          map (x_InternalImageLink x) internalLinks @
          (if s_profile s \<noteq> ''''
           then concat (map (\<lambda>env. case x_LinkForEnv x env of Some link \<Rightarrow> [link] | None \<Rightarrow> [])
                          (x_envForProfile x))
           else []) @
          (if (\<exists>step \<in> set (s_pre s @ s_test s @ s_post s). externalSource x step)
              \<and> s_profile s = ''''
           then [x_ReleaseImagesLink x (x_LatestReleaseName x)]
           else []))
   \<and> (s_profile s \<noteq> '''' \<longrightarrow>
        (\<forall>env \<in> set (x_envForProfile x). \<forall>link. x_LinkForEnv x env = Some link \<longrightarrow>
           link \<in> set (Requires s x)))"
proof -
  let ?steps = "s_pre s @ s_test s @ s_post s"
  obtain ret il n where r: "Requires_loop x ?steps [] [] False = (ret, il, n)"
    by (cases "Requires_loop x ?steps [] [] False") auto
  have ret: "ret = concat (map (stepLinks x) ?steps)"
    using Requires_loop_ret [of x ?steps "[]" "[]" False] r by simp
  have n: "n = (\<exists>step \<in> set ?steps. externalSource x step)"
    using Requires_loop_needs [of x ?steps "[]" "[]" False] r by simp
  have il: "distinct il" "set il = set (concat (map (internalNames x) ?steps))"
    using Requires_loop_internal_set [of x ?steps "[]" "[]" False]
      Requires_loop_internal_distinct [of "[]" x ?steps "[]" False] r by simp_all
  have eq: "Requires s x =
          concat (map (stepLinks x) ?steps) @
          map (x_InternalImageLink x) il @
          (if s_profile s \<noteq> ''''
           then concat (map (\<lambda>env. case x_LinkForEnv x env of Some link \<Rightarrow> [link] | None \<Rightarrow> [])
                          (x_envForProfile x))
           else []) @
          (if (\<exists>step \<in> set ?steps. externalSource x step) \<and> s_profile s = ''''
           then [x_ReleaseImagesLink x (x_LatestReleaseName x)]
           else [])"
    unfolding Requires_def r ret [symmetric] n [symmetric]
    by (simp add: Let_def)
  have links: "s_profile s \<noteq> '''' \<longrightarrow>
        (\<forall>env \<in> set (x_envForProfile x). \<forall>link. x_LinkForEnv x env = Some link \<longrightarrow>
           link \<in> set (Requires s x))"
    unfolding eq by force
  from il eq links show ?thesis by blast
qed

text \<open>
  On the sample: a test with a profile, an external source image, a dependency and a CLI
  stream gets the two image links, the internal link and the two parameter links, and no
  release-images link; the same test without the profile ends with the release-images
  link; the plain sample test, all of whose images are internal, gets neither.
\<close>

theorem Requires_parts_witness:
  "Requires (sampleTest\<lparr>s_profile := ''aws'',
       s_test := [(sampleStep ''run'')\<lparr>step_From := ''installer'', step_Cli := ''4.10'',
                    step_Dependencies := [\<lparr>dep_Name = ''tools'', dep_Env = ''TOOLS''\<rparr>]\<rparr>]\<rparr>)
     sampleExternals =
     [StepLink ''image stable:tools'', StepLink ''image stable:stable-4.10:cli'',
      StepLink ''pipeline src'', StepLink ''release payload latest'', StepLink ''images ready'']
   \<and> Requires (sampleTest\<lparr>
       s_test := [(sampleStep ''run'')\<lparr>step_From := ''installer'', step_Cli := ''4.10'',
                    step_Dependencies := [\<lparr>dep_Name = ''tools'', dep_Env = ''TOOLS''\<rparr>]\<rparr>]\<rparr>)
     sampleExternals =
     [StepLink ''image stable:tools'', StepLink ''image stable:stable-4.10:cli'',
      StepLink ''pipeline src'', StepLink ''release images latest'']
   \<and> Requires sampleTest sampleExternals = [StepLink ''pipeline src'']
   \<and> StepLink ''images ready'' \<in> set (Requires (sampleTest\<lparr>s_profile := ''aws''\<rparr>) sampleExternals)"
proof -
  let ?run = "(sampleStep ''run'')\<lparr>step_From := ''installer'', step_Cli := ''4.10'',
                    step_Dependencies := [\<lparr>dep_Name = ''tools'', dep_Env = ''TOOLS''\<rparr>]\<rparr>"
  have names: "internalNames sampleExternals (sampleStep ''setup'') = [''src'']"
    "internalNames sampleExternals (sampleStep ''teardown'') = [''src'']"
    "internalNames sampleExternals (sampleStep ''run'') = [''src'']"
    "internalNames sampleExternals ?run = []"
    by (simp_all add: internalNames_def externalSource_def sampleStep_def sampleExternals_def)
  have ext: "\<not> externalSource sampleExternals (sampleStep ''setup'')"
    "\<not> externalSource sampleExternals (sampleStep ''teardown'')"
    "\<not> externalSource sampleExternals (sampleStep ''run'')"
    "externalSource sampleExternals ?run"
    by (simp_all add: externalSource_def sampleStep_def sampleExternals_def)
  have links: "stepLinks sampleExternals (sampleStep ''setup'') = []"
    "stepLinks sampleExternals (sampleStep ''teardown'') = []"
    "stepLinks sampleExternals (sampleStep ''run'') = []"
    "stepLinks sampleExternals ?run =
       [StepLink ''image stable:tools'', StepLink ''image stable:stable-4.10:cli'']"
    by (simp_all add: stepLinks_def sampleStep_def sampleExternals_def)
  have single: "\<And>il. distinct il \<Longrightarrow> set il = {''src''} \<Longrightarrow> il = [''src'']"
  proof -
    fix il :: "string list" assume d: "distinct il" and s: "set il = {''src''}"
    then have "length il = 1" using distinct_card [of il] by simp
    with s show "il = [''src'']" by (cases il) auto
  qed
  have xs: "x_envForProfile sampleExternals =
              [''RELEASE_IMAGE_LATEST'', ''LEASED_RESOURCE'', ''IMAGE_FORMAT'']"
    "x_LinkForEnv sampleExternals ''RELEASE_IMAGE_LATEST'' = Some (StepLink ''release payload latest'')"
    "x_LinkForEnv sampleExternals ''LEASED_RESOURCE'' = None"
    "x_LinkForEnv sampleExternals ''IMAGE_FORMAT'' = Some (StepLink ''images ready'')"
    "x_InternalImageLink sampleExternals ''src'' = StepLink ''pipeline src''"
    "x_ReleaseImagesLink sampleExternals (x_LatestReleaseName sampleExternals) =
       StepLink ''release images latest''"
    by (simp_all add: sampleExternals_def)
  let ?A = "sampleTest\<lparr>s_profile := ''aws'', s_test := [?run]\<rparr>"
  let ?B = "sampleTest\<lparr>s_test := [?run]\<rparr>"
  let ?C = "sampleTest\<lparr>s_profile := ''aws''\<rparr>"
  have fa: "s_pre ?A @ s_test ?A @ s_post ?A = [sampleStep ''setup'', ?run, sampleStep ''teardown'']"
    "s_profile ?A = ''aws''"
    by (simp_all add: sampleTest_def)
  have fb: "s_pre ?B @ s_test ?B @ s_post ?B = [sampleStep ''setup'', ?run, sampleStep ''teardown'']"
    "s_profile ?B = []"
    by (simp_all add: sampleTest_def)
  have fc: "s_pre sampleTest @ s_test sampleTest @ s_post sampleTest =
      [sampleStep ''setup'', sampleStep ''run'', sampleStep ''teardown'']"
    "s_profile sampleTest = []"
    by (simp_all add: sampleTest_def)
  from Requires_parts [of sampleExternals ?A, THEN conjunct1]
  obtain ia where ia: "distinct ia" "set ia = {''src''}"
    "Requires ?A sampleExternals =
       [StepLink ''image stable:tools'', StepLink ''image stable:stable-4.10:cli''] @
       map (x_InternalImageLink sampleExternals) ia @
       [StepLink ''release payload latest'', StepLink ''images ready'']"
    unfolding fa by (simp add: names ext links xs) blast
  from Requires_parts [of sampleExternals ?B, THEN conjunct1]
  obtain ib where ib: "distinct ib" "set ib = {''src''}"
    "Requires ?B sampleExternals =
       [StepLink ''image stable:tools'', StepLink ''image stable:stable-4.10:cli''] @
       map (x_InternalImageLink sampleExternals) ib @
       [StepLink ''release images latest'']"
    unfolding fb by (simp add: names ext links xs) blast
  from Requires_parts [of sampleExternals sampleTest, THEN conjunct1]
  obtain ic where ic: "distinct ic" "set ic = {''src''}"
    "Requires sampleTest sampleExternals = map (x_InternalImageLink sampleExternals) ic"
    unfolding fc by (simp add: names ext links xs) blast
  have a: "Requires ?A sampleExternals =
     [StepLink ''image stable:tools'', StepLink ''image stable:stable-4.10:cli'',
      StepLink ''pipeline src'', StepLink ''release payload latest'', StepLink ''images ready'']"
    using single [OF ia(1) ia(2)] ia(3) by (simp add: xs)
  have b: "Requires ?B sampleExternals =
     [StepLink ''image stable:tools'', StepLink ''image stable:stable-4.10:cli'',
      StepLink ''pipeline src'', StepLink ''release images latest'']"
    using single [OF ib(1) ib(2)] ib(3) by (simp add: xs)
  have c: "Requires sampleTest sampleExternals = [StepLink ''pipeline src'']"
    using single [OF ic(1) ic(2)] ic(3) by (simp add: xs)
  have "s_profile ?C \<noteq> ''''" "''IMAGE_FORMAT'' \<in> set (x_envForProfile sampleExternals)"
    by (simp_all add: xs)
  with Requires_parts [of sampleExternals ?C, THEN conjunct2] xs(4)
  have d: "StepLink ''images ready'' \<in> set (Requires ?C sampleExternals)"
    by blast
  from a b c d show ?thesis by blast
qed

subsection \<open>Mirrored credential names\<close>

lemma dash_append_eq:
  "(a @ CHR ''-'' # x = b @ CHR ''-'' # y) =
     (a = b \<and> x = y
      \<or> (\<exists>t. a = b @ CHR ''-'' # t \<and> y = t @ CHR ''-'' # x)
      \<or> (\<exists>t. b = a @ CHR ''-'' # t \<and> x = t @ CHR ''-'' # y))"
proof -
  have "(a @ CHR ''-'' # x = b @ CHR ''-'' # y) =
        (\<exists>us. a = b @ us \<and> us @ CHR ''-'' # x = CHR ''-'' # y
            \<or> a @ us = b \<and> CHR ''-'' # x = us @ CHR ''-'' # y)"
    by (rule append_eq_append_conv2)
  also have "\<dots> = (a = b \<and> x = y
      \<or> (\<exists>t. a = b @ CHR ''-'' # t \<and> y = t @ CHR ''-'' # x)
      \<or> (\<exists>t. b = a @ CHR ''-'' # t \<and> x = t @ CHR ''-'' # y))"
  proof
    assume "\<exists>us. a = b @ us \<and> us @ CHR ''-'' # x = CHR ''-'' # y
            \<or> a @ us = b \<and> CHR ''-'' # x = us @ CHR ''-'' # y"
    then obtain us where us:
      "a = b @ us \<and> us @ CHR ''-'' # x = CHR ''-'' # y
       \<or> a @ us = b \<and> CHR ''-'' # x = us @ CHR ''-'' # y" ..
    show "a = b \<and> x = y
      \<or> (\<exists>t. a = b @ CHR ''-'' # t \<and> y = t @ CHR ''-'' # x)
      \<or> (\<exists>t. b = a @ CHR ''-'' # t \<and> x = t @ CHR ''-'' # y)"
    proof (cases us)
      case Nil
      with us show ?thesis by auto
    next
      case (Cons u t)
      with us show ?thesis by auto
    qed
  next
    assume "a = b \<and> x = y
      \<or> (\<exists>t. a = b @ CHR ''-'' # t \<and> y = t @ CHR ''-'' # x)
      \<or> (\<exists>t. b = a @ CHR ''-'' # t \<and> x = t @ CHR ''-'' # y)"
    then show "\<exists>us. a = b @ us \<and> us @ CHR ''-'' # x = CHR ''-'' # y
            \<or> a @ us = b \<and> CHR ''-'' # x = us @ CHR ''-'' # y"
      by (elim disjE exE conjE) (rule exI [of _ "[]"], simp, (rule exI, simp)+)
  qed
  finally show ?thesis .
qed

text \<open>
  C2 (counterexample). The credentials (ns-a, name) and (ns, a-name) are distinct and
  are mirrored under the same name, ns-a-name: the derivation is not injective. The
  comment at lines 295 to 298 of the source names this very collision.
\<close>

theorem credentialSecretName_collision:
  "credentialSecretName
     \<lparr>cred_Namespace = ''ns-a'', cred_Name = ''name'', cred_MountPath = ''/a''\<rparr> =
   credentialSecretName
     \<lparr>cred_Namespace = ''ns'', cred_Name = ''a-name'', cred_MountPath = ''/b''\<rparr>
   \<and> (''ns-a'', ''name'') \<noteq> (''ns'', ''a-name'')"
  by (simp add: credentialSecretName_def)

text \<open>
  C2 (amended). The mirrored name is a function of the namespace and the name alone,
  so the same pair always gets the same name. Two references get the same mirrored
  name exactly when their pairs are equal, or when the namespace of one is the
  namespace of the other followed by a dash and some text t, and the name of the other
  is t, a dash and the name of the first.
\<close>

theorem credentialSecretName_eq_iff:
  "(credentialSecretName c1 = credentialSecretName c2) =
     (cred_Namespace c1 = cred_Namespace c2 \<and> cred_Name c1 = cred_Name c2
      \<or> (\<exists>t. cred_Namespace c1 = cred_Namespace c2 @ ''-'' @ t
             \<and> cred_Name c2 = t @ ''-'' @ cred_Name c1)
      \<or> (\<exists>t. cred_Namespace c2 = cred_Namespace c1 @ ''-'' @ t
             \<and> cred_Name c1 = t @ ''-'' @ cred_Name c2))"
  unfolding credentialSecretName_def
  using dash_append_eq [of "cred_Namespace c1" "cred_Name c1" "cred_Namespace c2" "cred_Name c2"]
  by simp

end
